theory Spec2Isabelle
  imports Main "HOL-Library.Word" "HOL-Library.Sublist" "HOL-Library.Monad_Syntax"
begin

section \<open>JavaScript strings\<close>

text \<open>
  A JavaScript string is a sequence of UTF-16 code units; \<open>length\<close>, \<open>indexOf\<close>,
  \<open>substring\<close> and \<open>===\<close> all work on code units. The literals of the sources are
  written with \<open>asc\<close> where they are printable ASCII and as code units elsewhere
  (Devanagari text, emoji as surrogate pairs, line feeds).
\<close>

type_synonym code_unit = "16 word"

type_synonym jsstring = "code_unit list"

definition asc :: "string \<Rightarrow> jsstring" where
  "asc s = map (\<lambda>c. of_nat (of_char c)) s"

text \<open>
  \<open>String.prototype.indexOf(searchString)\<close>: the index of the first occurrence, \<open>-1\<close>
  when there is none. The second argument of \<open>indexOfFrom\<close> is the text still to be
  scanned, the third the index of its first code unit.
\<close>

fun indexOfFrom :: "jsstring \<Rightarrow> jsstring \<Rightarrow> nat \<Rightarrow> int" where
  "indexOfFrom pat [] k = (if pat = [] then int k else - 1)"
| "indexOfFrom pat (c # cs) k =
     (if prefix pat (c # cs) then int k else indexOfFrom pat cs (Suc k))"

definition indexOf :: "jsstring \<Rightarrow> jsstring \<Rightarrow> int" where
  "indexOf s pat = indexOfFrom pat s 0"

text \<open>
  \<open>String.prototype.substring(start, end)\<close>: both indices are clamped to
  \<open>[0, length]\<close> and swapped when \<open>start > end\<close>; with one argument the end is the
  length of the string.
\<close>

definition substring :: "jsstring \<Rightarrow> int \<Rightarrow> int \<Rightarrow> jsstring" where
  "substring s start fin =
     (let len = int (length s);
          a = min (max start 0) len;
          b = min (max fin 0) len;
          lo = min a b;
          hi = max a b
      in take (nat (hi - lo)) (drop (nat lo) s))"

definition substringFrom :: "jsstring \<Rightarrow> int \<Rightarrow> jsstring" where
  "substringFrom s start = substring s start (int (length s))"

section \<open>The template-patching scripts\<close>

text \<open>
  \<open>fix_market_prices.js\<close> and the second patching script read
  \<open>core/templates/index.html\<close>, look for two marker strings and, when both are found,
  write the file back with the text between them replaced. What a script does to its
  environment is the list of its effects, in order. The file system holds the decoded
  text of each file (\<open>readFileSync(path, 'utf8')\<close> and \<open>writeFileSync\<close> of a string);
  \<open>readFileSync\<close> of a missing file throws, which ends the script before any effect.
\<close>

datatype node_effect =
    WriteFileSync jsstring jsstring
  | ConsoleLog jsstring

type_synonym filesystem = "jsstring \<rightharpoonup> jsstring"

fun apply_effect :: "node_effect \<Rightarrow> filesystem \<Rightarrow> filesystem" where
  "apply_effect (WriteFileSync path text) fs = fs(path \<mapsto> text)"
| "apply_effect (ConsoleLog msg) fs = fs"

definition templatePath :: jsstring where
  "templatePath = asc ''core/templates/index.html''"

definition searchMandiMarker :: jsstring where
  "searchMandiMarker = asc ''async function searchMandiByLocation() {''"

definition loadMarketPricesMarker :: jsstring where
  "loadMarketPricesMarker = asc ''async function loadMarketPrices() {''"

definition fetchMarketPricesMarker :: jsstring where
  "fetchMarketPricesMarker = asc ''async function fetchMarketPrices() {''"

text \<open>The replacement text of \<open>fix_market_prices.js\<close> (its template literal \<open>newFunction\<close>).\<close>

definition newFunction_loadMarketPrices :: jsstring where
  \<open>newFunction_loadMarketPrices =
   concat
        [asc ''async function loadMarketPrices() {'' @ [0x000A],
         asc ''        try {'' @ [0x000A],
         asc ''            const container = document.getElementById(\'pricesData\');'' @ [0x000A],
         asc ''            container.innerHTML = \'<div class="loading">'' @ [0x092C, 0x093E, 0x091C, 0x093E, 0x0930, 0x0020, 0x092D, 0x093E, 0x0935, 0x0020, 0x0932, 0x094B, 0x0921, 0x0020, 0x0939, 0x094B, 0x0020, 0x0930, 0x0939, 0x0947, 0x0020, 0x0939, 0x0948, 0x0902] @ asc ''...</div>\';'' @ [0x000A],
         asc ''            '' @ [0x000A],
         asc ''            const response = await fetch(`/api/realtime-gov/market_prices/?location=${currentLocation}&latitude=${currentLatitude}&longitude=${currentLongitude}`);'' @ [0x000A],
         asc ''            const data = await response.json();'' @ [0x000A],
         asc ''            '' @ [0x000A],
         asc ''            console.log(\'Market Prices Data:\', data);'' @ [0x000A],
         asc ''            '' @ [0x000A],
         asc ''            if (data.status === \'success\' && data.crops && data.crops.length > 0) {'' @ [0x000A],
         asc ''                // Store data globally for mandi selection'' @ [0x000A],
         asc ''                window.allCropsData = data;'' @ [0x000A],
         asc ''                '' @ [0x000A],
         asc ''                // Convert crops array to marketData format for compatibility'' @ [0x000A],
         asc ''                const marketData = {};'' @ [0x000A],
         asc ''                data.crops.forEach(crop => {'' @ [0x000A],
         asc ''                    marketData[crop.name] = crop;'' @ [0x000A],
         asc ''                });'' @ [0x000A],
         asc ''                '' @ [0x000A],
         asc ''                // Display all crops with different prices'' @ [0x000A],
         asc ''                displayAllCropsWithDifferentPrices(data);'' @ [0x000A],
         asc ''            } else {'' @ [0x000A],
         asc ''                container.innerHTML = \'<div class="error">'' @ [0x092C, 0x093E, 0x091C, 0x093E, 0x0930, 0x0020, 0x092D, 0x093E, 0x0935, 0x0020, 0x0921, 0x0947, 0x091F, 0x093E, 0x0020, 0x0909, 0x092A, 0x0932, 0x092C, 0x094D, 0x0927, 0x0020, 0x0928, 0x0939, 0x0940, 0x0902, 0x0020, 0x0939, 0x0948] @ asc ''</div>\';'' @ [0x000A],
         asc ''            }'' @ [0x000A],
         asc ''        } catch (error) {'' @ [0x000A],
         asc ''            console.error(\'Market prices load error:\', error);'' @ [0x000A],
         asc ''            document.getElementById(\'pricesData\').innerHTML = \'<div class="error">'' @ [0x092C, 0x093E, 0x091C, 0x093E, 0x0930, 0x0020, 0x092D, 0x093E, 0x0935, 0x0020, 0x0932, 0x094B, 0x0921, 0x0020, 0x0915, 0x0930, 0x0928, 0x0947, 0x0020, 0x092E, 0x0947, 0x0902, 0x0020, 0x0924, 0x094D, 0x0930, 0x0941, 0x091F, 0x093F] @ asc ''</div>\';'' @ [0x000A],
         asc ''        }'' @ [0x000A],
         asc ''    }'' @ [0x000A],
         [0x000A],
         asc ''    function displayAllCropsWithDifferentPrices(data) {'' @ [0x000A],
         asc ''        const container = document.getElementById(\'pricesData\');'' @ [0x000A],
         asc ''        '' @ [0x000A],
         asc ''        // Create mandi dropdown options'' @ [0x000A],
         asc ''        const mandiOptions = data.nearest_mandis ? '' @ [0x000A],
         asc ''            data.nearest_mandis.map(mandi => `<option value="${mandi}">${mandi}</option>`).join('' @ [0x0027] @ asc ''\') : '' @ [0x0027] @ asc ''\';'' @ [0x000A],
         asc ''        '' @ [0x000A],
         asc ''        container.innerHTML = `'' @ [0x000A],
         asc ''            <div class="real-time-header">'' @ [0x000A],
         asc ''                <h4>'' @ [0xD83D, 0xDCB0, 0x0020, 0x092C, 0x093E, 0x091C, 0x093E, 0x0930, 0x0020, 0x092D, 0x093E, 0x0935] @ asc '' - ${data.location}</h4>'' @ [0x000A],
         asc ''                <p class="data-source">'' @ [0xD83D, 0xDCCA, 0x0020, 0x0938, 0x094D, 0x0930, 0x094B, 0x0924] @ asc '': ${data.sources ? data.sources.join(\', \') : \'Government APIs\'}</p>'' @ [0x000A],
         asc ''                <p class="timestamp">'' @ [0xD83D, 0xDD52, 0x0020, 0x0905, 0x0902, 0x0924, 0x093F, 0x092E, 0x0020, 0x0905, 0x092A, 0x0921, 0x0947, 0x091F] @ asc '': ${new Date(data.timestamp).toLocaleString(\'hi-IN\')}</p>'' @ [0x000A],
         asc ''                <p class="reliability">'' @ [0xD83C, 0xDFAF, 0x0020, 0x0935, 0x093F, 0x0936, 0x094D, 0x0935, 0x0938, 0x0928, 0x0940, 0x092F, 0x0924, 0x093E] @ asc '': ${Math.round((data.data_reliability || 0.9) * 100)}%</p>'' @ [0x000A],
         asc ''            </div>'' @ [0x000A],
         asc ''            '' @ [0x000A],
         asc ''            <div class="mandi-search-container">'' @ [0x000A],
         asc ''                <h5>'' @ [0xD83D, 0xDD0D, 0x0020, 0x092E, 0x0902, 0x0921, 0x0940, 0x0020, 0x0914, 0x0930, 0x0020, 0x092B, 0x0938, 0x0932, 0x0020, 0x0916, 0x094B, 0x091C, 0x0947, 0x0902] @ asc ''</h5>'' @ [0x000A],
         asc ''                <div class="search-boxes-container">'' @ [0x000A],
         asc ''                    <div class="search-box">'' @ [0x000A],
         asc ''                        <label>'' @ [0xD83D, 0xDCCD, 0x0020, 0x092E, 0x0902, 0x0921, 0x0940, 0x0020, 0x091A, 0x0941, 0x0928, 0x0947, 0x0902] @ asc ''</label>'' @ [0x000A],
         asc ''                        <select id="mandiSelect" class="form-control" onchange="selectMandiFromDropdown()">'' @ [0x000A],
         asc ''                            <option value="">'' @ [0x0928, 0x093F, 0x0915, 0x091F, 0x0924, 0x092E, 0x0020, 0x092E, 0x0902, 0x0921, 0x0940, 0x0020, 0x091A, 0x0941, 0x0928, 0x0947, 0x0902] @ asc ''...</option>'' @ [0x000A],
         asc ''                            ${mandiOptions}'' @ [0x000A],
         asc ''                        </select>'' @ [0x000A],
         asc ''                    </div>'' @ [0x000A],
         asc ''                    <div class="search-box">'' @ [0x000A],
         asc ''                        <label>'' @ [0xD83C, 0xDF3E, 0x0020, 0x092B, 0x0938, 0x0932, 0x0020, 0x0916, 0x094B, 0x091C, 0x0947, 0x0902] @ asc ''</label>'' @ [0x000A],
         asc ''                        <input type="text" id="cropSearchInput" placeholder="'' @ [0x092B, 0x0938, 0x0932, 0x0020, 0x0915, 0x093E, 0x0020, 0x0928, 0x093E, 0x092E, 0x0020, 0x091F, 0x093E, 0x0907, 0x092A, 0x0020, 0x0915, 0x0930, 0x0947, 0x0902] @ asc ''" class="form-control">'' @ [0x000A],
         asc ''                        <button onclick="searchCropFromSelectedMandi()" class="btn btn-success">'' @ [0x0916, 0x094B, 0x091C, 0x0947, 0x0902] @ asc ''</button>'' @ [0x000A],
         asc ''                    </div>'' @ [0x000A],
         asc ''                </div>'' @ [0x000A],
         asc ''                <div class="current-mandi-display">'' @ [0x000A],
         asc ''                    <span>'' @ [0xD83C, 0xDFEA, 0x0020, 0x0935, 0x0930, 0x094D, 0x0924, 0x092E, 0x093E, 0x0928] @ asc '': <span id="currentMandiDisplay">'' @ [0x0938, 0x092D, 0x0940, 0x0020, 0x092E, 0x0902, 0x0921, 0x093F, 0x092F, 0x094B, 0x0902, 0x0020, 0x0915, 0x093E, 0x0020, 0x0914, 0x0938, 0x0924] @ asc ''</span></span>'' @ [0x000A],
         asc ''                    <button onclick="resetMandiSelection()" class="btn btn-secondary btn-sm">'' @ [0x0930, 0x0940, 0x0938, 0x0947, 0x091F] @ asc ''</button>'' @ [0x000A],
         asc ''                </div>'' @ [0x000A],
         asc ''            </div>'' @ [0x000A],
         asc ''            '' @ [0x000A],
         asc ''            <div class="mandi-prices-grid">'' @ [0x000A],
         asc ''                ${data.crops.map(crop => `'' @ [0x000A],
         asc ''                    <div class="mandi-price-square">'' @ [0x000A],
         asc ''                        <div class="square-header">'' @ [0x000A],
         asc ''                            <h6>'' @ [0xD83C, 0xDF3E] @ asc '' ${crop.name}</h6>'' @ [0x000A],
         asc ''                            <span class="trend-icon">'' @ [0xD83D, 0xDCC8] @ asc ''</span>'' @ [0x000A],
         asc ''                        </div>'' @ [0x000A],
         asc ''                        <div class="square-content">'' @ [0x000A],
         asc ''                            <div class="price-main">'' @ [0x000A],
         asc ''                                <span class="current-price">'' @ [0x20B9] @ asc ''${crop.current_price?.toLocaleString(\'hi-IN\') || \'N/A\'}</span>'' @ [0x000A],
         asc ''                                <span class="price-unit">/quintal</span>'' @ [0x000A],
         asc ''                            </div>'' @ [0x000A],
         asc ''                            <div class="price-details">'' @ [0x000A],
         asc ''                                <div class="detail-row">'' @ [0x000A],
         asc ''                                    <span class="label">MSP:</span>'' @ [0x000A],
         asc ''                                    <span class="value">'' @ [0x20B9] @ asc ''${crop.msp?.toLocaleString(\'hi-IN\') || \'N/A\'}</span>'' @ [0x000A],
         asc ''                                </div>'' @ [0x000A],
         asc ''                                <div class="detail-row">'' @ [0x000A],
         asc ''                                    <span class="label">'' @ [0x0932, 0x093E, 0x092D] @ asc '':</span>'' @ [0x000A],
         asc ''                                    <span class="value profit">'' @ [0x20B9] @ asc ''${crop.profit_margin?.toLocaleString(\'hi-IN\') || \'N/A\'}</span>'' @ [0x000A],
         asc ''                                </div>'' @ [0x000A],
         asc ''                                <div class="detail-row">'' @ [0x000A],
         asc ''                                    <span class="label">%:</span>'' @ [0x000A],
         asc ''                                    <span class="value">${crop.profit_percentage || \'N/A\'}%</span>'' @ [0x000A],
         asc ''                                </div>'' @ [0x000A],
         asc ''                            </div>'' @ [0x000A],
         asc ''                            <div class="mandi-info">'' @ [0x000A],
         asc ''                                <span class="mandi-name">${crop.mandi || \'N/A\'}</span>'' @ [0x000A],
         asc ''                                <span class="date">${crop.date || new Date().toLocaleDateString(\'hi-IN\')}</span>'' @ [0x000A],
         asc ''                            </div>'' @ [0x000A],
         asc ''                        </div>'' @ [0x000A],
         asc ''                    </div>'' @ [0x000A],
         asc ''                `).join('' @ [0x0027] @ asc ''\')}'' @ [0x000A],
         asc ''            </div>'' @ [0x000A],
         asc ''        `;'' @ [0x000A],
         asc ''    }'' @ [0x000A],
         [0x000A],
         asc ''    // Global variables for mandi selection'' @ [0x000A],
         asc ''    let selectedMandi = null;'' @ [0x000A],
         [0x000A],
         asc ''    // Function to select mandi from dropdown'' @ [0x000A],
         asc ''    async function selectMandiFromDropdown() {'' @ [0x000A],
         asc ''        const mandiSelect = document.getElementById(\'mandiSelect\');'' @ [0x000A],
         asc ''        const selectedValue = mandiSelect.value;'' @ [0x000A],
         asc ''        const currentMandiDisplay = document.getElementById(\'currentMandiDisplay\');'' @ [0x000A],
         asc ''        '' @ [0x000A],
         asc ''        if (selectedValue) {'' @ [0x000A],
         asc ''            selectedMandi = selectedValue;'' @ [0x000A],
         asc ''            currentMandiDisplay.textContent = selectedValue;'' @ [0x000A],
         asc ''            '' @ [0x000A],
         asc ''            // Fetch prices for selected mandi'' @ [0x000A],
         asc ''            await fetchMandiPrices(selectedValue);'' @ [0x000A],
         asc ''        } else {'' @ [0x000A],
         asc ''            selectedMandi = null;'' @ [0x000A],
         asc ''            currentMandiDisplay.textContent = '' @ [0x0027, 0x0938, 0x092D, 0x0940, 0x0020, 0x092E, 0x0902, 0x0921, 0x093F, 0x092F, 0x094B, 0x0902, 0x0020, 0x0915, 0x093E, 0x0020, 0x0914, 0x0938, 0x0924] @ asc ''\';'' @ [0x000A],
         asc ''            if (window.allCropsData) {'' @ [0x000A],
         asc ''                displayAllCropsWithDifferentPrices(window.allCropsData);'' @ [0x000A],
         asc ''            }'' @ [0x000A],
         asc ''        }'' @ [0x000A],
         asc ''    }'' @ [0x000A],
         [0x000A],
         asc ''    // Function to fetch prices for specific mandi'' @ [0x000A],
         asc ''    async function fetchMandiPrices(mandiName) {'' @ [0x000A],
         asc ''        try {'' @ [0x000A],
         asc ''            const container = document.getElementById(\'pricesData\');'' @ [0x000A],
         asc ''            container.innerHTML = \'<div class="loading">'' @ [0x092E, 0x0902, 0x0921, 0x0940, 0x0020, 0x0915, 0x0940, 0x0020, 0x0915, 0x0940, 0x092E, 0x0924, 0x0947, 0x0902, 0x0020, 0x0932, 0x094B, 0x0921, 0x0020, 0x0939, 0x094B, 0x0020, 0x0930, 0x0939, 0x0940, 0x0020, 0x0939, 0x0948, 0x0902] @ asc ''...</div>\';'' @ [0x000A],
         asc ''            '' @ [0x000A],
         asc ''            const response = await fetch(`/api/realtime-gov/mandi_prices/?mandi=${encodeURIComponent(mandiName)}&location=${currentLocation}`);'' @ [0x000A],
         asc ''            const data = await response.json();'' @ [0x000A],
         asc ''            '' @ [0x000A],
         asc ''            if (data.status === \'success\' && data.crops && data.crops.length > 0) {'' @ [0x000A],
         asc ''                displayMandiSpecificCrops(data.crops, mandiName);'' @ [0x000A],
         asc ''            } else {'' @ [0x000A],
         asc ''                container.innerHTML = \'<div class="error">'' @ [0x0907, 0x0938, 0x0020, 0x092E, 0x0902, 0x0921, 0x0940, 0x0020, 0x0915, 0x0947, 0x0020, 0x0932, 0x093F, 0x090F, 0x0020, 0x0915, 0x0940, 0x092E, 0x0924, 0x0020, 0x091C, 0x093E, 0x0928, 0x0915, 0x093E, 0x0930, 0x0940, 0x0020, 0x0909, 0x092A, 0x0932, 0x092C, 0x094D, 0x0927, 0x0020, 0x0928, 0x0939, 0x0940, 0x0902, 0x0020, 0x0939, 0x0948] @ asc ''</div>\';'' @ [0x000A],
         asc ''            }'' @ [0x000A],
         asc ''        } catch (error) {'' @ [0x000A],
         asc ''            console.error(\'Error fetching mandi prices:\', error);'' @ [0x000A],
         asc ''            document.getElementById(\'pricesData\').innerHTML = \'<div class="error">'' @ [0x092E, 0x0902, 0x0921, 0x0940, 0x0020, 0x0915, 0x0940, 0x092E, 0x0924, 0x0947, 0x0902, 0x0020, 0x0932, 0x094B, 0x0921, 0x0020, 0x0915, 0x0930, 0x0928, 0x0947, 0x0020, 0x092E, 0x0947, 0x0902, 0x0020, 0x0924, 0x094D, 0x0930, 0x0941, 0x091F, 0x093F] @ asc ''</div>\';'' @ [0x000A],
         asc ''        }'' @ [0x000A],
         asc ''    }'' @ [0x000A],
         [0x000A],
         asc ''    // Function to display mandi-specific crops'' @ [0x000A],
         asc ''    function displayMandiSpecificCrops(crops, mandiName) {'' @ [0x000A],
         asc ''        const container = document.getElementById(\'pricesData\');'' @ [0x000A],
         asc ''        '' @ [0x000A],
         asc ''        container.innerHTML = `'' @ [0x000A],
         asc ''            <div class="real-time-header">'' @ [0x000A],
         asc ''                <h4>'' @ [0xD83D, 0xDCB0, 0x0020, 0x092E, 0x0902, 0x0921, 0x0940] @ asc '': ${mandiName}</h4>'' @ [0x000A],
         asc ''                <p class="data-source">'' @ [0xD83D, 0xDCCA, 0x0020, 0x0938, 0x094D, 0x0930, 0x094B, 0x0924] @ asc '': Real-time Mandi Data</p>'' @ [0x000A],
         asc ''                <p class="timestamp">'' @ [0xD83D, 0xDD52, 0x0020, 0x0905, 0x0902, 0x0924, 0x093F, 0x092E, 0x0020, 0x0905, 0x092A, 0x0921, 0x0947, 0x091F] @ asc '': ${new Date().toLocaleString(\'hi-IN\')}</p>'' @ [0x000A],
         asc ''            </div>'' @ [0x000A],
         asc ''            '' @ [0x000A],
         asc ''            <div class="mandi-prices-grid">'' @ [0x000A],
         asc ''                ${crops.map(crop => `'' @ [0x000A],
         asc ''                    <div class="mandi-price-square">'' @ [0x000A],
         asc ''                        <div class="square-header">'' @ [0x000A],
         asc ''                            <h6>'' @ [0xD83C, 0xDF3E] @ asc '' ${crop.name}</h6>'' @ [0x000A],
         asc ''                            <span class="trend-icon">'' @ [0xD83D, 0xDCC8] @ asc ''</span>'' @ [0x000A],
         asc ''                        </div>'' @ [0x000A],
         asc ''                        <div class="square-content">'' @ [0x000A],
         asc ''                            <div class="price-main">'' @ [0x000A],
         asc ''                                <span class="current-price">'' @ [0x20B9] @ asc ''${crop.current_price?.toLocaleString(\'hi-IN\') || \'N/A\'}</span>'' @ [0x000A],
         asc ''                                <span class="price-unit">/quintal</span>'' @ [0x000A],
         asc ''                            </div>'' @ [0x000A],
         asc ''                            <div class="price-details">'' @ [0x000A],
         asc ''                                <div class="detail-row">'' @ [0x000A],
         asc ''                                    <span class="label">MSP:</span>'' @ [0x000A],
         asc ''                                    <span class="value">'' @ [0x20B9] @ asc ''${crop.msp?.toLocaleString(\'hi-IN\') || \'N/A\'}</span>'' @ [0x000A],
         asc ''                                </div>'' @ [0x000A],
         asc ''                                <div class="detail-row">'' @ [0x000A],
         asc ''                                    <span class="label">'' @ [0x0932, 0x093E, 0x092D] @ asc '':</span>'' @ [0x000A],
         asc ''                                    <span class="value profit">'' @ [0x20B9] @ asc ''${crop.profit_margin?.toLocaleString(\'hi-IN\') || \'N/A\'}</span>'' @ [0x000A],
         asc ''                                </div>'' @ [0x000A],
         asc ''                                <div class="detail-row">'' @ [0x000A],
         asc ''                                    <span class="label">%:</span>'' @ [0x000A],
         asc ''                                    <span class="value">${crop.profit_percentage || \'N/A\'}%</span>'' @ [0x000A],
         asc ''                                </div>'' @ [0x000A],
         asc ''                            </div>'' @ [0x000A],
         asc ''                            <div class="mandi-info">'' @ [0x000A],
         asc ''                                <span class="mandi-name">${crop.mandi || mandiName}</span>'' @ [0x000A],
         asc ''                                <span class="date">${crop.date || new Date().toLocaleDateString(\'hi-IN\')}</span>'' @ [0x000A],
         asc ''                            </div>'' @ [0x000A],
         asc ''                        </div>'' @ [0x000A],
         asc ''                    </div>'' @ [0x000A],
         asc ''                `).join('' @ [0x0027] @ asc ''\')}'' @ [0x000A],
         asc ''            </div>'' @ [0x000A],
         asc ''        `;'' @ [0x000A],
         asc ''    }'' @ [0x000A],
         [0x000A],
         asc ''    // Function to search crop from selected mandi'' @ [0x000A],
         asc ''    async function searchCropFromSelectedMandi() {'' @ [0x000A],
         asc ''        const cropInput = document.getElementById(\'cropSearchInput\');'' @ [0x000A],
         asc ''        const cropName = cropInput.value.trim().toLowerCase();'' @ [0x000A],
         asc ''        '' @ [0x000A],
         asc ''        if (!cropName) {'' @ [0x000A],
         asc ''            alert('' @ [0x0027, 0x0915, 0x0943, 0x092A, 0x092F, 0x093E, 0x0020, 0x092B, 0x0938, 0x0932, 0x0020, 0x0915, 0x093E, 0x0020, 0x0928, 0x093E, 0x092E, 0x0020, 0x0926, 0x0930, 0x094D, 0x091C, 0x0020, 0x0915, 0x0930, 0x0947, 0x0902] @ asc ''\');'' @ [0x000A],
         asc ''            return;'' @ [0x000A],
         asc ''        }'' @ [0x000A],
         asc ''        '' @ [0x000A],
         asc ''        if (!selectedMandi) {'' @ [0x000A],
         asc ''            alert('' @ [0x0027, 0x092A, 0x0939, 0x0932, 0x0947, 0x0020, 0x092E, 0x0902, 0x0921, 0x0940, 0x0020, 0x091A, 0x0941, 0x0928, 0x0947, 0x0902] @ asc ''\');'' @ [0x000A],
         asc ''            return;'' @ [0x000A],
         asc ''        }'' @ [0x000A],
         asc ''        '' @ [0x000A],
         asc ''        try {'' @ [0x000A],
         asc ''            const container = document.getElementById(\'pricesData\');'' @ [0x000A],
         asc ''            container.innerHTML = \'<div class="loading">'' @ [0x092B, 0x0938, 0x0932, 0x0020, 0x0915, 0x0940, 0x0020, 0x0915, 0x0940, 0x092E, 0x0924, 0x0020, 0x0916, 0x094B, 0x091C, 0x0020, 0x0930, 0x0939, 0x0947, 0x0020, 0x0939, 0x0948, 0x0902] @ asc ''...</div>\';'' @ [0x000A],
         asc ''            '' @ [0x000A],
         asc ''            const response = await fetch(`/api/realtime-gov/mandi_prices/?mandi=${encodeURIComponent(selectedMandi)}&location=${currentLocation}`);'' @ [0x000A],
         asc ''            const data = await response.json();'' @ [0x000A],
         asc ''            '' @ [0x000A],
         asc ''            if (data.status === \'success\' && data.crops && data.crops.length > 0) {'' @ [0x000A],
         asc ''                const foundCrop = data.crops.find(crop => '' @ [0x000A],
         asc ''                    crop.name.toLowerCase().includes(cropName)'' @ [0x000A],
         asc ''                );'' @ [0x000A],
         asc ''                '' @ [0x000A],
         asc ''                if (foundCrop) {'' @ [0x000A],
         asc ''                    displayMandiSpecificCrops([foundCrop], selectedMandi);'' @ [0x000A],
         asc ''                } else {'' @ [0x000A],
         asc ''                    container.innerHTML = `<div class="error">${selectedMandi} '' @ [0x092E, 0x0947, 0x0902] @ asc '' "${cropName}" '' @ [0x092B, 0x0938, 0x0932, 0x0020, 0x0928, 0x0939, 0x0940, 0x0902, 0x0020, 0x092E, 0x093F, 0x0932, 0x0940] @ asc ''</div>`;'' @ [0x000A],
         asc ''                }'' @ [0x000A],
         asc ''            } else {'' @ [0x000A],
         asc ''                container.innerHTML = \'<div class="error">'' @ [0x0907, 0x0938, 0x0020, 0x092E, 0x0902, 0x0921, 0x0940, 0x0020, 0x0915, 0x0947, 0x0020, 0x0932, 0x093F, 0x090F, 0x0020, 0x0915, 0x0940, 0x092E, 0x0924, 0x0020, 0x091C, 0x093E, 0x0928, 0x0915, 0x093E, 0x0930, 0x0940, 0x0020, 0x0909, 0x092A, 0x0932, 0x092C, 0x094D, 0x0927, 0x0020, 0x0928, 0x0939, 0x0940, 0x0902, 0x0020, 0x0939, 0x0948] @ asc ''</div>\';'' @ [0x000A],
         asc ''            }'' @ [0x000A],
         asc ''        } catch (error) {'' @ [0x000A],
         asc ''            console.error(\'Error searching crop:\', error);'' @ [0x000A],
         asc ''            document.getElementById(\'pricesData\').innerHTML = \'<div class="error">'' @ [0x092B, 0x0938, 0x0932, 0x0020, 0x0916, 0x094B, 0x091C, 0x0020, 0x092E, 0x0947, 0x0902, 0x0020, 0x0924, 0x094D, 0x0930, 0x0941, 0x091F, 0x093F] @ asc ''</div>\';'' @ [0x000A],
         asc ''        }'' @ [0x000A],
         asc ''    }'' @ [0x000A],
         [0x000A],
         asc ''    // Function to reset mandi selection'' @ [0x000A],
         asc ''    function resetMandiSelection() {'' @ [0x000A],
         asc ''        const mandiSelect = document.getElementById(\'mandiSelect\');'' @ [0x000A],
         asc ''        const currentMandiDisplay = document.getElementById(\'currentMandiDisplay\');'' @ [0x000A],
         asc ''        const cropInput = document.getElementById(\'cropSearchInput\');'' @ [0x000A],
         asc ''        '' @ [0x000A],
         asc ''        mandiSelect.value = '' @ [0x0027] @ asc ''\';'' @ [0x000A],
         asc ''        selectedMandi = null;'' @ [0x000A],
         asc ''        currentMandiDisplay.textContent = '' @ [0x0027, 0x0938, 0x092D, 0x0940, 0x0020, 0x092E, 0x0902, 0x0921, 0x093F, 0x092F, 0x094B, 0x0902, 0x0020, 0x0915, 0x093E, 0x0020, 0x0914, 0x0938, 0x0924] @ asc ''\';'' @ [0x000A],
         asc ''        cropInput.value = '' @ [0x0027] @ asc ''\';'' @ [0x000A],
         asc ''        '' @ [0x000A],
         asc ''        if (window.allCropsData) {'' @ [0x000A],
         asc ''            displayAllCropsWithDifferentPrices(window.allCropsData);'' @ [0x000A],
         asc ''        }'' @ [0x000A],
         asc ''    }'' @ [0x000A],
         asc ''    '' @ [0x000A],
         asc ''    // Mandi Search Functions'']\<close>

text \<open>The replacement text of the script that patches \<open>fetchMarketPrices\<close>.\<close>

definition newFunction_fetchMarketPrices :: jsstring where
  \<open>newFunction_fetchMarketPrices =
   concat
        [asc ''async function fetchMarketPrices() {'' @ [0x000A],
         asc ''        try {'' @ [0x000A],
         asc ''            const container = document.getElementById(\'pricesData\');'' @ [0x000A],
         asc ''            container.innerHTML = \'<div class="loading">'' @ [0x092C, 0x093E, 0x091C, 0x093E, 0x0930, 0x0020, 0x092D, 0x093E, 0x0935, 0x0020, 0x0932, 0x094B, 0x0921, 0x0020, 0x0939, 0x094B, 0x0020, 0x0930, 0x0939, 0x0947, 0x0020, 0x0939, 0x0948, 0x0902] @ asc ''...</div>\';'' @ [0x000A],
         asc ''            '' @ [0x000A],
         asc ''            const response = await fetch(`/api/realtime-gov/market_prices/?location=${currentLocation}&latitude=${currentLatitude}&longitude=${currentLongitude}`);'' @ [0x000A],
         asc ''            const data = await response.json();'' @ [0x000A],
         asc ''            '' @ [0x000A],
         asc ''            // Convert crops array to marketData format for compatibility'' @ [0x000A],
         asc ''            const marketData = {};'' @ [0x000A],
         asc ''            if (data.crops && data.crops.length > 0) {'' @ [0x000A],
         asc ''                data.crops.forEach(crop => {'' @ [0x000A],
         asc ''                    marketData[crop.name] = crop;'' @ [0x000A],
         asc ''                });'' @ [0x000A],
         asc ''            }'' @ [0x000A],
         asc ''            '' @ [0x000A],
         asc ''            // Use the new displayAllCrops function'' @ [0x000A],
         asc ''            if (marketData && Object.keys(marketData).length > 0) {'' @ [0x000A],
         asc ''                displayAllCrops(data);'' @ [0x000A],
         asc ''            } else {'' @ [0x000A],
         asc ''                container.innerHTML = \'<div class="error">'' @ [0x092C, 0x093E, 0x091C, 0x093E, 0x0930, 0x0020, 0x092D, 0x093E, 0x0935, 0x0020, 0x0921, 0x0947, 0x091F, 0x093E, 0x0020, 0x0909, 0x092A, 0x0932, 0x092C, 0x094D, 0x0927, 0x0020, 0x0928, 0x0939, 0x0940, 0x0902, 0x0020, 0x0939, 0x0948] @ asc ''</div>\';'' @ [0x000A],
         asc ''            }'' @ [0x000A],
         asc ''        } catch (error) {'' @ [0x000A],
         asc ''            console.error(\'Market prices fetch error:\', error);'' @ [0x000A],
         asc ''            document.getElementById(\'pricesData\').innerHTML = \'<div class="error">'' @ [0x092C, 0x093E, 0x091C, 0x093E, 0x0930, 0x0020, 0x092D, 0x093E, 0x0935, 0x0020, 0x0932, 0x094B, 0x0921, 0x0020, 0x0915, 0x0930, 0x0928, 0x0947, 0x0020, 0x092E, 0x0947, 0x0902, 0x0020, 0x0924, 0x094D, 0x0930, 0x0941, 0x091F, 0x093F] @ asc ''</div>\';'' @ [0x000A],
         asc ''        }'' @ [0x000A],
         asc ''    }'']\<close>

definition fix_market_prices :: "jsstring \<Rightarrow> node_effect list" where
  "fix_market_prices content =
     (let functionStart = indexOf content loadMarketPricesMarker;
          functionEnd = indexOf content searchMandiMarker
      in if functionStart \<noteq> - 1 \<and> functionEnd \<noteq> - 1 then
           (let beforeFunction = substring content 0 functionStart;
                afterFunction = substringFrom content functionEnd;
                newContent = beforeFunction @ newFunction_loadMarketPrices @ afterFunction
            in [WriteFileSync templatePath newContent,
                ConsoleLog (asc ''Fixed market prices functionality'')])
         else [ConsoleLog (asc ''Could not find function boundaries'')])"

definition fix_fetch_market_prices :: "jsstring \<Rightarrow> node_effect list" where
  "fix_fetch_market_prices content =
     (let oldFunctionStart = indexOf content fetchMarketPricesMarker;
          oldFunctionEnd = indexOf content searchMandiMarker
      in if oldFunctionStart \<noteq> - 1 \<and> oldFunctionEnd \<noteq> - 1 then
           (let beforeFunction = substring content 0 oldFunctionStart;
                afterFunction = substringFrom content oldFunctionEnd;
                newContent = beforeFunction @ newFunction_fetchMarketPrices @ afterFunction
            in [WriteFileSync templatePath newContent,
                ConsoleLog (asc ''Fixed fetchMarketPrices function'')])
         else [ConsoleLog (asc ''Could not find function boundaries'')])"

definition run_script :: "(jsstring \<Rightarrow> node_effect list) \<Rightarrow> filesystem \<Rightarrow> filesystem" where
  "run_script script fs =
     (case fs templatePath of
        None \<Rightarrow> fs
      | Some content \<Rightarrow> fold apply_effect (script content) fs)"

text \<open>
  The vocabulary of the claims about the scripts: a pattern occurs at index \<open>k\<close> of a
  text, it occurs somewhere, and \<open>k\<close> is its first occurrence.
\<close>

definition occurs_at :: "jsstring \<Rightarrow> jsstring \<Rightarrow> nat \<Rightarrow> bool" where
  "occurs_at pat s k \<longleftrightarrow> k \<le> length s \<and> prefix pat (drop k s)"

definition occurs :: "jsstring \<Rightarrow> jsstring \<Rightarrow> bool" where
  "occurs pat s \<longleftrightarrow> (\<exists>k. occurs_at pat s k)"

definition first_occurrence :: "jsstring \<Rightarrow> jsstring \<Rightarrow> nat \<Rightarrow> bool" where
  "first_occurrence pat s k \<longleftrightarrow> occurs_at pat s k \<and> (\<forall>j<k. \<not> occurs_at pat s j)"

fun writes :: "node_effect list \<Rightarrow> jsstring list" where
  "writes [] = []"
| "writes (WriteFileSync path text # es) = text # writes es"
| "writes (ConsoleLog msg # es) = writes es"

definition demo_template :: jsstring where
  "demo_template =
     asc ''<script> '' @ loadMarketPricesMarker @ asc '' old1(); } ''
       @ fetchMarketPricesMarker @ asc '' old2(); } ''
       @ searchMandiMarker @ asc '' find(); } </script>''"

definition demo_without_end :: jsstring where
  "demo_without_end =
     asc ''<script> '' @ loadMarketPricesMarker @ asc '' old1(); } ''
       @ fetchMarketPricesMarker @ asc '' old2(); } </script>''"

section \<open>JavaScript values\<close>

text \<open>
  The values the service module computes with are the values \<open>response.json()\<close> can
  produce, and \<open>undefined\<close>, which a property read produces and a parsed body never
  holds. Numbers are IEEE doubles;
  the type of numbers is left open (\<open>'n\<close>) and everything the module asks of them, of
  the locale formatting of the browser and of \<open>Date\<close> is a field of the record \<open>host\<close>.
  An object is the list of its own properties; a read takes the first binding of a key.
\<close>

datatype 'n jsval =
    JUndefined
  | JNull
  | JBool bool
  | JNum 'n
  | JStr jsstring
  | JArr "'n jsval list"
  | JObj "(jsstring \<times> 'n jsval) list"

record 'n host =
  numberToString :: "'n \<Rightarrow> jsstring"
  numberToLocale :: "'n \<Rightarrow> jsstring"
  stringToNumber :: "jsstring \<Rightarrow> 'n"
  numberOfNat :: "nat \<Rightarrow> 'n"
  numberNaN :: 'n
  numberTruthy :: "'n \<Rightarrow> bool"
  numberGt :: "'n \<Rightarrow> 'n \<Rightarrow> bool"
  numberGe :: "'n \<Rightarrow> 'n \<Rightarrow> bool"
  listSeparator :: jsstring
  dateParse :: "jsstring \<Rightarrow> 'n"
  dateToLocale :: "'n \<Rightarrow> jsstring"
  inheritedText :: "jsstring \<Rightarrow> jsstring option"

text \<open>
  \<open>numberToString\<close> is \<open>Number::toString\<close>, \<open>numberToLocale\<close> is
  \<open>Number.prototype.toLocaleString('hi-IN')\<close>, \<open>stringToNumber\<close> is \<open>StringToNumber\<close>,
  \<open>numberTruthy\<close> is \<open>ToBoolean\<close> on numbers (false on zero and NaN), \<open>numberGt\<close> and
  \<open>numberGe\<close> are \<open>>\<close> and \<open>>=\<close> on numbers (false when either side is NaN),
  \<open>listSeparator\<close> is the separator \<open>Array.prototype.toLocaleString\<close> puts between
  elements, \<open>dateParse\<close> is the time value \<open>new Date(string)\<close> gets, \<open>dateToLocale\<close> is
  \<open>Date.prototype.toLocaleString('hi-IN')\<close> of a time value, and \<open>inheritedText name\<close> is
  the text \<open>ToString\<close> gives for the member \<open>name\<close> of \<open>Object.prototype\<close>, \<open>None\<close> when
  \<open>Object.prototype\<close> has no such member.

  An operation that can throw returns an option: \<open>None\<close> is a thrown \<open>TypeError\<close>.
\<close>

fun joinWith :: "jsstring \<Rightarrow> jsstring list \<Rightarrow> jsstring" where
  "joinWith sep [] = []"
| "joinWith sep [x] = x"
| "joinWith sep (x # y # ys) = x @ sep @ joinWith sep (y # ys)"

text \<open>
  \<open>ToString\<close>. An array is joined with commas, \<open>undefined\<close> and \<open>null\<close> elements giving
  the empty string. A parsed object inherits \<open>Object.prototype.toString\<close> unless it has an
  own property \<open>toString\<close>, which is never callable, and then no conversion is left:
  \<open>Object.prototype.valueOf\<close> returns the object itself and an own \<open>valueOf\<close> is not
  callable either.
\<close>

fun toStr :: "'n host \<Rightarrow> 'n jsval \<Rightarrow> jsstring option"
  and elementStr :: "'n host \<Rightarrow> 'n jsval \<Rightarrow> jsstring option"
  and elementsStr :: "'n host \<Rightarrow> 'n jsval list \<Rightarrow> jsstring list option" where
  "toStr h JUndefined = Some (asc ''undefined'')"
| "toStr h JNull = Some (asc ''null'')"
| "toStr h (JBool b) = Some (if b then asc ''true'' else asc ''false'')"
| "toStr h (JNum n) = Some (numberToString h n)"
| "toStr h (JStr s) = Some s"
| "toStr h (JArr xs) = map_option (joinWith (asc '','')) (elementsStr h xs)"
| "toStr h (JObj kvs) =
     (if map_of kvs (asc ''toString'') = None then Some (asc ''[object Object]'') else None)"
| "elementStr h x =
     (if x = JUndefined \<or> x = JNull then Some [] else toStr h x)"
| "elementsStr h [] = Some []"
| "elementsStr h (x # xs) =
     do { s \<leftarrow> elementStr h x; ss \<leftarrow> elementsStr h xs; Some (s # ss) }"

text \<open>\<open>ToPrimitive\<close>: arrays and objects become the string \<open>ToString\<close> gives them.\<close>

fun toPrimitive :: "'n host \<Rightarrow> 'n jsval \<Rightarrow> 'n jsval option" where
  "toPrimitive h (JArr xs) = map_option JStr (toStr h (JArr xs))"
| "toPrimitive h (JObj kvs) = map_option JStr (toStr h (JObj kvs))"
| "toPrimitive h v = Some v"

fun primitiveToNumber :: "'n host \<Rightarrow> 'n jsval \<Rightarrow> 'n" where
  "primitiveToNumber h JUndefined = numberNaN h"
| "primitiveToNumber h JNull = numberOfNat h 0"
| "primitiveToNumber h (JBool b) = numberOfNat h (if b then 1 else 0)"
| "primitiveToNumber h (JNum n) = n"
| "primitiveToNumber h (JStr s) = stringToNumber h s"
| "primitiveToNumber h v = numberNaN h"

definition toNumber :: "'n host \<Rightarrow> 'n jsval \<Rightarrow> 'n option" where
  "toNumber h v = map_option (primitiveToNumber h) (toPrimitive h v)"

text \<open>\<open>ToBoolean\<close>.\<close>

fun truthy :: "'n host \<Rightarrow> 'n jsval \<Rightarrow> bool" where
  "truthy h JUndefined = False"
| "truthy h JNull = False"
| "truthy h (JBool b) = b"
| "truthy h (JNum n) = numberTruthy h n"
| "truthy h (JStr s) = (s \<noteq> [])"
| "truthy h (JArr xs) = True"
| "truthy h (JObj kvs) = True"

text \<open>
  A comparison of a value with a number literal, \<open>v > k\<close> and \<open>v >= k\<close>: the value is
  converted to a number first.
\<close>

definition jsGt :: "'n host \<Rightarrow> 'n jsval \<Rightarrow> nat \<Rightarrow> bool option" where
  "jsGt h v k = map_option (\<lambda>x. numberGt h x (numberOfNat h k)) (toNumber h v)"

definition jsGe :: "'n host \<Rightarrow> 'n jsval \<Rightarrow> nat \<Rightarrow> bool option" where
  "jsGe h v k = map_option (\<lambda>x. numberGe h x (numberOfNat h k)) (toNumber h v)"

text \<open>
  A property read \<open>v.name\<close>. Reading a property of \<open>undefined\<close> or \<open>null\<close> throws. The
  module reads data properties only, under names that none of \<open>Object.prototype\<close>,
  \<open>Array.prototype\<close>, \<open>String.prototype\<close>, \<open>Number.prototype\<close> and \<open>Boolean.prototype\<close>
  defines, and \<open>length\<close>, which arrays and strings have.
\<close>

fun getProp :: "'n host \<Rightarrow> 'n jsval \<Rightarrow> jsstring \<Rightarrow> 'n jsval option" where
  "getProp h JUndefined name = None"
| "getProp h JNull name = None"
| "getProp h (JObj kvs) name =
     Some (case map_of kvs name of Some v \<Rightarrow> v | None \<Rightarrow> JUndefined)"
| "getProp h (JArr xs) name =
     Some (if name = asc ''length'' then JNum (numberOfNat h (length xs)) else JUndefined)"
| "getProp h (JStr s) name =
     Some (if name = asc ''length'' then JNum (numberOfNat h (length s)) else JUndefined)"
| "getProp h v name = Some JUndefined"

text \<open>Optional chaining \<open>v?.name\<close>.\<close>

definition getPropOpt :: "'n host \<Rightarrow> 'n jsval \<Rightarrow> jsstring \<Rightarrow> 'n jsval option" where
  "getPropOpt h v name =
     (if v = JUndefined \<or> v = JNull then Some JUndefined else getProp h v name)"

text \<open>
  \<open>v.forEach(f)\<close> and \<open>v.slice(0, 7).forEach(f)\<close>: only an array has a callable
  \<open>forEach\<close>; on every other value the call throws (a string has \<open>slice\<close>, but its
  result has no \<open>forEach\<close>).
\<close>

fun arrayOf :: "'n jsval \<Rightarrow> 'n jsval list option" where
  "arrayOf (JArr xs) = Some xs"
| "arrayOf v = None"

text \<open>\<open>xs.forEach(x => { html += f(x) })\<close> and the same with the index.\<close>

fun appendEach :: "('a \<Rightarrow> jsstring option) \<Rightarrow> 'a list \<Rightarrow> jsstring \<Rightarrow> jsstring option" where
  "appendEach f [] html = Some html"
| "appendEach f (x # xs) html = do { piece \<leftarrow> f x; appendEach f xs (html @ piece) }"

fun appendEachIndexed ::
  "('a \<Rightarrow> nat \<Rightarrow> jsstring option) \<Rightarrow> 'a list \<Rightarrow> nat \<Rightarrow> jsstring \<Rightarrow> jsstring option" where
  "appendEachIndexed f [] index html = Some html"
| "appendEachIndexed f (x # xs) index html =
     do { piece \<leftarrow> f x index; appendEachIndexed f xs (Suc index) (html @ piece) }"

text \<open>
  The method call \<open>v.toLocaleString('hi-IN')\<close>. Numbers have their own method; strings
  and booleans inherit \<open>Object.prototype.toLocaleString\<close>, which calls \<open>toString\<close>; so does
  a parsed object, unless an own property \<open>toLocaleString\<close> or \<open>toString\<close> hides the
  method, and then the call throws; an array joins the results of its elements.
\<close>

fun toLocaleStr :: "'n host \<Rightarrow> 'n jsval \<Rightarrow> jsstring option"
  and elementLocaleStr :: "'n host \<Rightarrow> 'n jsval \<Rightarrow> jsstring option"
  and elementsLocaleStr :: "'n host \<Rightarrow> 'n jsval list \<Rightarrow> jsstring list option" where
  "toLocaleStr h JUndefined = None"
| "toLocaleStr h JNull = None"
| "toLocaleStr h (JBool b) = Some (if b then asc ''true'' else asc ''false'')"
| "toLocaleStr h (JNum n) = Some (numberToLocale h n)"
| "toLocaleStr h (JStr s) = Some s"
| "toLocaleStr h (JArr xs) = map_option (joinWith (listSeparator h)) (elementsLocaleStr h xs)"
| "toLocaleStr h (JObj kvs) =
     (if map_of kvs (asc ''toLocaleString'') = None \<and> map_of kvs (asc ''toString'') = None
      then Some (asc ''[object Object]'') else None)"
| "elementLocaleStr h x =
     (if x = JUndefined \<or> x = JNull then Some [] else toLocaleStr h x)"
| "elementsLocaleStr h [] = Some []"
| "elementsLocaleStr h (x # xs) =
     do { s \<leftarrow> elementLocaleStr h x; ss \<leftarrow> elementsLocaleStr h xs; Some (s # ss) }"

text \<open>
  \<open>new Date(v).toLocaleString('hi-IN')\<close>: a string is parsed as a date, any other
  primitive is converted to a number, the time value.
\<close>

definition newDateLocale :: "'n host \<Rightarrow> 'n jsval \<Rightarrow> jsstring option" where
  "newDateLocale h v =
     do { p \<leftarrow> toPrimitive h v;
          Some (dateToLocale h
                 (case p of JStr s \<Rightarrow> dateParse h s | _ \<Rightarrow> primitiveToNumber h p)) }"

section \<open>The document, the network and the page state\<close>

text \<open>
  The document is the list of its elements in tree order; an element is known to the
  module by its \<open>id\<close>, its class list and its \<open>innerHTML\<close>, and is addressed by its
  position. The list holds the elements that are there when a call starts. The markup
  assigned to \<open>innerHTML\<close> is kept as text, in the element and in the trace; the elements
  the browser builds from it are not entered in the list but read off the trace
  (\<open>builtClasses\<close> and \<open>classesAfter\<close> below), so that a count of the elements of the page
  after a call takes both. The trace lists, in the order they
  happen, the assignments to \<open>innerHTML\<close> and the requests given to \<open>fetch\<close>. The three
  location variables of the module are part of the page state. Calls of \<open>console\<close> are
  left out: they change neither the document nor the network, and the templates among
  their arguments show lengths of values the handler has already compared or iterated
  over, so that they do not throw where they stand.
\<close>

record element =
  elementId :: jsstring
  classList :: "jsstring list"
  innerHTML :: jsstring

datatype event =
    SetInnerHTML nat jsstring
  | Fetch jsstring

record 'n world =
  document :: "element list"
  trace :: "event list"
  currentLocation :: "'n jsval"
  currentLatitude :: "'n jsval"
  currentLongitude :: "'n jsval"

text \<open>
  What the environment answers to a request: \<open>fetch\<close> rejects, or it resolves and
  \<open>response.json()\<close> rejects, or \<open>response.json()\<close> resolves with the parsed body. An
  asynchronous handler is run to its end in one step, the answer taken from the
  environment at the \<open>await\<close>.
\<close>

datatype 'n response =
    FetchRejected
  | JsonRejected
  | JsonBody "'n jsval"

record 'n env =
  browser :: "'n host"
  network :: "jsstring \<Rightarrow> 'n response"
  clock :: 'n

datatype completion = Returned | Threw

fun findId :: "jsstring \<Rightarrow> element list \<Rightarrow> nat \<Rightarrow> nat option" where
  "findId i [] k = None"
| "findId i (e # es) k = (if elementId e = i then Some k else findId i es (Suc k))"

definition getElementById :: "element list \<Rightarrow> jsstring \<Rightarrow> nat option" where
  "getElementById d i = (if i = [] then None else findId i d 0)"

text \<open>
  \<open>container.innerHTML = html\<close>: the text is stored in the element and the assignment is
  entered in the trace, from which the elements the browser builds are read.
\<close>

definition setInnerHTML :: "nat \<Rightarrow> jsstring \<Rightarrow> 'n world \<Rightarrow> 'n world" where
  "setInnerHTML c html w =
     w\<lparr>document := (document w)[c := (document w ! c)\<lparr>innerHTML := html\<rparr>],
       trace := trace w @ [SetInnerHTML c html]\<rparr>"

definition fetch :: "jsstring \<Rightarrow> 'n world \<Rightarrow> 'n world" where
  "fetch url w = w\<lparr>trace := trace w @ [Fetch url]\<rparr>"

text \<open>
  \<open>a || b\<close> on computations: \<open>b\<close> counts only when \<open>a\<close> is falsy. \<open>v && v.length > 0\<close>
  is \<open>nonEmpty\<close>.
\<close>

definition orElse :: "'n host \<Rightarrow> 'n jsval option \<Rightarrow> 'n jsval option \<Rightarrow> 'n jsval option" where
  "orElse h a b = do { x \<leftarrow> a; if truthy h x then Some x else b }"

definition nonEmpty :: "'n host \<Rightarrow> 'n jsval \<Rightarrow> bool option" where
  "nonEmpty h v =
     (if truthy h v then do { len \<leftarrow> getProp h v (asc ''length''); jsGt h len 0 }
      else Some False)"

section \<open>The market prices service\<close>

definition marketLoadingHtml :: jsstring where
  \<open>marketLoadingHtml = asc ''<div class="loading">'' @ [0x092C, 0x093E, 0x091C, 0x093E, 0x0930, 0x0020, 0x092D, 0x093E, 0x0935, 0x0020, 0x0932, 0x094B, 0x0921, 0x0020, 0x0939, 0x094B, 0x0020, 0x0930, 0x0939, 0x0947, 0x0020, 0x0939, 0x0948, 0x0902] @ asc ''...</div>''\<close>

definition marketUnavailableHtml :: jsstring where
  \<open>marketUnavailableHtml = asc ''<div style="padding: 20px; text-align: center; color: #666;">'' @ [0x092C, 0x093E, 0x091C, 0x093E, 0x0930, 0x0020, 0x092D, 0x093E, 0x0935, 0x0020, 0x0921, 0x0947, 0x091F, 0x093E, 0x0020, 0x0909, 0x092A, 0x0932, 0x092C, 0x094D, 0x0927, 0x0020, 0x0928, 0x0939, 0x0940, 0x0902, 0x0020, 0x0939, 0x0948] @ asc ''</div>''\<close>

definition marketErrorHtml :: jsstring where
  \<open>marketErrorHtml = asc ''<div style="padding: 20px; text-align: center; color: #dc3545;">'' @ [0x092C, 0x093E, 0x091C, 0x093E, 0x0930, 0x0020, 0x092D, 0x093E, 0x0935, 0x0020, 0x0932, 0x094B, 0x0921, 0x0020, 0x0915, 0x0930, 0x0928, 0x0947, 0x0020, 0x092E, 0x0947, 0x0902, 0x0020, 0x0924, 0x094D, 0x0930, 0x0941, 0x091F, 0x093F] @ asc ''</div>''\<close>

text \<open>The template literal of the address of the market prices request, as a function of the interpolated texts.\<close>

definition marketPricesUrlTemplate ::
  "jsstring \<Rightarrow> jsstring \<Rightarrow> jsstring \<Rightarrow> jsstring" where
  \<open>marketPricesUrlTemplate loc lat lon =
     concat
       [asc ''/api/market-prices/?location='',
        loc,
        asc ''&latitude='',
        lat,
        asc ''&longitude='',
        lon,
        asc ''&v=v2.0'']\<close>

definition marketPricesUrl :: "'n host \<Rightarrow> 'n world \<Rightarrow> jsstring option" where
  \<open>marketPricesUrl h w =
     do { loc \<leftarrow> toStr h (currentLocation w);
          lat \<leftarrow> toStr h (currentLatitude w);
          lon \<leftarrow> toStr h (currentLongitude w);
          Some (marketPricesUrlTemplate loc lat lon) }\<close>

text \<open>\<open>data.market_prices?.top_crops\<close>\<close>

definition marketTopCrops :: "'n host \<Rightarrow> 'n jsval \<Rightarrow> 'n jsval option" where
  "marketTopCrops h data =
     do { mp \<leftarrow> getProp h data (asc ''market_prices'');
          getPropOpt h mp (asc ''top_crops'') }"

text \<open>\<open>data.crops || data.market_prices?.top_crops || []\<close>, and the same for the mandis.\<close>

definition marketCrops :: "'n host \<Rightarrow> 'n jsval \<Rightarrow> 'n jsval option" where
  "marketCrops h data =
     orElse h
       (orElse h (getProp h data (asc ''crops'')) (marketTopCrops h data))
       (Some (JArr []))"

definition marketNearbyMandis :: "'n host \<Rightarrow> 'n jsval \<Rightarrow> 'n jsval option" where
  "marketNearbyMandis h data =
     orElse h
       (orElse h (getProp h data (asc ''nearby_mandis''))
          (do { mp \<leftarrow> getProp h data (asc ''market_prices'');
                getPropOpt h mp (asc ''nearby_mandis'') }))
       (Some (JArr []))"

text \<open>The template literal of the header of the price grid, as a function of the interpolated texts.\<close>

definition marketHeaderTemplate ::
  "jsstring \<Rightarrow> jsstring \<Rightarrow> jsstring \<Rightarrow> jsstring" where
  \<open>marketHeaderTemplate locationText sourceText updatedText =
     concat
       [[0x000A],
        asc ''                <div class="real-time-header" style="margin-bottom: 20px;">'' @ [0x000A],
        asc ''                    <h4 style="color: #2d5016;">'' @ [0xD83D, 0xDCB0, 0x0020, 0x092C, 0x093E, 0x091C, 0x093E, 0x0930, 0x0020, 0x092D, 0x093E, 0x0935] @ asc '' - '',
        locationText,
        asc ''</h4>'' @ [0x000A],
        asc ''                    <p style="color: #666; margin: 5px 0;">'' @ [0xD83D, 0xDCCA, 0x0020, 0x0938, 0x094D, 0x0930, 0x094B, 0x0924] @ asc '': '',
        sourceText,
        asc ''</p>'' @ [0x000A],
        asc ''                    <p style="color: #666; margin: 5px 0;">'' @ [0xD83D, 0xDD52, 0x0020, 0x0905, 0x0902, 0x0924, 0x093F, 0x092E, 0x0020, 0x0905, 0x092A, 0x0921, 0x0947, 0x091F] @ asc '': '',
        updatedText,
        asc ''</p>'' @ [0x000A],
        asc ''                </div>'' @ [0x000A],
        asc ''                <div style="display: grid; grid-template-columns: repeat(auto-fill, minmax(250px, 1fr)); gap: 20px; margin-top: 20px;">'' @ [0x000A],
        asc ''            '']\<close>

definition marketHeaderHtml :: "'n host \<Rightarrow> 'n \<Rightarrow> 'n jsval \<Rightarrow> jsstring option" where
  \<open>marketHeaderHtml h now data =
     do { locationText \<leftarrow> getProp h data (asc ''location'') \<bind> toStr h;
          sourceText \<leftarrow>
            orElse h (getProp h data (asc ''data_source'')) (Some (JStr (asc ''Agmarknet + e-NAM'')))
              \<bind> toStr h;
          updatedText \<leftarrow>
            orElse h (getProp h data (asc ''timestamp'')) (Some (JNum now))
              \<bind> newDateLocale h;
          Some (marketHeaderTemplate locationText sourceText updatedText) }\<close>

text \<open>The template literal of the card of one crop, as a function of the interpolated texts.\<close>

definition marketCropCardTemplate ::
  "jsstring \<Rightarrow> jsstring \<Rightarrow> jsstring \<Rightarrow> jsstring \<Rightarrow> jsstring \<Rightarrow> jsstring \<Rightarrow> jsstring \<Rightarrow> jsstring \<Rightarrow> jsstring" where
  \<open>marketCropCardTemplate nameText trendIcon priceText mspText profitColor profitText demandText supplyText =
     concat
       [[0x000A],
        asc ''                    <div style="background: white; border-radius: 15px; padding: 20px; box-shadow: 0 4px 15px rgba(0,0,0,0.1); transition: transform 0.3s;">'' @ [0x000A],
        asc ''                        <div style="display: flex; justify-content: space-between; align-items: center; margin-bottom: 15px;">'' @ [0x000A],
        asc ''                            <h6 style="margin: 0; color: #2d5016; font-weight: 700;">'' @ [0xD83C, 0xDF3E] @ asc '' '',
        nameText,
        asc ''</h6>'' @ [0x000A],
        asc ''                            <span style="font-size: 1.2rem;">'',
        trendIcon,
        asc ''</span>'' @ [0x000A],
        asc ''                        </div>'' @ [0x000A],
        asc ''                        <div style="text-align: center; margin-bottom: 15px;">'' @ [0x000A],
        asc ''                            <div style="font-size: 1.8rem; font-weight: 700; color: #4a7c59;">'' @ [0x20B9],
        priceText,
        asc ''</div>'' @ [0x000A],
        asc ''                            <div style="color: #666; font-size: 0.9rem;">/quintal</div>'' @ [0x000A],
        asc ''                        </div>'' @ [0x000A],
        asc ''                        <div style="font-size: 0.9rem; line-height: 1.8;">'' @ [0x000A],
        asc ''                            <div style="display: flex; justify-content: space-between;">'' @ [0x000A],
        asc ''                                <span style="color: #666;">MSP:</span>'' @ [0x000A],
        asc ''                                <span style="font-weight: 600;">'' @ [0x20B9],
        mspText,
        asc ''</span>'' @ [0x000A],
        asc ''                            </div>'' @ [0x000A],
        asc ''                            <div style="display: flex; justify-content: space-between;">'' @ [0x000A],
        asc ''                                <span style="color: #666;">'' @ [0x0932, 0x093E, 0x092D] @ asc '':</span>'' @ [0x000A],
        asc ''                                <span style="font-weight: 600; color: '',
        profitColor,
        asc '';">'' @ [0x20B9],
        profitText,
        asc ''</span>'' @ [0x000A],
        asc ''                            </div>'' @ [0x000A],
        asc ''                            <div style="display: flex; justify-content: space-between;">'' @ [0x000A],
        asc ''                                <span style="color: #666;">'' @ [0x092E, 0x093E, 0x0902, 0x0917] @ asc '':</span>'' @ [0x000A],
        asc ''                                <span style="font-weight: 600;">'',
        demandText,
        asc ''</span>'' @ [0x000A],
        asc ''                            </div>'' @ [0x000A],
        asc ''                            <div style="display: flex; justify-content: space-between;">'' @ [0x000A],
        asc ''                                <span style="color: #666;">'' @ [0x0906, 0x092A, 0x0942, 0x0930, 0x094D, 0x0924, 0x093F] @ asc '':</span>'' @ [0x000A],
        asc ''                                <span style="font-weight: 600;">'',
        supplyText,
        asc ''</span>'' @ [0x000A],
        asc ''                            </div>'' @ [0x000A],
        asc ''                        </div>'' @ [0x000A],
        asc ''                    </div>'' @ [0x000A],
        asc ''                '']\<close>

definition marketCropCard :: "'n host \<Rightarrow> 'n jsval \<Rightarrow> jsstring option" where
  \<open>marketCropCard h crop =
     do { profit \<leftarrow> getProp h crop (asc ''profit'');
          gain \<leftarrow> jsGe h profit 0;
          profitColor \<leftarrow> Some (if gain then asc ''#28a745'' else asc ''#dc3545'');
          nameText \<leftarrow>
            orElse h (getProp h crop (asc ''crop_name_hindi'')) (getProp h crop (asc ''crop_name''))
              \<bind> toStr h;
          trend \<leftarrow> getProp h crop (asc ''trend'');
          trendIcon \<leftarrow>
            Some (if trend = JStr ([0x092C, 0x0922, 0x093C, 0x0020, 0x0930, 0x0939, 0x093E]) then [0xD83D, 0xDCC8]
                  else if trend = JStr ([0x0917, 0x093F, 0x0930, 0x0020, 0x0930, 0x0939, 0x093E]) then [0xD83D, 0xDCC9]
                  else [0xD83D, 0xDCCA]);
          priceText \<leftarrow> getProp h crop (asc ''current_price'') \<bind> toLocaleStr h;
          mspText \<leftarrow> getProp h crop (asc ''msp'') \<bind> toLocaleStr h;
          profitText \<leftarrow> getProp h crop (asc ''profit'') \<bind> toLocaleStr h;
          demandText \<leftarrow>
            orElse h (getProp h crop (asc ''demand'')) (Some (JStr ([0x092E, 0x0927, 0x094D, 0x092F, 0x092E]))) \<bind> toStr h;
          supplyText \<leftarrow>
            orElse h (getProp h crop (asc ''supply'')) (Some (JStr ([0x092E, 0x0927, 0x094D, 0x092F, 0x092E]))) \<bind> toStr h;
          Some (marketCropCardTemplate nameText trendIcon priceText mspText profitColor profitText demandText supplyText) }\<close>

definition marketMandiHeader :: jsstring where
  \<open>marketMandiHeader =
     concat
       [[0x000A],
        asc ''                    <div style="margin-top: 30px;">'' @ [0x000A],
        asc ''                        <h5 style="color: #2d5016; margin-bottom: 15px;">'' @ [0xD83C, 0xDFEA, 0x0020, 0x0928, 0x093F, 0x0915, 0x091F, 0x0924, 0x092E, 0x0020, 0x092E, 0x0902, 0x0921, 0x0940] @ asc ''</h5>'' @ [0x000A],
        asc ''                        <div style="display: grid; grid-template-columns: repeat(auto-fill, minmax(200px, 1fr)); gap: 15px;">'' @ [0x000A],
        asc ''                '']\<close>

text \<open>The template literal of the card of one mandi, as a function of the interpolated texts.\<close>

definition marketMandiCardTemplate ::
  "jsstring \<Rightarrow> jsstring \<Rightarrow> jsstring \<Rightarrow> jsstring \<Rightarrow> jsstring \<Rightarrow> jsstring" where
  \<open>marketMandiCardTemplate nameText distanceText specialtyText statusColor statusText =
     concat
       [[0x000A],
        asc ''                        <div style="background: #f8f9fa; border-radius: 10px; padding: 15px; border-left: 4px solid #4a7c59;">'' @ [0x000A],
        asc ''                            <div style="font-weight: 700; color: #2d5016; margin-bottom: 5px;">'',
        nameText,
        asc ''</div>'' @ [0x000A],
        asc ''                            <div style="font-size: 0.85rem; color: #666;">'' @ [0xD83D, 0xDCCD] @ asc '' '',
        distanceText,
        asc ''</div>'' @ [0x000A],
        asc ''                            <div style="font-size: 0.85rem; color: #666;">'' @ [0xD83C, 0xDFF7, 0xFE0F] @ asc '' '',
        specialtyText,
        asc ''</div>'' @ [0x000A],
        asc ''                            <div style="font-size: 0.85rem; color: '',
        statusColor,
        asc ''; font-weight: 600;">'',
        statusText,
        asc ''</div>'' @ [0x000A],
        asc ''                        </div>'' @ [0x000A],
        asc ''                    '']\<close>

definition marketMandiCard :: "'n host \<Rightarrow> 'n jsval \<Rightarrow> jsstring option" where
  \<open>marketMandiCard h mandi =
     do { status \<leftarrow> getProp h mandi (asc ''status'');
          statusColor \<leftarrow>
            Some (if status = JStr ([0x0916, 0x0941, 0x0932, 0x093E]) then asc ''#28a745'' else asc ''#dc3545'');
          nameText \<leftarrow> getProp h mandi (asc ''name'') \<bind> toStr h;
          distanceText \<leftarrow> getProp h mandi (asc ''distance'') \<bind> toStr h;
          specialtyText \<leftarrow> getProp h mandi (asc ''specialty'') \<bind> toStr h;
          statusText \<leftarrow> getProp h mandi (asc ''status'') \<bind> toStr h;
          Some (marketMandiCardTemplate nameText distanceText specialtyText statusColor statusText) }\<close>

text \<open>The branch of \<open>loadMarketPrices\<close> that builds the price grid.\<close>

definition marketGridHtml ::
  "'n host \<Rightarrow> 'n \<Rightarrow> 'n jsval \<Rightarrow> 'n jsval \<Rightarrow> 'n jsval \<Rightarrow> jsstring option" where
  \<open>marketGridHtml h now data crops nearbyMandis =
     do { header \<leftarrow> marketHeaderHtml h now data;
          cropList \<leftarrow> arrayOf crops;
          cards \<leftarrow> appendEach (marketCropCard h) cropList header;
          grid \<leftarrow> Some (cards @ asc ''</div>'');
          withMandis \<leftarrow> nonEmpty h nearbyMandis;
          if withMandis then
            do { mandiList \<leftarrow> arrayOf nearbyMandis;
                 mandis \<leftarrow> appendEach (marketMandiCard h) mandiList (grid @ marketMandiHeader);
                 Some (mandis @ asc ''</div></div>'') }
          else Some grid }\<close>

text \<open>
  What \<open>loadMarketPrices\<close> assigns to the container once the body is there: the grid,
  or the message that no data is available.
\<close>

definition marketPricesHtml :: "'n host \<Rightarrow> 'n \<Rightarrow> 'n jsval \<Rightarrow> jsstring option" where
  "marketPricesHtml h now data =
     do { crops \<leftarrow> marketCrops h data;
          nearbyMandis \<leftarrow> marketNearbyMandis h data;
          filled \<leftarrow> nonEmpty h crops;
          if filled then marketGridHtml h now data crops nearbyMandis
          else Some marketUnavailableHtml }"

definition loadMarketPrices_try :: "'n env \<Rightarrow> 'n world \<Rightarrow> completion \<times> 'n world" where
  "loadMarketPrices_try e w =
     (case getElementById (document w) (asc ''pricesData'') of
        None \<Rightarrow> (Returned, w)
      | Some container \<Rightarrow>
          (let w1 = setInnerHTML container marketLoadingHtml w in
           case marketPricesUrl (browser e) w1 of
             None \<Rightarrow> (Threw, w1)
           | Some url \<Rightarrow>
               (let w2 = fetch url w1 in
                case network e url of
                  FetchRejected \<Rightarrow> (Threw, w2)
                | JsonRejected \<Rightarrow> (Threw, w2)
                | JsonBody data \<Rightarrow>
                    (case marketPricesHtml (browser e) (clock e) data of
                       None \<Rightarrow> (Threw, w2)
                     | Some html \<Rightarrow> (Returned, setInnerHTML container html w2)))))"

definition loadMarketPrices :: "'n env \<Rightarrow> 'n world \<Rightarrow> completion \<times> 'n world" where
  "loadMarketPrices e w =
     (case loadMarketPrices_try e w of
        (Returned, w') \<Rightarrow> (Returned, w')
      | (Threw, w') \<Rightarrow>
          (case getElementById (document w') (asc ''pricesData'') of
             None \<Rightarrow> (Returned, w')
           | Some container \<Rightarrow> (Returned, setInnerHTML container marketErrorHtml w')))"

section \<open>The weather service\<close>

definition weatherLoadingHtml :: jsstring where
  \<open>weatherLoadingHtml = asc ''<div class="loading">'' @ [0x092E, 0x094C, 0x0938, 0x092E, 0x0020, 0x0921, 0x0947, 0x091F, 0x093E, 0x0020, 0x0932, 0x094B, 0x0921, 0x0020, 0x0939, 0x094B, 0x0020, 0x0930, 0x0939, 0x093E, 0x0020, 0x0939, 0x0948] @ asc ''...</div>''\<close>

definition weatherUnavailableHtml :: jsstring where
  \<open>weatherUnavailableHtml = asc ''<div style="padding: 20px; text-align: center; color: #666;">'' @ [0x092E, 0x094C, 0x0938, 0x092E, 0x0020, 0x0921, 0x0947, 0x091F, 0x093E, 0x0020, 0x0909, 0x092A, 0x0932, 0x092C, 0x094D, 0x0927, 0x0020, 0x0928, 0x0939, 0x0940, 0x0902, 0x0020, 0x0939, 0x0948] @ asc ''</div>''\<close>

definition weatherErrorHtml :: jsstring where
  \<open>weatherErrorHtml = asc ''<div style="padding: 20px; text-align: center; color: #dc3545;">'' @ [0x092E, 0x094C, 0x0938, 0x092E, 0x0020, 0x0921, 0x0947, 0x091F, 0x093E, 0x0020, 0x0932, 0x094B, 0x0921, 0x0020, 0x0915, 0x0930, 0x0928, 0x0947, 0x0020, 0x092E, 0x0947, 0x0902, 0x0020, 0x0924, 0x094D, 0x0930, 0x0941, 0x091F, 0x093F] @ asc ''</div>''\<close>

text \<open>The template literal of the address of the weather request, as a function of the interpolated texts.\<close>

definition weatherUrlTemplate ::
  "jsstring \<Rightarrow> jsstring \<Rightarrow> jsstring \<Rightarrow> jsstring" where
  \<open>weatherUrlTemplate loc lat lon =
     concat
       [asc ''/api/weather/?location='',
        loc,
        asc ''&latitude='',
        lat,
        asc ''&longitude='',
        lon]\<close>

definition weatherUrl :: "'n host \<Rightarrow> 'n world \<Rightarrow> jsstring option" where
  \<open>weatherUrl h w =
     do { loc \<leftarrow> toStr h (currentLocation w);
          lat \<leftarrow> toStr h (currentLatitude w);
          lon \<leftarrow> toStr h (currentLongitude w);
          Some (weatherUrlTemplate loc lat lon) }\<close>

text \<open>
  \<open>data.current_weather || data.data?.current || {}\<close> and
  \<open>data.forecast_7_days || data.data?.forecast_7_days || []\<close>.
\<close>

definition weatherCurrent :: "'n host \<Rightarrow> 'n jsval \<Rightarrow> 'n jsval option" where
  "weatherCurrent h data =
     orElse h
       (orElse h (getProp h data (asc ''current_weather''))
          (do { d \<leftarrow> getProp h data (asc ''data''); getPropOpt h d (asc ''current'') }))
       (Some (JObj []))"

definition weatherForecast :: "'n host \<Rightarrow> 'n jsval \<Rightarrow> 'n jsval option" where
  "weatherForecast h data =
     orElse h
       (orElse h (getProp h data (asc ''forecast_7_days''))
          (do { d \<leftarrow> getProp h data (asc ''data''); getPropOpt h d (asc ''forecast_7_days'') }))
       (Some (JArr []))"

text \<open>\<open>weather && (weather.temperature || data.location)\<close>, as the condition of the \<open>if\<close>.\<close>

definition weatherKnown :: "'n host \<Rightarrow> 'n jsval \<Rightarrow> 'n jsval \<Rightarrow> bool option" where
  "weatherKnown h data weather =
     (if truthy h weather then
        map_option (truthy h)
          (orElse h (getProp h weather (asc ''temperature'')) (getProp h data (asc ''location'')))
      else Some False)"

text \<open>The template literal of the card of the current weather, as a function of the interpolated texts.\<close>

definition weatherCardTemplate ::
  "jsstring \<Rightarrow> jsstring \<Rightarrow> jsstring \<Rightarrow> jsstring \<Rightarrow> jsstring \<Rightarrow> jsstring \<Rightarrow> jsstring \<Rightarrow> jsstring \<Rightarrow> jsstring" where
  \<open>weatherCardTemplate locationText temperatureText conditionText humidityText windText feelsLikeText pressureText pressureUnitText =
     concat
       [[0x000A],
        asc ''                <div style="background: white; border-radius: 15px; padding: 30px; box-shadow: 0 4px 15px rgba(0,0,0,0.1); margin-bottom: 20px;">'' @ [0x000A],
        asc ''                    <h4 style="color: #2d5016; margin-bottom: 20px;">'' @ [0xD83C, 0xDF24, 0xFE0F, 0x0020, 0x092E, 0x094C, 0x0938, 0x092E, 0x0020, 0x0915, 0x0940, 0x0020, 0x091C, 0x093E, 0x0928, 0x0915, 0x093E, 0x0930, 0x0940] @ asc '' - '',
        locationText,
        asc ''</h4>'' @ [0x000A],
        asc ''                    <div style="display: grid; grid-template-columns: repeat(auto-fit, minmax(200px, 1fr)); gap: 20px;">'' @ [0x000A],
        asc ''                        <div style="text-align: center;">'' @ [0x000A],
        asc ''                            <div style="font-size: 3rem; font-weight: 700; color: #4a7c59;">'',
        temperatureText,
        asc ''</div>'' @ [0x000A],
        asc ''                            <div style="color: #666; margin-top: 10px;">'',
        conditionText,
        asc ''</div>'' @ [0x000A],
        asc ''                        </div>'' @ [0x000A],
        asc ''                        <div>'' @ [0x000A],
        asc ''                            <div style="margin-bottom: 10px;">'' @ [0xD83D, 0xDCA7, 0x0020, 0x0928, 0x092E, 0x0940] @ asc '': '',
        humidityText,
        asc ''</div>'' @ [0x000A],
        asc ''                            <div style="margin-bottom: 10px;">'' @ [0xD83D, 0xDCA8, 0x0020, 0x0939, 0x0935, 0x093E] @ asc '': '',
        windText,
        asc ''</div>'' @ [0x000A],
        asc ''                            <div style="margin-bottom: 10px;">'' @ [0xD83C, 0xDF21, 0xFE0F, 0x0020, 0x0905, 0x0928, 0x0941, 0x092D, 0x0935] @ asc '': '',
        feelsLikeText,
        asc ''</div>'' @ [0x000A],
        asc ''                            <div style="margin-bottom: 10px;">'' @ [0xD83D, 0xDCCA, 0x0020, 0x0926, 0x092C, 0x093E, 0x0935] @ asc '': '',
        pressureText,
        asc '' '',
        pressureUnitText,
        asc ''</div>'' @ [0x000A],
        asc ''                        </div>'' @ [0x000A],
        asc ''                    </div>'' @ [0x000A],
        asc ''                </div>'' @ [0x000A],
        asc ''            '']\<close>

definition weatherCardHtml :: "'n host \<Rightarrow> 'n jsval \<Rightarrow> 'n jsval \<Rightarrow> jsstring option" where
  \<open>weatherCardHtml h data weather =
     do { locationText \<leftarrow> getProp h data (asc ''location'') \<bind> toStr h;
          temperatureText \<leftarrow>
            orElse h (getProp h weather (asc ''temperature'')) (Some (JStr (asc ''28'' @ [0x00B0] @ asc ''C'')))
              \<bind> toStr h;
          conditionText \<leftarrow>
            orElse h
              (orElse h (getProp h weather (asc ''condition''))
                 (getProp h weather (asc ''description'')))
              (Some (JStr ([0x0938, 0x093E, 0x092B, 0x0020, 0x0906, 0x0938, 0x092E, 0x093E, 0x0928])))
              \<bind> toStr h;
          humidityText \<leftarrow>
            orElse h (getProp h weather (asc ''humidity'')) (Some (JStr (asc ''65%'')))
              \<bind> toStr h;
          windText \<leftarrow>
            orElse h (getProp h weather (asc ''wind_speed'')) (Some (JStr (asc ''12 km/h'')))
              \<bind> toStr h;
          feelsLikeText \<leftarrow>
            orElse h (getProp h weather (asc ''feels_like'')) (Some (JStr (asc ''30'' @ [0x00B0] @ asc ''C'')))
              \<bind> toStr h;
          pressureText \<leftarrow>
            orElse h (getProp h weather (asc ''pressure'')) (Some (JStr (asc ''1013'')))
              \<bind> toStr h;
          pressureUnitText \<leftarrow>
            orElse h (getProp h weather (asc ''pressure_unit'')) (Some (JStr (asc ''hPa'')))
              \<bind> toStr h;
          Some (weatherCardTemplate locationText temperatureText conditionText humidityText windText feelsLikeText pressureText pressureUnitText) }\<close>

definition weatherForecastHeader :: jsstring where
  \<open>weatherForecastHeader =
     concat
       [[0x000A],
        asc ''                    <div style="background: white; border-radius: 15px; padding: 30px; box-shadow: 0 4px 15px rgba(0,0,0,0.1);">'' @ [0x000A],
        asc ''                        <h5 style="color: #2d5016; margin-bottom: 15px;">'' @ [0xD83D, 0xDCC5] @ asc '' 7 '' @ [0x0926, 0x093F, 0x0928, 0x0020, 0x0915, 0x093E, 0x0020, 0x092A, 0x0942, 0x0930, 0x094D, 0x0935, 0x093E, 0x0928, 0x0941, 0x092E, 0x093E, 0x0928] @ asc ''</h5>'' @ [0x000A],
        asc ''                        <div style="display: grid; grid-template-columns: repeat(auto-fill, minmax(150px, 1fr)); gap: 15px;">'' @ [0x000A],
        asc ''                '']\<close>

text \<open>The template literal of the card of one day of the forecast, as a function of the interpolated texts.\<close>

definition weatherDayCardTemplate ::
  "jsstring \<Rightarrow> jsstring \<Rightarrow> jsstring \<Rightarrow> jsstring" where
  \<open>weatherDayCardTemplate dayText temperatureText conditionText =
     concat
       [[0x000A],
        asc ''                        <div style="background: #f8f9fa; border-radius: 10px; padding: 15px; text-align: center;">'' @ [0x000A],
        asc ''                            <div style="font-weight: 700; color: #2d5016; margin-bottom: 5px;">'',
        dayText,
        asc ''</div>'' @ [0x000A],
        asc ''                            <div style="font-size: 1.5rem; color: #4a7c59; margin: 10px 0;">'',
        temperatureText,
        asc ''</div>'' @ [0x000A],
        asc ''                            <div style="font-size: 0.85rem; color: #666;">'',
        conditionText,
        asc ''</div>'' @ [0x000A],
        asc ''                        </div>'' @ [0x000A],
        asc ''                    '']\<close>

definition weatherDayCard :: "'n host \<Rightarrow> 'n jsval \<Rightarrow> jsstring option" where
  \<open>weatherDayCard h day =
     do { dayText \<leftarrow>
            orElse h (getProp h day (asc ''day'')) (getProp h day (asc ''date'')) \<bind> toStr h;
          temperatureText \<leftarrow>
            orElse h (getProp h day (asc ''temperature'')) (Some (JStr (asc ''28'' @ [0x00B0] @ asc ''C'')))
              \<bind> toStr h;
          conditionText \<leftarrow>
            orElse h (getProp h day (asc ''condition'')) (Some (JStr ([0x0938, 0x093E, 0x092B])))
              \<bind> toStr h;
          Some (weatherDayCardTemplate dayText temperatureText conditionText) }\<close>

definition weatherPanelHtml ::
  "'n host \<Rightarrow> 'n jsval \<Rightarrow> 'n jsval \<Rightarrow> 'n jsval \<Rightarrow> jsstring option" where
  \<open>weatherPanelHtml h data weather forecast =
     do { card \<leftarrow> weatherCardHtml h data weather;
          withForecast \<leftarrow> nonEmpty h forecast;
          if withForecast then
            do { days \<leftarrow> arrayOf forecast;
                 cards \<leftarrow> appendEach (weatherDayCard h) (take 7 days) (card @ weatherForecastHeader);
                 Some (cards @ asc ''</div></div>'') }
          else Some card }\<close>

definition weatherHtml :: "'n host \<Rightarrow> 'n jsval \<Rightarrow> jsstring option" where
  "weatherHtml h data =
     do { weather \<leftarrow> weatherCurrent h data;
          forecast \<leftarrow> weatherForecast h data;
          known \<leftarrow> weatherKnown h data weather;
          if known then weatherPanelHtml h data weather forecast
          else Some weatherUnavailableHtml }"

definition loadWeatherData_try :: "'n env \<Rightarrow> 'n world \<Rightarrow> completion \<times> 'n world" where
  "loadWeatherData_try e w =
     (case getElementById (document w) (asc ''weatherData'') of
        None \<Rightarrow> (Returned, w)
      | Some container \<Rightarrow>
          (let w1 = setInnerHTML container weatherLoadingHtml w in
           case weatherUrl (browser e) w1 of
             None \<Rightarrow> (Threw, w1)
           | Some url \<Rightarrow>
               (let w2 = fetch url w1 in
                case network e url of
                  FetchRejected \<Rightarrow> (Threw, w2)
                | JsonRejected \<Rightarrow> (Threw, w2)
                | JsonBody data \<Rightarrow>
                    (case weatherHtml (browser e) data of
                       None \<Rightarrow> (Threw, w2)
                     | Some html \<Rightarrow> (Returned, setInnerHTML container html w2)))))"

definition loadWeatherData :: "'n env \<Rightarrow> 'n world \<Rightarrow> completion \<times> 'n world" where
  "loadWeatherData e w =
     (case loadWeatherData_try e w of
        (Returned, w') \<Rightarrow> (Returned, w')
      | (Threw, w') \<Rightarrow>
          (case getElementById (document w') (asc ''weatherData'') of
             None \<Rightarrow> (Returned, w')
           | Some container \<Rightarrow> (Returned, setInnerHTML container weatherErrorHtml w')))"

section \<open>The government schemes service\<close>

definition schemesLoadingHtml :: jsstring where
  \<open>schemesLoadingHtml = asc ''<div class="loading">'' @ [0x092F, 0x094B, 0x091C, 0x0928, 0x093E, 0x090F, 0x0902, 0x0020, 0x0932, 0x094B, 0x0921, 0x0020, 0x0939, 0x094B, 0x0020, 0x0930, 0x0939, 0x0940, 0x0020, 0x0939, 0x0948, 0x0902] @ asc ''...</div>''\<close>

definition schemesUnavailableHtml :: jsstring where
  \<open>schemesUnavailableHtml = asc ''<div style="padding: 20px; text-align: center; color: #666;">'' @ [0x092F, 0x094B, 0x091C, 0x0928, 0x093E, 0x090F, 0x0902, 0x0020, 0x0909, 0x092A, 0x0932, 0x092C, 0x094D, 0x0927, 0x0020, 0x0928, 0x0939, 0x0940, 0x0902, 0x0020, 0x0939, 0x0948, 0x0902] @ asc ''</div>''\<close>

definition schemesErrorHtml :: jsstring where
  \<open>schemesErrorHtml = asc ''<div style="padding: 20px; text-align: center; color: #dc3545;">'' @ [0x092F, 0x094B, 0x091C, 0x0928, 0x093E, 0x090F, 0x0902, 0x0020, 0x0932, 0x094B, 0x0921, 0x0020, 0x0915, 0x0930, 0x0928, 0x0947, 0x0020, 0x092E, 0x0947, 0x0902, 0x0020, 0x0924, 0x094D, 0x0930, 0x0941, 0x091F, 0x093F] @ asc ''</div>''\<close>

text \<open>The template literal of the address of the schemes request, as a function of the interpolated texts.\<close>

definition schemesUrlTemplate ::
  "jsstring \<Rightarrow> jsstring" where
  \<open>schemesUrlTemplate loc =
     concat
       [asc ''/api/government-schemes/?location='',
        loc]\<close>

definition schemesUrl :: "'n host \<Rightarrow> 'n world \<Rightarrow> jsstring option" where
  \<open>schemesUrl h w =
     do { loc \<leftarrow> toStr h (currentLocation w);
          Some (schemesUrlTemplate loc) }\<close>

text \<open>The template literal of the card of one scheme, as a function of the interpolated texts.\<close>

definition schemeCardTemplate ::
  "jsstring \<Rightarrow> jsstring \<Rightarrow> jsstring \<Rightarrow> jsstring \<Rightarrow> jsstring" where
  \<open>schemeCardTemplate nameText descriptionText benefitsText eligibilityText =
     concat
       [[0x000A],
        asc ''                    <div style="background: white; border-radius: 15px; padding: 25px; box-shadow: 0 4px 15px rgba(0,0,0,0.1); border-left: 5px solid #4a7c59;">'' @ [0x000A],
        asc ''                        <h5 style="color: #2d5016; margin-bottom: 15px;">'' @ [0xD83D, 0xDCCB] @ asc '' '',
        nameText,
        asc ''</h5>'' @ [0x000A],
        asc ''                        <p style="color: #666; margin-bottom: 15px; line-height: 1.6;">'',
        descriptionText,
        asc ''</p>'' @ [0x000A],
        asc ''                        <div style="display: grid; grid-template-columns: repeat(auto-fit, minmax(200px, 1fr)); gap: 15px; margin-top: 15px;">'' @ [0x000A],
        asc ''                            <div>'' @ [0x000A],
        asc ''                                <strong style="color: #2d5016;">'' @ [0xD83D, 0xDCB0, 0x0020, 0x0932, 0x093E, 0x092D] @ asc '':</strong>'' @ [0x000A],
        asc ''                                <div style="color: #666; font-size: 0.9rem; margin-top: 5px;">'',
        benefitsText,
        asc ''</div>'' @ [0x000A],
        asc ''                            </div>'' @ [0x000A],
        asc ''                            <div>'' @ [0x000A],
        asc ''                                <strong style="color: #2d5016;">'' @ [0x2705, 0x0020, 0x092A, 0x093E, 0x0924, 0x094D, 0x0930, 0x0924, 0x093E] @ asc '':</strong>'' @ [0x000A],
        asc ''                                <div style="color: #666; font-size: 0.9rem; margin-top: 5px;">'',
        eligibilityText,
        asc ''</div>'' @ [0x000A],
        asc ''                            </div>'' @ [0x000A],
        asc ''                        </div>'' @ [0x000A],
        asc ''                    </div>'' @ [0x000A],
        asc ''                '']\<close>

definition schemeCard :: "'n host \<Rightarrow> 'n jsval \<Rightarrow> jsstring option" where
  \<open>schemeCard h scheme =
     do { nameText \<leftarrow>
            orElse h (getProp h scheme (asc ''name_hindi'')) (getProp h scheme (asc ''name''))
              \<bind> toStr h;
          descriptionText \<leftarrow>
            orElse h
              (orElse h (getProp h scheme (asc ''description_hindi''))
                 (getProp h scheme (asc ''description'')))
              (Some (JStr []))
              \<bind> toStr h;
          benefitsText \<leftarrow>
            orElse h
              (orElse h (getProp h scheme (asc ''benefits_hindi''))
                 (getProp h scheme (asc ''benefits'')))
              (Some (JStr ([0x0935, 0x093F, 0x0935, 0x0930, 0x0923, 0x0020, 0x0909, 0x092A, 0x0932, 0x092C, 0x094D, 0x0927, 0x0020, 0x0928, 0x0939, 0x0940, 0x0902])))
              \<bind> toStr h;
          eligibilityText \<leftarrow>
            orElse h
              (orElse h (getProp h scheme (asc ''eligibility_hindi''))
                 (getProp h scheme (asc ''eligibility'')))
              (Some (JStr ([0x0938, 0x092D, 0x0940, 0x0020, 0x0915, 0x093F, 0x0938, 0x093E, 0x0928])))
              \<bind> toStr h;
          Some (schemeCardTemplate nameText descriptionText benefitsText eligibilityText) }\<close>

definition schemesListHtml :: "'n host \<Rightarrow> 'n jsval \<Rightarrow> jsstring option" where
  \<open>schemesListHtml h schemes =
     do { schemeList \<leftarrow> arrayOf schemes;
          cards \<leftarrow> appendEach (schemeCard h) schemeList (asc ''<div style="display: grid; gap: 20px;">'');
          Some (cards @ asc ''</div>'') }\<close>

definition schemesHtml :: "'n host \<Rightarrow> 'n jsval \<Rightarrow> jsstring option" where
  "schemesHtml h data =
     do { schemes \<leftarrow> orElse h (getProp h data (asc ''schemes'')) (Some (JArr []));
          filled \<leftarrow> nonEmpty h schemes;
          if filled then schemesListHtml h schemes
          else Some schemesUnavailableHtml }"

definition loadGovernmentSchemes_try :: "'n env \<Rightarrow> 'n world \<Rightarrow> completion \<times> 'n world" where
  "loadGovernmentSchemes_try e w =
     (case getElementById (document w) (asc ''schemesData'') of
        None \<Rightarrow> (Returned, w)
      | Some container \<Rightarrow>
          (let w1 = setInnerHTML container schemesLoadingHtml w in
           case schemesUrl (browser e) w1 of
             None \<Rightarrow> (Threw, w1)
           | Some url \<Rightarrow>
               (let w2 = fetch url w1 in
                case network e url of
                  FetchRejected \<Rightarrow> (Threw, w2)
                | JsonRejected \<Rightarrow> (Threw, w2)
                | JsonBody data \<Rightarrow>
                    (case schemesHtml (browser e) data of
                       None \<Rightarrow> (Threw, w2)
                     | Some html \<Rightarrow> (Returned, setInnerHTML container html w2)))))"

definition loadGovernmentSchemes :: "'n env \<Rightarrow> 'n world \<Rightarrow> completion \<times> 'n world" where
  "loadGovernmentSchemes e w =
     (case loadGovernmentSchemes_try e w of
        (Returned, w') \<Rightarrow> (Returned, w')
      | (Threw, w') \<Rightarrow>
          (case getElementById (document w') (asc ''schemesData'') of
             None \<Rightarrow> (Returned, w')
           | Some container \<Rightarrow> (Returned, setInnerHTML container schemesErrorHtml w')))"

section \<open>The crop recommendations service\<close>

definition cropsLoadingHtml :: jsstring where
  \<open>cropsLoadingHtml = asc ''<div class="loading">'' @ [0x092B, 0x0938, 0x0932, 0x0020, 0x0938, 0x0941, 0x091D, 0x093E, 0x0935, 0x0020, 0x0932, 0x094B, 0x0921, 0x0020, 0x0939, 0x094B, 0x0020, 0x0930, 0x0939, 0x0947, 0x0020, 0x0939, 0x0948, 0x0902] @ asc ''...</div>''\<close>

definition cropsUnavailableHtml :: jsstring where
  \<open>cropsUnavailableHtml = asc ''<div style="padding: 20px; text-align: center; color: #666;">'' @ [0x092B, 0x0938, 0x0932, 0x0020, 0x0938, 0x0941, 0x091D, 0x093E, 0x0935, 0x0020, 0x0909, 0x092A, 0x0932, 0x092C, 0x094D, 0x0927, 0x0020, 0x0928, 0x0939, 0x0940, 0x0902, 0x0020, 0x0939, 0x0948, 0x0902] @ asc ''</div>''\<close>

definition cropsErrorHtml :: jsstring where
  \<open>cropsErrorHtml = asc ''<div style="padding: 20px; text-align: center; color: #dc3545;">'' @ [0x092B, 0x0938, 0x0932, 0x0020, 0x0938, 0x0941, 0x091D, 0x093E, 0x0935, 0x0020, 0x0932, 0x094B, 0x0921, 0x0020, 0x0915, 0x0930, 0x0928, 0x0947, 0x0020, 0x092E, 0x0947, 0x0902, 0x0020, 0x0924, 0x094D, 0x0930, 0x0941, 0x091F, 0x093F] @ asc ''</div>''\<close>

text \<open>The template literal of the address of the crop recommendations request, as a function of the interpolated texts.\<close>

definition cropsUrlTemplate ::
  "jsstring \<Rightarrow> jsstring" where
  \<open>cropsUrlTemplate loc =
     concat
       [asc ''/api/advisories/?location='',
        loc]\<close>

definition cropsUrl :: "'n host \<Rightarrow> 'n world \<Rightarrow> jsstring option" where
  \<open>cropsUrl h w =
     do { loc \<leftarrow> toStr h (currentLocation w);
          Some (cropsUrlTemplate loc) }\<close>

text \<open>
  \<open>document.getElementById('cropsData') || document.getElementById('cropRecommendationsData')\<close>
\<close>

definition cropsContainer :: "element list \<Rightarrow> nat option" where
  "cropsContainer d =
     (case getElementById d (asc ''cropsData'') of
        Some c \<Rightarrow> Some c
      | None \<Rightarrow> getElementById d (asc ''cropRecommendationsData''))"

text \<open>
  \<open>getCategoryIcon\<close>, \<open>icons[category] || '\<dots>'\<close>, as the text the template shows for it.
  The key is the category converted to a string; a key that is not in the table can
  still name a member of \<open>Object.prototype\<close>, which is truthy.
\<close>

definition categoryIcons :: "(jsstring \<times> jsstring) list" where
  \<open>categoryIcons =
     [(asc ''Cereal'', [0xD83C, 0xDF3E]), (asc ''Pulse'', [0xD83E, 0xDED8]),
      (asc ''Oilseed'', [0xD83C, 0xDF3B]), (asc ''Vegetable'', [0xD83E, 0xDD66]),
      (asc ''Fruit'', [0xD83C, 0xDF4E]), (asc ''Spice'', [0xD83C, 0xDF36, 0xFE0F]),
      (asc ''Commercial'', [0xD83D, 0xDCB0]), (asc ''Medicinal'', [0xD83C, 0xDF3F])]\<close>

definition getCategoryIcon :: "'n host \<Rightarrow> 'n jsval \<Rightarrow> jsstring option" where
  \<open>getCategoryIcon h category =
     do { key \<leftarrow> toStr h category;
          Some (case map_of categoryIcons key of
                  Some icon \<Rightarrow> icon
                | None \<Rightarrow>
                    (case inheritedText h key of
                       Some text \<Rightarrow> text
                     | None \<Rightarrow> [0xD83C, 0xDF31])) }\<close>

definition getWaterColor :: "'n jsval \<Rightarrow> jsstring" where
  "getWaterColor req =
     (if req = JStr (asc ''high'') then asc ''#007bff''
      else if req = JStr (asc ''moderate'') then asc ''#28a745''
      else asc ''#fd7e14'')"

text \<open>The template literal of the header of the crop recommendations, as a function of the interpolated texts.\<close>

definition cropsHeaderTemplate ::
  "jsstring \<Rightarrow> jsstring \<Rightarrow> jsstring \<Rightarrow> jsstring \<Rightarrow> jsstring" where
  \<open>cropsHeaderTemplate seasonText regionText sourceText messageText =
     concat
       [[0x000A],
        asc ''                <div class="real-time-header" style="background: linear-gradient(135deg, #2d5016 0%, #4a7c59 100%); margin-bottom: 25px; padding: 20px; border-radius: 12px;">'' @ [0x000A],
        asc ''                    <h4 style="color: white; margin-bottom: 10px;">'',
        seasonText,
        asc '' '' @ [0x0915, 0x0947, 0x0020, 0x0932, 0x093F, 0x090F, 0x0020, 0x0938, 0x0930, 0x094D, 0x0935, 0x094B, 0x0924, 0x094D, 0x0924, 0x092E, 0x0020, 0x092B, 0x0938, 0x0932, 0x0020, 0x0938, 0x0941, 0x091D, 0x093E, 0x0935] @ asc '' - '',
        regionText,
        asc ''</h4>'' @ [0x000A],
        asc ''                    <p style="color: rgba(255,255,255,0.9); margin: 5px 0;">'' @ [0xD83D, 0xDCCA, 0x0020, 0x0938, 0x094D, 0x0930, 0x094B, 0x0924] @ asc '': '',
        sourceText,
        asc ''</p>'' @ [0x000A],
        asc ''                    <p style="color: rgba(255,255,255,0.8); font-size: 0.9rem; margin: 0;">'',
        messageText,
        asc ''</p>'' @ [0x000A],
        asc ''                </div>'' @ [0x000A],
        asc ''                <div style="display: grid; grid-template-columns: repeat(auto-fill, minmax(280px, 1fr)); gap: 20px;">'' @ [0x000A],
        asc ''            '']\<close>

definition cropsHeaderHtml :: "'n host \<Rightarrow> 'n jsval \<Rightarrow> jsstring option" where
  \<open>cropsHeaderHtml h data =
     do { seasonText \<leftarrow> getProp h data (asc ''season'') \<bind> toStr h;
          regionText \<leftarrow> getProp h data (asc ''region'') \<bind> toStr h;
          sourceText \<leftarrow> getProp h data (asc ''data_source'') \<bind> toStr h;
          messageText \<leftarrow> getProp h data (asc ''message'') \<bind> toStr h;
          Some (cropsHeaderTemplate seasonText regionText sourceText messageText) }\<close>

text \<open>The template literal of the card of one recommended crop, as a function of the interpolated texts.\<close>

definition cropCardTemplate ::
  "jsstring \<Rightarrow> jsstring \<Rightarrow> jsstring \<Rightarrow> jsstring \<Rightarrow> jsstring \<Rightarrow> jsstring \<Rightarrow> jsstring \<Rightarrow> jsstring \<Rightarrow> jsstring \<Rightarrow> jsstring \<Rightarrow> jsstring \<Rightarrow> jsstring \<Rightarrow> jsstring \<Rightarrow> jsstring" where
  \<open>cropCardTemplate suitabilityColor categoryIcon categoryText rankText nameHindiText nameText scoreText profitText yieldText durationText waterColor waterText reasonText =
     concat
       [[0x000A],
        asc ''                    <div style="background: white; border-radius: 15px; padding: 20px; box-shadow: 0 5px 15px rgba(0,0,0,0.08); transition: transform 0.3s; position: relative; overflow: hidden; border-top: 4px solid '',
        suitabilityColor,
        asc '';">'' @ [0x000A],
        asc ''                        <div style="position: absolute; top: 10px; right: 10px; background: #f8f9fa; padding: 5px 10px; border-radius: 20px; font-size: 0.8rem; font-weight: 600; color: #666; border: 1px solid #eee;">'' @ [0x000A],
        asc ''                            '',
        categoryIcon,
        asc '' '',
        categoryText,
        [0x000A],
        asc ''                        </div>'' @ [0x000A],
        asc ''                        '' @ [0x000A],
        asc ''                        <h5 style="color: #2d5016; font-weight: 700; margin-bottom: 5px; font-size: 1.25rem;">'',
        rankText,
        asc ''. '',
        nameHindiText,
        asc ''</h5>'' @ [0x000A],
        asc ''                        <div style="color: #666; font-size: 0.9rem; margin-bottom: 15px;">'',
        nameText,
        asc ''</div>'' @ [0x000A],
        asc ''                        '' @ [0x000A],
        asc ''                        <div style="display: flex; align-items: center; margin-bottom: 15px;">'' @ [0x000A],
        asc ''                            <div style="flex-grow: 1; height: 8px; background: #eee; border-radius: 4px; overflow: hidden;">'' @ [0x000A],
        asc ''                                <div style="width: '',
        scoreText,
        asc ''%; height: 100%; background: '',
        suitabilityColor,
        asc ''; border-radius: 4px;"></div>'' @ [0x000A],
        asc ''                            </div>'' @ [0x000A],
        asc ''                            <span style="margin-left: 10px; font-weight: 700; color: '',
        suitabilityColor,
        asc '';">'',
        scoreText,
        asc ''%</span>'' @ [0x000A],
        asc ''                        </div>'' @ [0x000A],
        asc ''                        '' @ [0x000A],
        asc ''                        <div style="display: grid; grid-template-columns: 1fr 1fr; gap: 10px; font-size: 0.9rem; background: #f8f9fa; padding: 10px; border-radius: 10px; margin-bottom: 15px;">'' @ [0x000A],
        asc ''                            <div>'' @ [0x000A],
        asc ''                                <div style="color: #666; font-size: 0.8rem;">'' @ [0x0905, 0x0928, 0x0941, 0x092E, 0x093E, 0x0928, 0x093F, 0x0924, 0x0020, 0x0932, 0x093E, 0x092D] @ asc ''</div>'' @ [0x000A],
        asc ''                                <div style="font-weight: 700; color: #28a745;">'' @ [0x20B9],
        profitText,
        asc ''</div>'' @ [0x000A],
        asc ''                            </div>'' @ [0x000A],
        asc ''                            <div>'' @ [0x000A],
        asc ''                                <div style="color: #666; font-size: 0.8rem;">'' @ [0x0909, 0x092A, 0x091C] @ asc '' ('' @ [0x0915, 0x094D, 0x0935, 0x093F, 0x0902, 0x091F, 0x0932] @ asc ''/'' @ [0x0939, 0x0947] @ asc ''.)</div>'' @ [0x000A],
        asc ''                                <div style="font-weight: 700; color: #2d5016;">'',
        yieldText,
        asc '' Q</div>'' @ [0x000A],
        asc ''                            </div>'' @ [0x000A],
        asc ''                            <div>'' @ [0x000A],
        asc ''                                <div style="color: #666; font-size: 0.8rem;">'' @ [0x0905, 0x0935, 0x0927, 0x093F] @ asc ''</div>'' @ [0x000A],
        asc ''                                <div style="font-weight: 600; color: #555;">'',
        durationText,
        asc '' '' @ [0x0926, 0x093F, 0x0928] @ asc ''</div>'' @ [0x000A],
        asc ''                            </div>'' @ [0x000A],
        asc ''                             <div>'' @ [0x000A],
        asc ''                                <div style="color: #666; font-size: 0.8rem;">'' @ [0x092A, 0x093E, 0x0928, 0x0940, 0x0020, 0x0915, 0x0940, 0x0020, 0x0906, 0x0935, 0x0936, 0x094D, 0x092F, 0x0915, 0x0924, 0x093E] @ asc ''</div>'' @ [0x000A],
        asc ''                                <div style="font-weight: 600; color: '',
        waterColor,
        asc ''; text-transform: capitalize;">'',
        waterText,
        asc ''</div>'' @ [0x000A],
        asc ''                            </div>'' @ [0x000A],
        asc ''                        </div>'' @ [0x000A],
        asc ''                        '' @ [0x000A],
        asc ''                        <div style="font-size: 0.9rem; color: #555; background: #fff3cd; padding: 10px; border-radius: 8px; border-left: 3px solid #ffc107;">'' @ [0x000A],
        asc ''                            '' @ [0xD83D, 0xDCA1] @ asc '' <strong>'' @ [0x0938, 0x0941, 0x091D, 0x093E, 0x0935] @ asc '':</strong> '',
        reasonText,
        [0x000A],
        asc ''                        </div>'' @ [0x000A],
        asc ''                    </div>'' @ [0x000A],
        asc ''                '']\<close>

definition cropCard :: "'n host \<Rightarrow> 'n jsval \<Rightarrow> nat \<Rightarrow> jsstring option" where
  \<open>cropCard h crop index =
     do { score \<leftarrow> getProp h crop (asc ''suitability_score'');
          high \<leftarrow> jsGe h score 85;
          suitabilityColor \<leftarrow>
            (if high then Some (asc ''#28a745'')
             else do { medium \<leftarrow> jsGe h score 70;
                       Some (if medium then asc ''#ffc107'' else asc ''#dc3545'') });
          category \<leftarrow> getProp h crop (asc ''category'');
          categoryIcon \<leftarrow> getCategoryIcon h category;
          water \<leftarrow> getProp h crop (asc ''water_requirement'');
          waterColor \<leftarrow> Some (getWaterColor water);
          categoryText \<leftarrow> toStr h category;
          rankText \<leftarrow> Some (numberToString h (numberOfNat h (index + 1)));
          nameHindiText \<leftarrow> getProp h crop (asc ''crop_name_hindi'') \<bind> toStr h;
          nameText \<leftarrow> getProp h crop (asc ''crop_name'') \<bind> toStr h;
          scoreText \<leftarrow> toStr h score;
          profitText \<leftarrow> getProp h crop (asc ''profit_per_hectare'') \<bind> toLocaleStr h;
          yieldText \<leftarrow> getProp h crop (asc ''yield_per_hectare'') \<bind> toStr h;
          durationText \<leftarrow> getProp h crop (asc ''duration_days'') \<bind> toStr h;
          waterText \<leftarrow> toStr h water;
          reasonText \<leftarrow> getProp h crop (asc ''reason_hindi'') \<bind> toStr h;
          Some (cropCardTemplate suitabilityColor categoryIcon categoryText rankText nameHindiText nameText scoreText profitText yieldText durationText waterColor waterText reasonText) }\<close>

definition cropsListHtml :: "'n host \<Rightarrow> 'n jsval \<Rightarrow> 'n jsval \<Rightarrow> jsstring option" where
  \<open>cropsListHtml h data recommendations =
     do { header \<leftarrow> cropsHeaderHtml h data;
          cropList \<leftarrow> arrayOf recommendations;
          cards \<leftarrow> appendEachIndexed (cropCard h) cropList 0 header;
          Some (cards @ asc ''</div>'') }\<close>

definition cropsHtml :: "'n host \<Rightarrow> 'n jsval \<Rightarrow> jsstring option" where
  "cropsHtml h data =
     do { recommendations \<leftarrow>
            orElse h (getProp h data (asc ''recommendations'')) (Some (JArr []));
          filled \<leftarrow> nonEmpty h recommendations;
          if filled then cropsListHtml h data recommendations
          else Some cropsUnavailableHtml }"

definition loadCropRecommendations_try :: "'n env \<Rightarrow> 'n world \<Rightarrow> completion \<times> 'n world" where
  "loadCropRecommendations_try e w =
     (case cropsContainer (document w) of
        None \<Rightarrow> (Returned, w)
      | Some container \<Rightarrow>
          (let w1 = setInnerHTML container cropsLoadingHtml w in
           case cropsUrl (browser e) w1 of
             None \<Rightarrow> (Threw, w1)
           | Some url \<Rightarrow>
               (let w2 = fetch url w1 in
                case network e url of
                  FetchRejected \<Rightarrow> (Threw, w2)
                | JsonRejected \<Rightarrow> (Threw, w2)
                | JsonBody data \<Rightarrow>
                    (case cropsHtml (browser e) data of
                       None \<Rightarrow> (Threw, w2)
                     | Some html \<Rightarrow> (Returned, setInnerHTML container html w2)))))"

definition loadCropRecommendations :: "'n env \<Rightarrow> 'n world \<Rightarrow> completion \<times> 'n world" where
  "loadCropRecommendations e w =
     (case loadCropRecommendations_try e w of
        (Returned, w') \<Rightarrow> (Returned, w')
      | (Threw, w') \<Rightarrow>
          (case cropsContainer (document w') of
             None \<Rightarrow> (Returned, w')
           | Some container \<Rightarrow> (Returned, setInnerHTML container cropsErrorHtml w')))"

section \<open>Service navigation\<close>

text \<open>
  \<open>loadServiceData\<close> is a \<open>switch\<close> on the service name. A handler is an \<open>async\<close>
  function: the call gives a promise, which \<open>loadServiceData\<close> drops, so only the
  handler's effect on the page state is left.
\<close>

definition loadServiceData :: "'n env \<Rightarrow> jsstring \<Rightarrow> 'n world \<Rightarrow> 'n world" where
  "loadServiceData e serviceName w =
     (if serviceName = asc ''government-schemes'' then snd (loadGovernmentSchemes e w)
      else if serviceName = asc ''crop-recommendations'' then snd (loadCropRecommendations e w)
      else if serviceName = asc ''weather'' then snd (loadWeatherData e w)
      else if serviceName = asc ''market-prices'' then snd (loadMarketPrices e w)
      else if serviceName = asc ''pest-control'' then w
      else if serviceName = asc ''ai-assistant'' then w
      else w)"






section \<open>Vocabulary of the claims\<close>

text \<open>The events a call added to the trace.\<close>

definition newEvents :: "'n world \<Rightarrow> 'n world \<Rightarrow> event list" where
  "newEvents w w' = drop (length (trace w)) (trace w')"

text \<open>
  \<open>shownAtFetch c shown es\<close>: for every request in \<open>es\<close>, the markup element \<open>c\<close> holds at
  the moment of the request, \<open>shown\<close> being its markup before \<open>es\<close>.
\<close>

fun shownAtFetch :: "nat \<Rightarrow> jsstring \<Rightarrow> event list \<Rightarrow> jsstring list" where
  "shownAtFetch c shown [] = []"
| "shownAtFetch c shown (SetInnerHTML i html # es) =
     shownAtFetch c (if i = c then html else shown) es"
| "shownAtFetch c shown (Fetch url # es) = shown # shownAtFetch c shown es"

text \<open>
  The numbers of a host agree with the natural numbers on \<open>k > 0\<close>: what
  \<open>xs.length > 0\<close> needs to mean that the array \<open>xs\<close> is not empty.
\<close>

definition countsLengths :: "'n host \<Rightarrow> bool" where
  "countsLengths h \<longleftrightarrow> (\<forall>k. numberGt h (numberOfNat h k) (numberOfNat h 0) = (0 < k))"

section \<open>One handler for the four services\<close>

text \<open>
  The four handlers differ in the ids under which they look for their container, the
  loading placeholder, the address of the request, which is built from the location
  variables of the page, the markup computed from the body, and the error message.
  \<open>runService\<close> is the handler they have in common, with these as parameters.
\<close>

record 'n service =
  containerIds :: "jsstring list"
  loadingHtml :: jsstring
  requestUrl :: "'n host \<Rightarrow> 'n world \<Rightarrow> jsstring option"
  renderHtml :: "'n host \<Rightarrow> 'n \<Rightarrow> 'n jsval \<Rightarrow> jsstring option"
  errorHtml :: jsstring

fun firstElementById :: "element list \<Rightarrow> jsstring list \<Rightarrow> nat option" where
  "firstElementById d [] = None"
| "firstElementById d (i # ids) =
     (case getElementById d i of Some c \<Rightarrow> Some c | None \<Rightarrow> firstElementById d ids)"

definition runService_try :: "'n service \<Rightarrow> 'n env \<Rightarrow> 'n world \<Rightarrow> completion \<times> 'n world" where
  "runService_try s e w =
     (case firstElementById (document w) (containerIds s) of
        None \<Rightarrow> (Returned, w)
      | Some container \<Rightarrow>
          (let w1 = setInnerHTML container (loadingHtml s) w in
           case requestUrl s (browser e) w1 of
             None \<Rightarrow> (Threw, w1)
           | Some url \<Rightarrow>
               (let w2 = fetch url w1 in
                case network e url of
                  FetchRejected \<Rightarrow> (Threw, w2)
                | JsonRejected \<Rightarrow> (Threw, w2)
                | JsonBody data \<Rightarrow>
                    (case renderHtml s (browser e) (clock e) data of
                       None \<Rightarrow> (Threw, w2)
                     | Some html \<Rightarrow> (Returned, setInnerHTML container html w2)))))"

definition runService :: "'n service \<Rightarrow> 'n env \<Rightarrow> 'n world \<Rightarrow> completion \<times> 'n world" where
  "runService s e w =
     (case runService_try s e w of
        (Returned, w') \<Rightarrow> (Returned, w')
      | (Threw, w') \<Rightarrow>
          (case firstElementById (document w') (containerIds s) of
             None \<Rightarrow> (Returned, w')
           | Some container \<Rightarrow> (Returned, setInnerHTML container (errorHtml s) w')))"

text \<open>
  The markup the common handler leaves in the container once the request is answered.
\<close>

definition shownAfter :: "'n service \<Rightarrow> 'n env \<Rightarrow> jsstring \<Rightarrow> jsstring" where
  "shownAfter s e url =
     (case network e url of
        JsonBody data \<Rightarrow>
          (case renderHtml s (browser e) (clock e) data of
             Some html \<Rightarrow> html
           | None \<Rightarrow> errorHtml s)
      | _ \<Rightarrow> errorHtml s)"

definition marketService :: "'n service" where
  "marketService =
     \<lparr>containerIds = [asc ''pricesData''], loadingHtml = marketLoadingHtml,
      requestUrl = marketPricesUrl, renderHtml = marketPricesHtml,
      errorHtml = marketErrorHtml\<rparr>"

definition weatherService :: "'n service" where
  "weatherService =
     \<lparr>containerIds = [asc ''weatherData''], loadingHtml = weatherLoadingHtml,
      requestUrl = weatherUrl, renderHtml = (\<lambda>h now. weatherHtml h),
      errorHtml = weatherErrorHtml\<rparr>"

definition schemesService :: "'n service" where
  "schemesService =
     \<lparr>containerIds = [asc ''schemesData''], loadingHtml = schemesLoadingHtml,
      requestUrl = schemesUrl, renderHtml = (\<lambda>h now. schemesHtml h),
      errorHtml = schemesErrorHtml\<rparr>"

definition cropsService :: "'n service" where
  "cropsService =
     \<lparr>containerIds = [asc ''cropsData'', asc ''cropRecommendationsData''],
      loadingHtml = cropsLoadingHtml,
      requestUrl = cropsUrl, renderHtml = (\<lambda>h now. cropsHtml h),
      errorHtml = cropsErrorHtml\<rparr>"

text \<open>
  The helper in the words of the specification: one function that fetches JSON, maps
  the shape of the response, renders the data to markup and falls back to a localized
  error string, with four parameters per service: the endpoint URL, the mapper of the
  response shape, the render function and the id of the target container. The loading
  placeholder and the error string are not among the four; they are arguments here so
  that nothing is assumed about them, and the mapper and the render function may fail,
  which shows the error string.
\<close>

definition specHelper ::
  "jsstring \<Rightarrow> jsstring \<Rightarrow> jsstring \<Rightarrow> ('n jsval \<Rightarrow> 'a option) \<Rightarrow> ('a \<Rightarrow> jsstring option) \<Rightarrow>
     jsstring \<Rightarrow> 'n env \<Rightarrow> 'n world \<Rightarrow> completion \<times> 'n world" where
  "specHelper loading err url mapper render containerId e w =
     (case getElementById (document w) containerId of
        None \<Rightarrow> (Returned, w)
      | Some container \<Rightarrow>
          (let w1 = setInnerHTML container loading w;
               w2 = fetch url w1
           in case network e url of
                JsonBody data \<Rightarrow>
                  (case mapper data \<bind> render of
                     Some html \<Rightarrow> (Returned, setInnerHTML container html w2)
                   | None \<Rightarrow> (Returned, setInnerHTML container err w2))
              | _ \<Rightarrow> (Returned, setInnerHTML container err w2)))"

section \<open>A browser and a page for worked examples\<close>

text \<open>
  \<open>demoHost\<close> is a browser cut down to whole numbers: a number is an integer or NaN
  (\<open>None\<close>), \<open>toString\<close> and \<open>toLocaleString\<close> write it in decimal digits, the numeric
  strings are the unsigned decimal ones, no string is a date, a date is shown as its
  time value in milliseconds, and the members of \<open>Object.prototype\<close> are functions with
  native code. It is used at concrete inputs only.
\<close>

fun digitsOf :: "nat \<Rightarrow> jsstring" where
  "digitsOf n =
     (if n < 10 then [of_nat (48 + n)]
      else digitsOf (n div 10) @ [of_nat (48 + n mod 10)])"

definition showNumber :: "int option \<Rightarrow> jsstring" where
  "showNumber x =
     (case x of
        None \<Rightarrow> asc ''NaN''
      | Some i \<Rightarrow> (if i < 0 then asc ''-'' @ digitsOf (nat (- i)) else digitsOf (nat i)))"

fun digitsValue :: "jsstring \<Rightarrow> nat \<Rightarrow> nat option" where
  "digitsValue [] acc = Some acc"
| "digitsValue (c # cs) acc =
     (if 48 \<le> unat c \<and> unat c \<le> 57 then digitsValue cs (10 * acc + (unat c - 48))
      else None)"

definition objectPrototypeNames :: "jsstring list" where
  "objectPrototypeNames =
     [asc ''constructor'', asc ''__defineGetter__'', asc ''__defineSetter__'',
      asc ''hasOwnProperty'', asc ''__lookupGetter__'', asc ''__lookupSetter__'',
      asc ''isPrototypeOf'', asc ''propertyIsEnumerable'', asc ''toString'',
      asc ''valueOf'', asc ''toLocaleString'']"

definition demoHost :: "int option host" where
  "demoHost =
     \<lparr>numberToString = showNumber,
      numberToLocale = showNumber,
      stringToNumber = (\<lambda>s. map_option int (digitsValue s 0)),
      numberOfNat = (\<lambda>k. Some (int k)),
      numberNaN = None,
      numberTruthy = (\<lambda>x. x \<noteq> None \<and> x \<noteq> Some 0),
      numberGt = (\<lambda>x y. case x of None \<Rightarrow> False
                         | Some a \<Rightarrow> (case y of None \<Rightarrow> False | Some b \<Rightarrow> b < a)),
      numberGe = (\<lambda>x y. case x of None \<Rightarrow> False
                         | Some a \<Rightarrow> (case y of None \<Rightarrow> False | Some b \<Rightarrow> b \<le> a)),
      listSeparator = asc '','',
      dateParse = (\<lambda>s. None),
      dateToLocale = showNumber,
      inheritedText =
        (\<lambda>name. if name = asc ''__proto__'' then Some (asc ''[object Object]'')
                else if name \<in> set objectPrototypeNames
                then Some (asc ''function '' @ name @ asc ''() { [native code] }'')
                else None)\<rparr>"

definition demoEnv :: "int option response \<Rightarrow> int option \<Rightarrow> int option env" where
  "demoEnv answer now = \<lparr>browser = demoHost, network = (\<lambda>url. answer), clock = now\<rparr>"

definition demoElement :: "string \<Rightarrow> string list \<Rightarrow> element" where
  "demoElement i cs = \<lparr>elementId = asc i, classList = map asc cs, innerHTML = asc ''old''\<rparr>"

definition demoPage :: "int option world" where
  "demoPage =
     \<lparr>document =
        [demoElement ''market-prices-content'' [''content-section'', ''active''],
         demoElement ''pricesData'' [],
         demoElement ''weather-content'' [''content-section''],
         demoElement ''weatherData'' [],
         demoElement ''government-schemes-content'' [''content-section''],
         demoElement ''schemesData'' [],
         demoElement ''crop-recommendations-content'' [''content-section''],
         demoElement ''cropsData'' []],
      trace = [],
      currentLocation = JStr (asc ''Delhi''),
      currentLatitude = JNum (Some 28),
      currentLongitude = JNum (Some 77)\<rparr>"

text \<open>The same page after the location was changed.\<close>

definition punePage :: "int option world" where
  "punePage = demoPage\<lparr>currentLocation := JStr (asc ''Pune'')\<rparr>"

definition emptyPage :: "int option world" where
  "emptyPage =
     \<lparr>document = [demoElement ''header'' [''navbar'']],
      trace = [],
      currentLocation = JStr (asc ''Delhi''),
      currentLatitude = JNum (Some 28),
      currentLongitude = JNum (Some 77)\<rparr>"

definition demoCrop :: "int option jsval" where
  "demoCrop =
     JObj [(asc ''crop_name'', JStr (asc ''Wheat'')),
           (asc ''current_price'', JNum (Some 2400)),
           (asc ''msp'', JNum (Some 2275)),
           (asc ''profit'', JNum (Some 125))]"

text \<open>A body with one crop and no timestamp.\<close>

definition demoMarketBody :: "int option jsval" where
  "demoMarketBody =
     JObj [(asc ''location'', JStr (asc ''Delhi'')), (asc ''crops'', JArr [demoCrop])]"

text \<open>The same body with a timestamp.\<close>

definition demoStampedBody :: "int option jsval" where
  "demoStampedBody =
     JObj [(asc ''location'', JStr (asc ''Delhi'')), (asc ''crops'', JArr [demoCrop]),
           (asc ''timestamp'', JNum (Some 1700000000000))]"

text \<open>A body whose \<open>crops\<close> is the empty list while \<open>market_prices.top_crops\<close> has a crop.\<close>

definition demoFallbackBody :: "int option jsval" where
  "demoFallbackBody =
     JObj [(asc ''location'', JStr (asc ''Delhi'')),
           (asc ''crops'', JArr []),
           (asc ''market_prices'', JObj [(asc ''top_crops'', JArr [demoCrop])])]"

section \<open>The elements markup builds\<close>




definition isActiveSection :: "jsstring list \<Rightarrow> bool" where
  "isActiveSection classes \<longleftrightarrow>
     asc ''content-section'' \<in> set classes \<and> asc ''active'' \<in> set classes"

text \<open>
  For worked examples, a reader of start tags after the tag states of the HTML
  tokenizer: a start tag is \<open><\<close> and a letter, its name, and attributes with a value in
  double quotes, in single quotes, bare or absent, up to \<open>>\<close>; attribute names are
  compared in lower case and the first \<open>class\<close> attribute counts; the class list is its
  value split at white space. It is meant for markup without comments, character
  references, and \<open>script\<close>, \<open>style\<close>, \<open>textarea\<close>, \<open>title\<close> or \<open>template\<close> elements, which is
  the markup of the templates of the services.
\<close>

definition isAsciiLetter :: "code_unit \<Rightarrow> bool" where
  "isAsciiLetter c \<longleftrightarrow> (0x41 \<le> c \<and> c \<le> 0x5A) \<or> (0x61 \<le> c \<and> c \<le> 0x7A)"

definition isMarkupSpace :: "code_unit \<Rightarrow> bool" where
  "isMarkupSpace c \<longleftrightarrow> c = 0x09 \<or> c = 0x0A \<or> c = 0x0C \<or> c = 0x0D \<or> c = 0x20"

definition lowerAscii :: "code_unit \<Rightarrow> code_unit" where
  "lowerAscii c = (if 0x41 \<le> c \<and> c \<le> 0x5A then c + 0x20 else c)"

fun classTokens :: "jsstring \<Rightarrow> jsstring \<Rightarrow> jsstring list" where
  "classTokens [] token = (if token = [] then [] else [token])"
| "classTokens (c # cs) token =
     (if isMarkupSpace c
      then (if token = [] then classTokens cs [] else token # classTokens cs [])
      else classTokens cs (token @ [c]))"

datatype tag_state =
    InText
  | AfterLt
  | InTagName
  | BeforeAttr
  | InAttrName jsstring
  | AfterAttrName jsstring
  | BeforeValue jsstring
  | InQuotedValue code_unit jsstring jsstring
  | InBareValue jsstring jsstring

definition noteAttr :: "jsstring option \<Rightarrow> jsstring \<Rightarrow> jsstring \<Rightarrow> jsstring option" where
  "noteAttr cls name v = (if cls = None \<and> name = asc ''class'' then Some v else cls)"

definition tagClasses :: "jsstring option \<Rightarrow> jsstring list" where
  "tagClasses cls = remdups (classTokens (case cls of None \<Rightarrow> [] | Some v \<Rightarrow> v) [])"

text \<open>
  The reader is a state machine: \<open>tagStep\<close> reads one code unit in a state made of the
  tag state, the value of the \<open>class\<close> attribute of the tag being read, if it had one so
  far, and the class lists of the start tags read, which a \<open>>\<close> that ends a start tag
  extends.
\<close>

fun tagStep ::
  "code_unit \<Rightarrow> tag_state \<times> jsstring option \<times> jsstring list list \<Rightarrow>
     tag_state \<times> jsstring option \<times> jsstring list list" where
  "tagStep c (InText, cls, built) =
     (if c = 0x3C then (AfterLt, None, built) else (InText, None, built))"
| "tagStep c (AfterLt, cls, built) =
     (if isAsciiLetter c then (InTagName, None, built)
      else if c = 0x3C then (AfterLt, None, built)
      else (InText, None, built))"
| "tagStep c (InTagName, cls, built) =
     (if c = 0x3E then (InText, None, built @ [tagClasses cls])
      else if isMarkupSpace c \<or> c = 0x2F then (BeforeAttr, cls, built)
      else (InTagName, cls, built))"
| "tagStep c (BeforeAttr, cls, built) =
     (if c = 0x3E then (InText, None, built @ [tagClasses cls])
      else if isMarkupSpace c \<or> c = 0x2F then (BeforeAttr, cls, built)
      else (InAttrName [lowerAscii c], cls, built))"
| "tagStep c (InAttrName name, cls, built) =
     (if c = 0x3E then (InText, None, built @ [tagClasses (noteAttr cls name [])])
      else if c = 0x3D then (BeforeValue name, cls, built)
      else if isMarkupSpace c then (AfterAttrName name, cls, built)
      else if c = 0x2F then (BeforeAttr, noteAttr cls name [], built)
      else (InAttrName (name @ [lowerAscii c]), cls, built))"
| "tagStep c (AfterAttrName name, cls, built) =
     (if c = 0x3E then (InText, None, built @ [tagClasses (noteAttr cls name [])])
      else if c = 0x3D then (BeforeValue name, cls, built)
      else if isMarkupSpace c then (AfterAttrName name, cls, built)
      else if c = 0x2F then (BeforeAttr, noteAttr cls name [], built)
      else (InAttrName [lowerAscii c], noteAttr cls name [], built))"
| "tagStep c (BeforeValue name, cls, built) =
     (if c = 0x3E then (InText, None, built @ [tagClasses (noteAttr cls name [])])
      else if isMarkupSpace c then (BeforeValue name, cls, built)
      else if c = 0x22 \<or> c = 0x27 then (InQuotedValue c name [], cls, built)
      else (InBareValue name [c], cls, built))"
| "tagStep c (InQuotedValue q name v, cls, built) =
     (if c = q then (BeforeAttr, noteAttr cls name v, built)
      else (InQuotedValue q name (v @ [c]), cls, built))"
| "tagStep c (InBareValue name v, cls, built) =
     (if c = 0x3E then (InText, None, built @ [tagClasses (noteAttr cls name v)])
      else if isMarkupSpace c then (BeforeAttr, noteAttr cls name v, built)
      else (InBareValue name (v @ [c]), cls, built))"

fun scanFrom ::
  "tag_state \<times> jsstring option \<times> jsstring list list \<Rightarrow> jsstring \<Rightarrow>
     tag_state \<times> jsstring option \<times> jsstring list list" where
  "scanFrom s [] = s"
| "scanFrom s (c # cs) = scanFrom (tagStep c s) cs"

definition scanClasses :: "jsstring \<Rightarrow> jsstring list list" where
  "scanClasses markup = snd (snd (scanFrom (InText, None, []) markup))"



section \<open>Properties of the patching scripts\<close>

lemma occurs_at_Nil: "occurs_at pat [] j \<longleftrightarrow> j = 0 \<and> pat = []"
  by (auto simp: occurs_at_def)

lemma occurs_at_0: "occurs_at pat s 0 \<longleftrightarrow> prefix pat s"
  by (simp add: occurs_at_def)

lemma occurs_at_Suc: "occurs_at pat (c # cs) (Suc j) \<longleftrightarrow> occurs_at pat cs j"
  by (simp add: occurs_at_def)

lemma indexOfFrom_absent:
  "\<not> occurs pat s \<Longrightarrow> indexOfFrom pat s k = - 1"
proof (induction s arbitrary: k)
  case Nil
  then show ?case by (auto simp: occurs_def occurs_at_Nil)
next
  case (Cons c cs)
  from Cons.prems have no0: "\<not> prefix pat (c # cs)"
    unfolding occurs_def using occurs_at_0 by blast
  from Cons.prems have "\<not> occurs pat cs"
    unfolding occurs_def using occurs_at_Suc by blast
  with Cons.IH no0 show ?case by simp
qed

lemma indexOfFrom_first:
  "first_occurrence pat s j \<Longrightarrow> indexOfFrom pat s k = int (k + j)"
proof (induction s arbitrary: k j)
  case Nil
  then show ?case by (auto simp: first_occurrence_def occurs_at_Nil)
next
  case (Cons c cs)
  show ?case
  proof (cases "prefix pat (c # cs)")
    case True
    then have "occurs_at pat (c # cs) 0" by (simp add: occurs_at_0)
    with Cons.prems have "j = 0"
      unfolding first_occurrence_def by (cases j) auto
    with True show ?thesis by simp
  next
    case False
    with Cons.prems obtain j' where j: "j = Suc j'"
      unfolding first_occurrence_def by (cases j) (auto simp: occurs_at_0)
    have "first_occurrence pat cs j'"
      unfolding first_occurrence_def
    proof (intro conjI allI impI)
      from Cons.prems j show "occurs_at pat cs j'"
        by (simp add: first_occurrence_def occurs_at_Suc)
    next
      fix i assume "i < j'"
      then have "Suc i < j" using j by simp
      with Cons.prems have "\<not> occurs_at pat (c # cs) (Suc i)"
        unfolding first_occurrence_def by blast
      then show "\<not> occurs_at pat cs i" by (simp add: occurs_at_Suc)
    qed
    from Cons.IH [OF this] False j show ?thesis by simp
  qed
qed

lemma indexOf_absent: "\<not> occurs pat s \<Longrightarrow> indexOf s pat = - 1"
  by (simp add: indexOf_def indexOfFrom_absent)

lemma indexOf_first: "first_occurrence pat s j \<Longrightarrow> indexOf s pat = int j"
  by (simp add: indexOf_def indexOfFrom_first)

lemma first_occurrence_le: "first_occurrence pat s j \<Longrightarrow> j \<le> length s"
  by (simp add: first_occurrence_def occurs_at_def)

lemma occurs_first: "occurs pat s \<Longrightarrow> \<exists>j. first_occurrence pat s j"
proof -
  assume "occurs pat s"
  then obtain k where k: "occurs_at pat s k" unfolding occurs_def by blast
  define m where "m = (LEAST i. occurs_at pat s i)"
  have "occurs_at pat s m" unfolding m_def using k by (rule LeastI)
  moreover have "\<forall>i<m. \<not> occurs_at pat s i"
    unfolding m_def using not_less_Least by blast
  ultimately show ?thesis unfolding first_occurrence_def by blast
qed

lemma substring_prefix: "j \<le> length s \<Longrightarrow> substring s 0 (int j) = take j s"
  by (simp add: substring_def Let_def min_def max_def)

lemma substringFrom_suffix: "j \<le> length s \<Longrightarrow> substringFrom s (int j) = drop j s"
  by (simp add: substringFrom_def substring_def Let_def min_def max_def)

lemma first_occurrence_asc:
  "indexOf s pat = int j \<Longrightarrow> first_occurrence pat s j"
proof -
  assume a: "indexOf s pat = int j"
  have "occurs pat s"
  proof (rule ccontr)
    assume "\<not> occurs pat s"
    then have "indexOf s pat = - 1" by (rule indexOf_absent)
    with a show False by simp
  qed
  then obtain i where i: "first_occurrence pat s i" using occurs_first by blast
  then have "indexOf s pat = int i" by (rule indexOf_first)
  with a have "i = j" by simp
  with i show ?thesis by simp
qed

lemma indexOf_absent_iff: "indexOf s pat = - 1 \<longleftrightarrow> \<not> occurs pat s"
proof
  assume a: "indexOf s pat = - 1"
  show "\<not> occurs pat s"
  proof
    assume "occurs pat s"
    then obtain j where "first_occurrence pat s j" using occurs_first by blast
    then have "indexOf s pat = int j" by (rule indexOf_first)
    with a show False by simp
  qed
next
  assume "\<not> occurs pat s"
  then show "indexOf s pat = - 1" by (rule indexOf_absent)
qed

text \<open>
  C2. When both markers occur in the template text, each script writes exactly the text
  before the first occurrence of its start marker, then its replacement text, then the
  text from the first occurrence of the end marker on. The part of the written text
  before the replacement is the old text before the start marker, the part after the
  replacement is the old text from the end marker on, and that text is what the file
  holds afterwards.
\<close>

theorem patch_replaces_span:
  "(first_occurrence loadMarketPricesMarker content s1 \<and>
    first_occurrence searchMandiMarker content e \<longrightarrow>
      (let out = take s1 content @ newFunction_loadMarketPrices @ drop e content in
         fix_market_prices content =
           [WriteFileSync templatePath out,
            ConsoleLog (asc ''Fixed market prices functionality'')] \<and>
         take s1 out = take s1 content \<and>
         drop (s1 + length newFunction_loadMarketPrices) out = drop e content \<and>
         run_script fix_market_prices (fs(templatePath \<mapsto> content)) =
           fs(templatePath \<mapsto> out))) \<and>
   (first_occurrence fetchMarketPricesMarker content s2 \<and>
    first_occurrence searchMandiMarker content e \<longrightarrow>
      (let out = take s2 content @ newFunction_fetchMarketPrices @ drop e content in
         fix_fetch_market_prices content =
           [WriteFileSync templatePath out,
            ConsoleLog (asc ''Fixed fetchMarketPrices function'')] \<and>
         take s2 out = take s2 content \<and>
         drop (s2 + length newFunction_fetchMarketPrices) out = drop e content \<and>
         run_script fix_fetch_market_prices (fs(templatePath \<mapsto> content)) =
           fs(templatePath \<mapsto> out)))"
proof (intro conjI impI)
  assume a: "first_occurrence loadMarketPricesMarker content s1 \<and>
             first_occurrence searchMandiMarker content e"
  then have i1: "indexOf content loadMarketPricesMarker = int s1"
    and i2: "indexOf content searchMandiMarker = int e"
    by (simp_all add: indexOf_first)
  from a have l1: "s1 \<le> length content" and l2: "e \<le> length content"
    by (auto dest: first_occurrence_le)
  have run: "fix_market_prices content =
      [WriteFileSync templatePath
         (take s1 content @ newFunction_loadMarketPrices @ drop e content),
       ConsoleLog (asc ''Fixed market prices functionality'')]"
    using i1 i2 l1 l2
    by (simp add: fix_market_prices_def Let_def substring_prefix substringFrom_suffix)
  show "let out = take s1 content @ newFunction_loadMarketPrices @ drop e content in
         fix_market_prices content =
           [WriteFileSync templatePath out,
            ConsoleLog (asc ''Fixed market prices functionality'')] \<and>
         take s1 out = take s1 content \<and>
         drop (s1 + length newFunction_loadMarketPrices) out = drop e content \<and>
         run_script fix_market_prices (fs(templatePath \<mapsto> content)) =
           fs(templatePath \<mapsto> out)"
    using run l1 by (simp add: Let_def run_script_def min_absorb2)
next
  assume a: "first_occurrence fetchMarketPricesMarker content s2 \<and>
             first_occurrence searchMandiMarker content e"
  then have i1: "indexOf content fetchMarketPricesMarker = int s2"
    and i2: "indexOf content searchMandiMarker = int e"
    by (simp_all add: indexOf_first)
  from a have l1: "s2 \<le> length content" and l2: "e \<le> length content"
    by (auto dest: first_occurrence_le)
  have run: "fix_fetch_market_prices content =
      [WriteFileSync templatePath
         (take s2 content @ newFunction_fetchMarketPrices @ drop e content),
       ConsoleLog (asc ''Fixed fetchMarketPrices function'')]"
    using i1 i2 l1 l2
    by (simp add: fix_fetch_market_prices_def Let_def substring_prefix substringFrom_suffix)
  show "let out = take s2 content @ newFunction_fetchMarketPrices @ drop e content in
         fix_fetch_market_prices content =
           [WriteFileSync templatePath out,
            ConsoleLog (asc ''Fixed fetchMarketPrices function'')] \<and>
         take s2 out = take s2 content \<and>
         drop (s2 + length newFunction_fetchMarketPrices) out = drop e content \<and>
         run_script fix_fetch_market_prices (fs(templatePath \<mapsto> content)) =
           fs(templatePath \<mapsto> out)"
    using run l1 by (simp add: Let_def run_script_def min_absorb2)
qed

lemma demo_template_indices:
  "indexOf demo_template loadMarketPricesMarker = 9"
  "indexOf demo_template fetchMarketPricesMarker = 55"
  "indexOf demo_template searchMandiMarker = 102"
  by (simp_all add: indexOf_def demo_template_def loadMarketPricesMarker_def
      fetchMarketPricesMarker_def searchMandiMarker_def asc_def)

theorem patch_replaces_span_witness:
  "first_occurrence loadMarketPricesMarker demo_template 9 \<and>
   first_occurrence fetchMarketPricesMarker demo_template 55 \<and>
   first_occurrence searchMandiMarker demo_template 102 \<and>
   fix_market_prices demo_template =
     [WriteFileSync templatePath
        (take 9 demo_template @ newFunction_loadMarketPrices @ drop 102 demo_template),
      ConsoleLog (asc ''Fixed market prices functionality'')] \<and>
   fix_fetch_market_prices demo_template =
     [WriteFileSync templatePath
        (take 55 demo_template @ newFunction_fetchMarketPrices @ drop 102 demo_template),
      ConsoleLog (asc ''Fixed fetchMarketPrices function'')]"
proof -
  have f1: "first_occurrence loadMarketPricesMarker demo_template 9"
    using first_occurrence_asc [of demo_template loadMarketPricesMarker 9]
    by (simp add: demo_template_indices)
  have f2: "first_occurrence fetchMarketPricesMarker demo_template 55"
    using first_occurrence_asc [of demo_template fetchMarketPricesMarker 55]
    by (simp add: demo_template_indices)
  have f3: "first_occurrence searchMandiMarker demo_template 102"
    using first_occurrence_asc [of demo_template searchMandiMarker 102]
    by (simp add: demo_template_indices)
  show ?thesis
    using f1 f2 f3
      patch_replaces_span [of demo_template 9 102 Map.empty 55]
    by (simp add: Let_def)
qed

text \<open>
  C3. When either marker is absent from the template text, neither script writes
  anything: its only effect is the console message, and the file system after the run
  is the file system before it.
\<close>

theorem patch_needs_both_markers:
  "(\<not> occurs loadMarketPricesMarker content \<or> \<not> occurs searchMandiMarker content \<longrightarrow>
      fix_market_prices content = [ConsoleLog (asc ''Could not find function boundaries'')] \<and>
      writes (fix_market_prices content) = [] \<and>
      (fs templatePath = Some content \<longrightarrow> run_script fix_market_prices fs = fs)) \<and>
   (\<not> occurs fetchMarketPricesMarker content \<or> \<not> occurs searchMandiMarker content \<longrightarrow>
      fix_fetch_market_prices content =
        [ConsoleLog (asc ''Could not find function boundaries'')] \<and>
      writes (fix_fetch_market_prices content) = [] \<and>
      (fs templatePath = Some content \<longrightarrow> run_script fix_fetch_market_prices fs = fs))"
proof (intro conjI impI)
  assume "\<not> occurs loadMarketPricesMarker content \<or> \<not> occurs searchMandiMarker content"
  then have "indexOf content loadMarketPricesMarker = - 1 \<or>
             indexOf content searchMandiMarker = - 1"
    using indexOf_absent by blast
  then show r: "fix_market_prices content =
      [ConsoleLog (asc ''Could not find function boundaries'')]"
    by (auto simp: fix_market_prices_def Let_def)
  then show "writes (fix_market_prices content) = []" by simp
  assume "fs templatePath = Some content"
  with r show "run_script fix_market_prices fs = fs" by (simp add: run_script_def)
next
  assume "\<not> occurs fetchMarketPricesMarker content \<or> \<not> occurs searchMandiMarker content"
  then have "indexOf content fetchMarketPricesMarker = - 1 \<or>
             indexOf content searchMandiMarker = - 1"
    using indexOf_absent by blast
  then show r: "fix_fetch_market_prices content =
      [ConsoleLog (asc ''Could not find function boundaries'')]"
    by (auto simp: fix_fetch_market_prices_def Let_def)
  then show "writes (fix_fetch_market_prices content) = []" by simp
  assume "fs templatePath = Some content"
  with r show "run_script fix_fetch_market_prices fs = fs" by (simp add: run_script_def)
qed

lemma demo_without_end_index: "indexOf demo_without_end searchMandiMarker = - 1"
  by (simp add: indexOf_def demo_without_end_def loadMarketPricesMarker_def
      fetchMarketPricesMarker_def searchMandiMarker_def asc_def)

theorem patch_needs_both_markers_witness:
  "\<not> occurs searchMandiMarker demo_without_end \<and>
   fix_market_prices demo_without_end =
     [ConsoleLog (asc ''Could not find function boundaries'')] \<and>
   fix_fetch_market_prices demo_without_end =
     [ConsoleLog (asc ''Could not find function boundaries'')] \<and>
   run_script fix_market_prices [templatePath \<mapsto> demo_without_end] =
     [templatePath \<mapsto> demo_without_end] \<and>
   run_script fix_fetch_market_prices [templatePath \<mapsto> demo_without_end] =
     [templatePath \<mapsto> demo_without_end]"
proof -
  have a: "\<not> occurs searchMandiMarker demo_without_end"
    using demo_without_end_index indexOf_absent_iff by blast
  show ?thesis
    using a patch_needs_both_markers
      [of demo_without_end "[templatePath \<mapsto> demo_without_end]"]
    by simp
qed

section \<open>Facts about the document and the common handler\<close>

lemma of_char_bound: "(of_char c :: nat) < 256"
proof -
  have "(of_char c :: nat) mod 256 < 256" by simp
  then show ?thesis by (simp only: of_char_mod_256)
qed

lemma code_unit_of_char_inject:
  "(of_nat (of_char x) :: code_unit) = of_nat (of_char y) \<longleftrightarrow> x = y"
proof
  assume a: "(of_nat (of_char x) :: code_unit) = of_nat (of_char y)"
  have "(of_char x :: nat) < 65536"
    using of_char_bound [of x] by linarith
  then have x: "(of_char x :: nat) mod 65536 = of_char x"
    by (rule mod_less)
  have "(of_char y :: nat) < 65536"
    using of_char_bound [of y] by linarith
  then have y: "(of_char y :: nat) mod 65536 = of_char y"
    by (rule mod_less)
  from a have "unat (of_nat (of_char x) :: code_unit) = unat (of_nat (of_char y) :: code_unit)"
    by simp
  then have "(of_char x :: nat) = of_char y"
    using x y by (simp add: unat_of_nat)
  then show "x = y" by simp
next
  assume "x = y"
  then show "(of_nat (of_char x) :: code_unit) = of_nat (of_char y)" by simp
qed

lemma asc_inject: "asc s = asc t \<longleftrightarrow> s = t"
proof -
  have "inj (\<lambda>c. (of_nat (of_char c) :: code_unit))"
    by (rule injI) (simp only: code_unit_of_char_inject)
  then show ?thesis unfolding asc_def by simp
qed

lemma asc_Nil: "asc s = [] \<longleftrightarrow> s = []"
  by (simp add: asc_def)

lemma findId_bound: "findId i d k = Some c \<Longrightarrow> k \<le> c \<and> c < k + length d"
  by (induction d arbitrary: k) (auto split: if_splits, fastforce+)

lemma findId_ids: "map elementId d = map elementId d' \<Longrightarrow> findId i d k = findId i d' k"
proof (induction d arbitrary: d' k)
  case Nil
  then show ?case by simp
next
  case (Cons a d)
  then obtain b d'' where "d' = b # d''" by (cases d') auto
  with Cons show ?case by auto
qed

lemma getElementById_bound: "getElementById d i = Some c \<Longrightarrow> c < length d"
  using findId_bound [of i d 0 c] by (auto simp: getElementById_def split: if_splits)

lemma getElementById_ids:
  "map elementId d = map elementId d' \<Longrightarrow> getElementById d i = getElementById d' i"
  by (simp add: getElementById_def findId_ids [of d d'])

lemma firstElementById_bound: "firstElementById d ids = Some c \<Longrightarrow> c < length d"
  by (induction ids) (auto split: option.splits dest: getElementById_bound)

lemma firstElementById_ids:
  "map elementId d = map elementId d' \<Longrightarrow> firstElementById d ids = firstElementById d' ids"
  by (induction ids) (auto simp: getElementById_ids [of d d'] split: option.splits)

lemma map_update_same: "f x = f (xs ! c) \<Longrightarrow> map f (xs[c := x]) = map f xs"
proof (cases "c < length xs")
  case True
  assume "f x = f (xs ! c)"
  with True have "(map f xs)[c := f x] = (map f xs)[c := map f xs ! c]" by simp
  then show ?thesis by (simp add: map_update)
next
  case False
  then show ?thesis by (simp add: list_update_beyond)
qed

lemma ids_setInnerHTML:
  "map elementId (document (setInnerHTML c html w)) = map elementId (document w)"
  by (simp add: setInnerHTML_def map_update_same)


lemma shown_setInnerHTML:
  "c < length (document w) \<Longrightarrow> innerHTML (document (setInnerHTML c html w) ! c) = html"
  by (simp add: setInnerHTML_def)

lemma trace_setInnerHTML: "trace (setInnerHTML c html w) = trace w @ [SetInnerHTML c html]"
  by (simp add: setInnerHTML_def)

lemma document_fetch: "document (fetch url w) = document w"
  by (simp add: fetch_def)

lemma trace_fetch: "trace (fetch url w) = trace w @ [Fetch url]"
  by (simp add: fetch_def)

lemma length_setInnerHTML: "length (document (setInnerHTML c html w)) = length (document w)"
  by (simp add: setInnerHTML_def)

lemma runService_absent:
  "firstElementById (document w) (containerIds s) = None \<Longrightarrow> runService s e w = (Returned, w)"
  by (simp add: runService_def runService_try_def)

lemma runService_no_url:
  assumes "firstElementById (document w) (containerIds s) = Some c"
    and "requestUrl s (browser e) (setInnerHTML c (loadingHtml s) w) = None"
  shows "runService_try s e w = (Threw, setInnerHTML c (loadingHtml s) w)"
    and "runService s e w =
      (Returned, setInnerHTML c (errorHtml s) (setInnerHTML c (loadingHtml s) w))"
proof -
  show t: "runService_try s e w = (Threw, setInnerHTML c (loadingHtml s) w)"
    using assms by (simp add: runService_try_def)
  have "firstElementById (document (setInnerHTML c (loadingHtml s) w)) (containerIds s) = Some c"
    using assms(1) firstElementById_ids [OF ids_setInnerHTML] by metis
  with t show "runService s e w =
      (Returned, setInnerHTML c (errorHtml s) (setInnerHTML c (loadingHtml s) w))"
    by (simp add: runService_def)
qed

lemma runService_url:
  assumes "firstElementById (document w) (containerIds s) = Some c"
    and "requestUrl s (browser e) (setInnerHTML c (loadingHtml s) w) = Some url"
  shows "runService s e w =
      (Returned, setInnerHTML c (shownAfter s e url)
                   (fetch url (setInnerHTML c (loadingHtml s) w)))"
    and "fst (runService_try s e w) = Threw \<longleftrightarrow>
           (network e url = FetchRejected \<or> network e url = JsonRejected \<or>
            (\<exists>data. network e url = JsonBody data \<and>
                    renderHtml s (browser e) (clock e) data = None))"
proof -
  let ?w2 = "fetch url (setInnerHTML c (loadingHtml s) w)"
  have c: "firstElementById (document ?w2) (containerIds s) = Some c"
    using assms(1) firstElementById_ids [OF ids_setInnerHTML] by (metis document_fetch)
  show "runService s e w = (Returned, setInnerHTML c (shownAfter s e url) ?w2)"
    using assms c
    by (simp add: runService_def runService_try_def shownAfter_def
        split: response.splits option.splits)
  show "fst (runService_try s e w) = Threw \<longleftrightarrow>
           (network e url = FetchRejected \<or> network e url = JsonRejected \<or>
            (\<exists>data. network e url = JsonBody data \<and>
                    renderHtml s (browser e) (clock e) data = None))"
    using assms
    by (simp add: runService_try_def Let_def split: response.splits option.splits)
qed

lemma runService_returns: "fst (runService s e w) = Returned"
  by (simp add: runService_def split: prod.splits completion.splits option.splits)

lemma runService_try_threw:
  "fst (runService_try s e w) = Threw \<Longrightarrow>
     \<exists>c. firstElementById (document w) (containerIds s) = Some c \<and>
         innerHTML (document (snd (runService s e w)) ! c) = errorHtml s"
proof -
  assume t: "fst (runService_try s e w) = Threw"
  then obtain c where c: "firstElementById (document w) (containerIds s) = Some c"
    by (cases "firstElementById (document w) (containerIds s)")
       (auto simp: runService_try_def)
  then have b: "c < length (document w)" by (rule firstElementById_bound)
  show ?thesis
  proof (cases "requestUrl s (browser e) (setInnerHTML c (loadingHtml s) w)")
    case None
    from runService_no_url(2) [OF c None] b show ?thesis
      using c by (simp add: shown_setInnerHTML length_setInnerHTML)
  next
    case (Some url)
    from runService_url(2) [OF c Some] t
    have "shownAfter s e url = errorHtml s"
      by (auto simp: shownAfter_def)
    with runService_url(1) [OF c Some] b show ?thesis
      using c by (simp add: shown_setInnerHTML length_setInnerHTML document_fetch)
  qed
qed

lemma runService_events:
  assumes "firstElementById (document w) (containerIds s) = Some c"
  shows "newEvents w (snd (runService s e w)) =
           SetInnerHTML c (loadingHtml s) #
             (case requestUrl s (browser e) (setInnerHTML c (loadingHtml s) w) of
                None \<Rightarrow> [SetInnerHTML c (errorHtml s)]
              | Some url \<Rightarrow> [Fetch url, SetInnerHTML c (shownAfter s e url)])"
proof (cases "requestUrl s (browser e) (setInnerHTML c (loadingHtml s) w)")
  case None
  from runService_no_url(2) [OF assms None] show ?thesis
    using None by (simp add: newEvents_def trace_setInnerHTML)
next
  case (Some url)
  from runService_url(1) [OF assms Some] show ?thesis
    using Some by (simp add: newEvents_def trace_setInnerHTML trace_fetch)
qed


text \<open>Each handler is the common handler at its service.\<close>

lemma loadMarketPrices_try_service: "loadMarketPrices_try e w = runService_try marketService e w"
  by (simp add: loadMarketPrices_try_def runService_try_def marketService_def Let_def
      split: option.splits response.splits)

lemma loadMarketPrices_service: "loadMarketPrices e w = runService marketService e w"
  unfolding loadMarketPrices_def runService_def loadMarketPrices_try_service
  by (auto simp: marketService_def split: prod.splits completion.splits option.splits)

lemma loadWeatherData_try_service: "loadWeatherData_try e w = runService_try weatherService e w"
  by (simp add: loadWeatherData_try_def runService_try_def weatherService_def Let_def
      split: option.splits response.splits)

lemma loadWeatherData_service: "loadWeatherData e w = runService weatherService e w"
  unfolding loadWeatherData_def runService_def loadWeatherData_try_service
  by (auto simp: weatherService_def split: prod.splits completion.splits option.splits)

lemma loadGovernmentSchemes_try_service:
  "loadGovernmentSchemes_try e w = runService_try schemesService e w"
  by (simp add: loadGovernmentSchemes_try_def runService_try_def schemesService_def Let_def
      split: option.splits response.splits)

lemma loadGovernmentSchemes_service: "loadGovernmentSchemes e w = runService schemesService e w"
  unfolding loadGovernmentSchemes_def runService_def loadGovernmentSchemes_try_service
  by (auto simp: schemesService_def split: prod.splits completion.splits option.splits)

lemma loadCropRecommendations_try_service:
  "loadCropRecommendations_try e w = runService_try cropsService e w"
  by (simp add: loadCropRecommendations_try_def runService_try_def cropsService_def
      cropsContainer_def Let_def split: option.splits response.splits)

lemma loadCropRecommendations_service:
  "loadCropRecommendations e w = runService cropsService e w"
  unfolding loadCropRecommendations_def runService_def loadCropRecommendations_try_service
  by (auto simp: cropsService_def cropsContainer_def
      split: prod.splits completion.splits option.splits)

lemma market_fields:
  "firstElementById d (containerIds marketService) = getElementById d (asc ''pricesData'')"
  "loadingHtml marketService = marketLoadingHtml"
  "errorHtml marketService = marketErrorHtml"
  "requestUrl marketService = marketPricesUrl"
  "renderHtml marketService = marketPricesHtml"
  by (simp_all add: marketService_def split: option.splits)

lemma weather_fields:
  "firstElementById d (containerIds weatherService) = getElementById d (asc ''weatherData'')"
  "loadingHtml weatherService = weatherLoadingHtml"
  "errorHtml weatherService = weatherErrorHtml"
  "requestUrl weatherService = weatherUrl"
  "renderHtml weatherService h now = weatherHtml h"
  by (simp_all add: weatherService_def split: option.splits)

lemma schemes_fields:
  "firstElementById d (containerIds schemesService) = getElementById d (asc ''schemesData'')"
  "loadingHtml schemesService = schemesLoadingHtml"
  "errorHtml schemesService = schemesErrorHtml"
  "requestUrl schemesService = schemesUrl"
  "renderHtml schemesService h now = schemesHtml h"
  by (simp_all add: schemesService_def split: option.splits)

lemma crops_fields:
  "firstElementById d (containerIds cropsService) = cropsContainer d"
  "loadingHtml cropsService = cropsLoadingHtml"
  "errorHtml cropsService = cropsErrorHtml"
  "requestUrl cropsService = cropsUrl"
  "renderHtml cropsService h now = cropsHtml h"
  by (simp_all add: cropsService_def cropsContainer_def split: option.splits)

lemma runService_failures:
  "fst (runService s e w) = Returned \<and>
   (fst (runService_try s e w) = Threw \<longrightarrow>
      (\<exists>c. firstElementById (document w) (containerIds s) = Some c \<and>
           innerHTML (document (snd (runService s e w)) ! c) = errorHtml s)) \<and>
   (\<forall>c url. firstElementById (document w) (containerIds s) = Some c \<and>
      requestUrl s (browser e) (setInnerHTML c (loadingHtml s) w) = Some url \<and>
      (network e url = FetchRejected \<or> network e url = JsonRejected \<or>
       (\<exists>data. network e url = JsonBody data \<and>
               renderHtml s (browser e) (clock e) data = None)) \<longrightarrow>
      fst (runService_try s e w) = Threw)"
  using runService_returns [of s e w] runService_try_threw [of s e w]
    runService_url(2) [of w s _ e]
  by blast

lemma runService_placeholder:
  "\<forall>c. firstElementById (document w) (containerIds s) = Some c \<longrightarrow>
     (\<exists>rest. newEvents w (snd (runService s e w)) = SetInnerHTML c (loadingHtml s) # rest) \<and>
     set (shownAtFetch c (innerHTML (document w ! c)) (newEvents w (snd (runService s e w))))
       \<subseteq> {loadingHtml s}"
proof (intro allI impI)
  fix c
  assume c: "firstElementById (document w) (containerIds s) = Some c"
  show "(\<exists>rest. newEvents w (snd (runService s e w)) = SetInnerHTML c (loadingHtml s) # rest) \<and>
     set (shownAtFetch c (innerHTML (document w ! c)) (newEvents w (snd (runService s e w))))
       \<subseteq> {loadingHtml s}"
    unfolding runService_events [OF c]
    by (simp split: option.splits)
qed

lemma runService_untouched:
  "firstElementById (document w) (containerIds s) = None \<longrightarrow> runService s e w = (Returned, w)"
  by (simp add: runService_absent)

lemma market_failures:
  "(fst (loadMarketPrices e w) = Returned \<and>
    (fst (loadMarketPrices_try e w) = Threw \<longrightarrow>
       (\<exists>c. getElementById (document w) (asc ''pricesData'') = Some c \<and>
            innerHTML (document (snd (loadMarketPrices e w)) ! c) = marketErrorHtml)) \<and>
    (\<forall>c url. getElementById (document w) (asc ''pricesData'') = Some c \<and>
       marketPricesUrl (browser e) (setInnerHTML c marketLoadingHtml w) = Some url \<and>
       (network e url = FetchRejected \<or> network e url = JsonRejected \<or>
        (\<exists>data. network e url = JsonBody data \<and> marketPricesHtml (browser e) (clock e) data = None)) \<longrightarrow>
       fst (loadMarketPrices_try e w) = Threw))"
  using runService_failures [where s = marketService and e = e and w = w]
  unfolding loadMarketPrices_service loadMarketPrices_try_service market_fields
  by assumption

lemma weather_failures:
  "(fst (loadWeatherData e w) = Returned \<and>
    (fst (loadWeatherData_try e w) = Threw \<longrightarrow>
       (\<exists>c. getElementById (document w) (asc ''weatherData'') = Some c \<and>
            innerHTML (document (snd (loadWeatherData e w)) ! c) = weatherErrorHtml)) \<and>
    (\<forall>c url. getElementById (document w) (asc ''weatherData'') = Some c \<and>
       weatherUrl (browser e) (setInnerHTML c weatherLoadingHtml w) = Some url \<and>
       (network e url = FetchRejected \<or> network e url = JsonRejected \<or>
        (\<exists>data. network e url = JsonBody data \<and> weatherHtml (browser e) data = None)) \<longrightarrow>
       fst (loadWeatherData_try e w) = Threw))"
  using runService_failures [where s = weatherService and e = e and w = w]
  unfolding loadWeatherData_service loadWeatherData_try_service weather_fields
  by assumption

lemma schemes_failures:
  "(fst (loadGovernmentSchemes e w) = Returned \<and>
    (fst (loadGovernmentSchemes_try e w) = Threw \<longrightarrow>
       (\<exists>c. getElementById (document w) (asc ''schemesData'') = Some c \<and>
            innerHTML (document (snd (loadGovernmentSchemes e w)) ! c) = schemesErrorHtml)) \<and>
    (\<forall>c url. getElementById (document w) (asc ''schemesData'') = Some c \<and>
       schemesUrl (browser e) (setInnerHTML c schemesLoadingHtml w) = Some url \<and>
       (network e url = FetchRejected \<or> network e url = JsonRejected \<or>
        (\<exists>data. network e url = JsonBody data \<and> schemesHtml (browser e) data = None)) \<longrightarrow>
       fst (loadGovernmentSchemes_try e w) = Threw))"
  using runService_failures [where s = schemesService and e = e and w = w]
  unfolding loadGovernmentSchemes_service loadGovernmentSchemes_try_service schemes_fields
  by assumption

lemma crops_failures:
  "(fst (loadCropRecommendations e w) = Returned \<and>
    (fst (loadCropRecommendations_try e w) = Threw \<longrightarrow>
       (\<exists>c. cropsContainer (document w) = Some c \<and>
            innerHTML (document (snd (loadCropRecommendations e w)) ! c) = cropsErrorHtml)) \<and>
    (\<forall>c url. cropsContainer (document w) = Some c \<and>
       cropsUrl (browser e) (setInnerHTML c cropsLoadingHtml w) = Some url \<and>
       (network e url = FetchRejected \<or> network e url = JsonRejected \<or>
        (\<exists>data. network e url = JsonBody data \<and> cropsHtml (browser e) data = None)) \<longrightarrow>
       fst (loadCropRecommendations_try e w) = Threw))"
  using runService_failures [where s = cropsService and e = e and w = w]
  unfolding loadCropRecommendations_service loadCropRecommendations_try_service crops_fields
  by assumption

lemma market_placeholder:
  "(\<forall>c. getElementById (document w) (asc ''pricesData'') = Some c \<longrightarrow>
      (\<exists>rest. newEvents w (snd (loadMarketPrices e w)) = SetInnerHTML c marketLoadingHtml # rest) \<and>
      set (shownAtFetch c (innerHTML (document w ! c)) (newEvents w (snd (loadMarketPrices e w))))
        \<subseteq> {marketLoadingHtml})"
  using runService_placeholder [where s = marketService and e = e and w = w]
  unfolding loadMarketPrices_service loadMarketPrices_try_service market_fields
  by assumption

lemma weather_placeholder:
  "(\<forall>c. getElementById (document w) (asc ''weatherData'') = Some c \<longrightarrow>
      (\<exists>rest. newEvents w (snd (loadWeatherData e w)) = SetInnerHTML c weatherLoadingHtml # rest) \<and>
      set (shownAtFetch c (innerHTML (document w ! c)) (newEvents w (snd (loadWeatherData e w))))
        \<subseteq> {weatherLoadingHtml})"
  using runService_placeholder [where s = weatherService and e = e and w = w]
  unfolding loadWeatherData_service loadWeatherData_try_service weather_fields
  by assumption

lemma schemes_placeholder:
  "(\<forall>c. getElementById (document w) (asc ''schemesData'') = Some c \<longrightarrow>
      (\<exists>rest. newEvents w (snd (loadGovernmentSchemes e w)) = SetInnerHTML c schemesLoadingHtml # rest) \<and>
      set (shownAtFetch c (innerHTML (document w ! c)) (newEvents w (snd (loadGovernmentSchemes e w))))
        \<subseteq> {schemesLoadingHtml})"
  using runService_placeholder [where s = schemesService and e = e and w = w]
  unfolding loadGovernmentSchemes_service loadGovernmentSchemes_try_service schemes_fields
  by assumption

lemma crops_placeholder:
  "(\<forall>c. cropsContainer (document w) = Some c \<longrightarrow>
      (\<exists>rest. newEvents w (snd (loadCropRecommendations e w)) = SetInnerHTML c cropsLoadingHtml # rest) \<and>
      set (shownAtFetch c (innerHTML (document w ! c)) (newEvents w (snd (loadCropRecommendations e w))))
        \<subseteq> {cropsLoadingHtml})"
  using runService_placeholder [where s = cropsService and e = e and w = w]
  unfolding loadCropRecommendations_service loadCropRecommendations_try_service crops_fields
  by assumption

lemma market_untouched:
  "(getElementById (document w) (asc ''pricesData'') = None \<longrightarrow> loadMarketPrices e w = (Returned, w))"
  using runService_untouched [where s = marketService and e = e and w = w]
  unfolding loadMarketPrices_service loadMarketPrices_try_service market_fields
  by assumption

lemma weather_untouched:
  "(getElementById (document w) (asc ''weatherData'') = None \<longrightarrow> loadWeatherData e w = (Returned, w))"
  using runService_untouched [where s = weatherService and e = e and w = w]
  unfolding loadWeatherData_service loadWeatherData_try_service weather_fields
  by assumption

lemma schemes_untouched:
  "(getElementById (document w) (asc ''schemesData'') = None \<longrightarrow> loadGovernmentSchemes e w = (Returned, w))"
  using runService_untouched [where s = schemesService and e = e and w = w]
  unfolding loadGovernmentSchemes_service loadGovernmentSchemes_try_service schemes_fields
  by assumption

lemma crops_untouched:
  "(cropsContainer (document w) = None \<longrightarrow> loadCropRecommendations e w = (Returned, w))"
  using runService_untouched [where s = cropsService and e = e and w = w]
  unfolding loadCropRecommendations_service loadCropRecommendations_try_service crops_fields
  by assumption

lemma demoPage_lookup:
  "getElementById (document demoPage) (asc ''pricesData'') = Some 1"
  "getElementById (document demoPage) (asc ''pricesData'') = Some (Suc 0)"
  "getElementById (document demoPage) (asc ''weatherData'') = Some 3"
  "getElementById (document demoPage) (asc ''schemesData'') = Some 5"
  "cropsContainer (document demoPage) = Some 7"
  "getElementById (document demoPage) (asc ''weather-content'') = Some 2"
  by (simp_all add: getElementById_def cropsContainer_def demoPage_def demoElement_def
      asc_inject asc_Nil)

lemma emptyPage_lookup:
  "getElementById (document emptyPage) (asc ''pricesData'') = None"
  "getElementById (document emptyPage) (asc ''weatherData'') = None"
  "getElementById (document emptyPage) (asc ''schemesData'') = None"
  "cropsContainer (document emptyPage) = None"
  by (simp_all add: getElementById_def cropsContainer_def emptyPage_def demoElement_def
      asc_inject asc_Nil)

lemma demoPage_urls:
  "\<exists>url. marketPricesUrl demoHost (setInnerHTML c html demoPage) = Some url"
  "\<exists>url. weatherUrl demoHost (setInnerHTML c html demoPage) = Some url"
  "\<exists>url. schemesUrl demoHost (setInnerHTML c html demoPage) = Some url"
  "\<exists>url. cropsUrl demoHost (setInnerHTML c html demoPage) = Some url"
  by (simp_all add: marketPricesUrl_def weatherUrl_def schemesUrl_def cropsUrl_def
      setInnerHTML_def demoPage_def)

lemma demoPage_shown:
  "innerHTML (document demoPage ! 1) = asc ''old''"
  "innerHTML (document demoPage ! Suc 0) = asc ''old''"
  "innerHTML (document demoPage ! 3) = asc ''old''"
  "innerHTML (document demoPage ! 5) = asc ''old''"
  "innerHTML (document demoPage ! 7) = asc ''old''"
  by (simp_all add: demoPage_def demoElement_def)

lemma demoEnv_fields:
  "browser (demoEnv answer now) = demoHost"
  "network (demoEnv answer now) url = answer"
  "clock (demoEnv answer now) = now"
  by (simp_all add: demoEnv_def)

text \<open>
  C1. None of the four handlers throws: each returns, whatever the environment does.
  When the body of its \<open>try\<close> throws, the container of the service ends with the fixed
  error markup of the service. The body throws when \<open>fetch\<close> rejects, when
  \<open>response.json()\<close> rejects, and when the markup cannot be computed from the body.
\<close>

theorem handlers_catch_failures:
  "(fst (loadMarketPrices e w) = Returned \<and>
    (fst (loadMarketPrices_try e w) = Threw \<longrightarrow>
       (\<exists>c. getElementById (document w) (asc ''pricesData'') = Some c \<and>
            innerHTML (document (snd (loadMarketPrices e w)) ! c) = marketErrorHtml)) \<and>
    (\<forall>c url. getElementById (document w) (asc ''pricesData'') = Some c \<and>
       marketPricesUrl (browser e) (setInnerHTML c marketLoadingHtml w) = Some url \<and>
       (network e url = FetchRejected \<or> network e url = JsonRejected \<or>
        (\<exists>data. network e url = JsonBody data \<and> marketPricesHtml (browser e) (clock e) data = None)) \<longrightarrow>
       fst (loadMarketPrices_try e w) = Threw)) \<and>
   (fst (loadWeatherData e w) = Returned \<and>
    (fst (loadWeatherData_try e w) = Threw \<longrightarrow>
       (\<exists>c. getElementById (document w) (asc ''weatherData'') = Some c \<and>
            innerHTML (document (snd (loadWeatherData e w)) ! c) = weatherErrorHtml)) \<and>
    (\<forall>c url. getElementById (document w) (asc ''weatherData'') = Some c \<and>
       weatherUrl (browser e) (setInnerHTML c weatherLoadingHtml w) = Some url \<and>
       (network e url = FetchRejected \<or> network e url = JsonRejected \<or>
        (\<exists>data. network e url = JsonBody data \<and> weatherHtml (browser e) data = None)) \<longrightarrow>
       fst (loadWeatherData_try e w) = Threw)) \<and>
   (fst (loadGovernmentSchemes e w) = Returned \<and>
    (fst (loadGovernmentSchemes_try e w) = Threw \<longrightarrow>
       (\<exists>c. getElementById (document w) (asc ''schemesData'') = Some c \<and>
            innerHTML (document (snd (loadGovernmentSchemes e w)) ! c) = schemesErrorHtml)) \<and>
    (\<forall>c url. getElementById (document w) (asc ''schemesData'') = Some c \<and>
       schemesUrl (browser e) (setInnerHTML c schemesLoadingHtml w) = Some url \<and>
       (network e url = FetchRejected \<or> network e url = JsonRejected \<or>
        (\<exists>data. network e url = JsonBody data \<and> schemesHtml (browser e) data = None)) \<longrightarrow>
       fst (loadGovernmentSchemes_try e w) = Threw)) \<and>
   (fst (loadCropRecommendations e w) = Returned \<and>
    (fst (loadCropRecommendations_try e w) = Threw \<longrightarrow>
       (\<exists>c. cropsContainer (document w) = Some c \<and>
            innerHTML (document (snd (loadCropRecommendations e w)) ! c) = cropsErrorHtml)) \<and>
    (\<forall>c url. cropsContainer (document w) = Some c \<and>
       cropsUrl (browser e) (setInnerHTML c cropsLoadingHtml w) = Some url \<and>
       (network e url = FetchRejected \<or> network e url = JsonRejected \<or>
        (\<exists>data. network e url = JsonBody data \<and> cropsHtml (browser e) data = None)) \<longrightarrow>
       fst (loadCropRecommendations_try e w) = Threw))"
  by (rule conjI [OF market_failures conjI [OF weather_failures
        conjI [OF schemes_failures crops_failures]]])

theorem handlers_catch_failures_witness:
  "fst (loadMarketPrices_try (demoEnv FetchRejected None) demoPage) = Threw \<and>
   fst (loadMarketPrices (demoEnv FetchRejected None) demoPage) = Returned \<and>
   innerHTML (document (snd (loadMarketPrices (demoEnv FetchRejected None) demoPage)) ! 1)
     = marketErrorHtml \<and>
   fst (loadWeatherData_try (demoEnv JsonRejected None) demoPage) = Threw \<and>
   fst (loadWeatherData (demoEnv JsonRejected None) demoPage) = Returned \<and>
   innerHTML (document (snd (loadWeatherData (demoEnv JsonRejected None) demoPage)) ! 3)
     = weatherErrorHtml \<and>
   fst (loadGovernmentSchemes_try (demoEnv (JsonBody JNull) None) demoPage) = Threw \<and>
   fst (loadGovernmentSchemes (demoEnv (JsonBody JNull) None) demoPage) = Returned \<and>
   innerHTML (document (snd (loadGovernmentSchemes (demoEnv (JsonBody JNull) None) demoPage)) ! 5)
     = schemesErrorHtml \<and>
   fst (loadCropRecommendations_try (demoEnv FetchRejected None) demoPage) = Threw \<and>
   fst (loadCropRecommendations (demoEnv FetchRejected None) demoPage) = Returned \<and>
   innerHTML (document (snd (loadCropRecommendations (demoEnv FetchRejected None) demoPage)) ! 7)
     = cropsErrorHtml"
proof -
  have null: "schemesHtml demoHost JNull = None"
    by (simp add: schemesHtml_def orElse_def)
  obtain u1 where u1: "marketPricesUrl demoHost (setInnerHTML 1 marketLoadingHtml demoPage) = Some u1"
    using demoPage_urls(1) by blast
  obtain u2 where u2: "weatherUrl demoHost (setInnerHTML 3 weatherLoadingHtml demoPage) = Some u2"
    using demoPage_urls(2) by blast
  obtain u3 where u3: "schemesUrl demoHost (setInnerHTML 5 schemesLoadingHtml demoPage) = Some u3"
    using demoPage_urls(3) by blast
  obtain u4 where u4: "cropsUrl demoHost (setInnerHTML 7 cropsLoadingHtml demoPage) = Some u4"
    using demoPage_urls(4) by blast
  have t1: "fst (loadMarketPrices_try (demoEnv FetchRejected None) demoPage) = Threw"
    using handlers_catch_failures [of "demoEnv FetchRejected None" demoPage] u1
    by (simp add: demoPage_lookup demoEnv_fields)
  have t2: "fst (loadWeatherData_try (demoEnv JsonRejected None) demoPage) = Threw"
    using handlers_catch_failures [of "demoEnv JsonRejected None" demoPage] u2
    by (simp add: demoPage_lookup demoEnv_fields)
  have t3: "fst (loadGovernmentSchemes_try (demoEnv (JsonBody JNull) None) demoPage) = Threw"
    using handlers_catch_failures [of "demoEnv (JsonBody JNull) None" demoPage] u3 null
    by (simp add: demoPage_lookup demoEnv_fields)
  have t4: "fst (loadCropRecommendations_try (demoEnv FetchRejected None) demoPage) = Threw"
    using handlers_catch_failures [of "demoEnv FetchRejected None" demoPage] u4
    by (simp add: demoPage_lookup demoEnv_fields)
  show ?thesis
    using t1 t2 t3 t4
      handlers_catch_failures [of "demoEnv FetchRejected None" demoPage]
      handlers_catch_failures [of "demoEnv JsonRejected None" demoPage]
      handlers_catch_failures [of "demoEnv (JsonBody JNull) None" demoPage]
    by (simp add: demoPage_lookup)
qed

text \<open>
  C4. \<open>loadServiceData\<close> runs the handler of the schemes, of the crop recommendations,
  of the weather and of the market prices under the four service names; under
  \<open>pest-control\<close>, \<open>ai-assistant\<close> and every other name it leaves the page state as it
  was: no request, no change to the document.
\<close>

theorem loadServiceData_dispatch:
  "loadServiceData e (asc ''government-schemes'') w = snd (loadGovernmentSchemes e w) \<and>
   loadServiceData e (asc ''crop-recommendations'') w = snd (loadCropRecommendations e w) \<and>
   loadServiceData e (asc ''weather'') w = snd (loadWeatherData e w) \<and>
   loadServiceData e (asc ''market-prices'') w = snd (loadMarketPrices e w) \<and>
   loadServiceData e (asc ''pest-control'') w = w \<and>
   loadServiceData e (asc ''ai-assistant'') w = w \<and>
   (name \<notin> {asc ''government-schemes'', asc ''crop-recommendations'', asc ''weather'',
             asc ''market-prices''} \<longrightarrow>
      loadServiceData e name w = w)"
  by (simp add: loadServiceData_def asc_inject)

theorem loadServiceData_dispatch_witness:
  "asc ''soil-health'' \<notin> {asc ''government-schemes'', asc ''crop-recommendations'',
      asc ''weather'', asc ''market-prices''} \<and>
   loadServiceData (demoEnv FetchRejected None) (asc ''soil-health'') demoPage = demoPage \<and>
   loadServiceData (demoEnv FetchRejected None) (asc ''pest-control'') demoPage = demoPage"
  using loadServiceData_dispatch [of "demoEnv FetchRejected None" demoPage "asc ''soil-health''"]
  by (simp add: asc_inject)

text \<open>
  C5. When the container of the service exists, the first thing each handler does to
  the page is to put the loading placeholder into the container, and at every request
  the handler gives to \<open>fetch\<close> the container holds the placeholder.
\<close>

theorem placeholder_before_fetch:
  "(\<forall>c. getElementById (document w) (asc ''pricesData'') = Some c \<longrightarrow>
      (\<exists>rest. newEvents w (snd (loadMarketPrices e w)) = SetInnerHTML c marketLoadingHtml # rest) \<and>
      set (shownAtFetch c (innerHTML (document w ! c)) (newEvents w (snd (loadMarketPrices e w))))
        \<subseteq> {marketLoadingHtml}) \<and>
   (\<forall>c. getElementById (document w) (asc ''weatherData'') = Some c \<longrightarrow>
      (\<exists>rest. newEvents w (snd (loadWeatherData e w)) = SetInnerHTML c weatherLoadingHtml # rest) \<and>
      set (shownAtFetch c (innerHTML (document w ! c)) (newEvents w (snd (loadWeatherData e w))))
        \<subseteq> {weatherLoadingHtml}) \<and>
   (\<forall>c. getElementById (document w) (asc ''schemesData'') = Some c \<longrightarrow>
      (\<exists>rest. newEvents w (snd (loadGovernmentSchemes e w)) = SetInnerHTML c schemesLoadingHtml # rest) \<and>
      set (shownAtFetch c (innerHTML (document w ! c)) (newEvents w (snd (loadGovernmentSchemes e w))))
        \<subseteq> {schemesLoadingHtml}) \<and>
   (\<forall>c. cropsContainer (document w) = Some c \<longrightarrow>
      (\<exists>rest. newEvents w (snd (loadCropRecommendations e w)) = SetInnerHTML c cropsLoadingHtml # rest) \<and>
      set (shownAtFetch c (innerHTML (document w ! c)) (newEvents w (snd (loadCropRecommendations e w))))
        \<subseteq> {cropsLoadingHtml})"
  by (rule conjI [OF market_placeholder conjI [OF weather_placeholder
        conjI [OF schemes_placeholder crops_placeholder]]])

theorem placeholder_before_fetch_witness:
  "getElementById (document demoPage) (asc ''pricesData'') = Some 1 \<and>
   getElementById (document demoPage) (asc ''weatherData'') = Some 3 \<and>
   getElementById (document demoPage) (asc ''schemesData'') = Some 5 \<and>
   cropsContainer (document demoPage) = Some 7 \<and>
   (\<exists>rest. newEvents demoPage (snd (loadMarketPrices (demoEnv FetchRejected None) demoPage))
             = SetInnerHTML 1 marketLoadingHtml # rest) \<and>
   set (shownAtFetch 1 (asc ''old'')
         (newEvents demoPage (snd (loadMarketPrices (demoEnv FetchRejected None) demoPage))))
     \<subseteq> {marketLoadingHtml} \<and>
   (\<exists>rest. newEvents demoPage (snd (loadWeatherData (demoEnv FetchRejected None) demoPage))
             = SetInnerHTML 3 weatherLoadingHtml # rest) \<and>
   set (shownAtFetch 3 (asc ''old'')
         (newEvents demoPage (snd (loadWeatherData (demoEnv FetchRejected None) demoPage))))
     \<subseteq> {weatherLoadingHtml} \<and>
   (\<exists>rest. newEvents demoPage (snd (loadGovernmentSchemes (demoEnv FetchRejected None) demoPage))
             = SetInnerHTML 5 schemesLoadingHtml # rest) \<and>
   set (shownAtFetch 5 (asc ''old'')
         (newEvents demoPage (snd (loadGovernmentSchemes (demoEnv FetchRejected None) demoPage))))
     \<subseteq> {schemesLoadingHtml} \<and>
   (\<exists>rest. newEvents demoPage (snd (loadCropRecommendations (demoEnv FetchRejected None) demoPage))
             = SetInnerHTML 7 cropsLoadingHtml # rest) \<and>
   set (shownAtFetch 7 (asc ''old'')
         (newEvents demoPage (snd (loadCropRecommendations (demoEnv FetchRejected None) demoPage))))
     \<subseteq> {cropsLoadingHtml}"
  using placeholder_before_fetch [of demoPage "demoEnv FetchRejected None"]
  by (simp add: demoPage_lookup demoPage_shown)

section \<open>The crop list of the market prices service\<close>

lemma getProp_total: "getProp h v name = Some x \<Longrightarrow> \<exists>y. getProp h v other = Some y"
  by (cases v) simp_all

lemma getPropOpt_total: "\<exists>y. getPropOpt h v name = Some y"
  by (cases v) (simp_all add: getPropOpt_def)

lemma nonEmpty_array:
  "countsLengths h \<Longrightarrow> nonEmpty h (JArr xs) = Some (xs \<noteq> [])"
  by (simp add: nonEmpty_def jsGt_def toNumber_def countsLengths_def)

lemma marketNearbyMandis_total:
  assumes "getProp h data name = Some x"
  shows "\<exists>m. marketNearbyMandis h data = Some m"
proof -
  obtain a where a: "getProp h data (asc ''nearby_mandis'') = Some a"
    using getProp_total [OF assms] by blast
  obtain mp where mp: "getProp h data (asc ''market_prices'') = Some mp"
    using getProp_total [OF assms] by blast
  obtain b where b: "getPropOpt h mp (asc ''nearby_mandis'') = Some b"
    using getPropOpt_total by blast
  show ?thesis
    by (simp add: marketNearbyMandis_def orElse_def a mp b)
qed

lemma loadMarketPrices_shows:
  assumes "getElementById (document w) (asc ''pricesData'') = Some k"
    and "marketPricesUrl (browser e) (setInnerHTML k marketLoadingHtml w) = Some url"
    and "network e url = JsonBody data"
  shows "innerHTML (document (snd (loadMarketPrices e w)) ! k) =
           (case marketPricesHtml (browser e) (clock e) data of
              Some html \<Rightarrow> html
            | None \<Rightarrow> marketErrorHtml)"
proof -
  have c: "firstElementById (document w) (containerIds marketService) = Some k"
    using assms(1) by (simp add: market_fields)
  have u: "requestUrl marketService (browser e)
             (setInnerHTML k (loadingHtml marketService) w) = Some url"
    using assms(2) by (simp add: market_fields)
  have b: "k < length (document w)"
    using assms(1) by (rule getElementById_bound)
  show ?thesis
    unfolding loadMarketPrices_service runService_url(1) [OF c u]
    using b assms(3)
    by (simp add: shown_setInnerHTML length_setInnerHTML document_fetch shownAfter_def
        market_fields split: option.splits)
qed

text \<open>
  C6, as the code has it. The crop list is \<open>data.crops\<close> when that value is truthy, as
  every list is, the empty list too; it is \<open>data.market_prices?.top_crops\<close> only when
  \<open>data.crops\<close> is falsy and that value is truthy; it is the empty list when both are
  falsy. When the list taken is empty the markup is the message that no data is
  available; when it is a list with an element the markup is the price grid built from
  it. The container ends with that markup, or with the error markup when the grid
  cannot be computed.
\<close>

theorem market_crop_list:
  assumes "countsLengths (browser e)"
    and "getProp (browser e) data (asc ''crops'') = Some c"
    and "marketTopCrops (browser e) data = Some t"
  shows "(truthy (browser e) c \<longrightarrow> marketCrops (browser e) data = Some c) \<and>
    (\<not> truthy (browser e) c \<and> truthy (browser e) t \<longrightarrow>
       marketCrops (browser e) data = Some t) \<and>
    (\<not> truthy (browser e) c \<and> \<not> truthy (browser e) t \<longrightarrow>
       marketCrops (browser e) data = Some (JArr [])) \<and>
    (marketCrops (browser e) data = Some (JArr []) \<longrightarrow>
       marketPricesHtml (browser e) (clock e) data = Some marketUnavailableHtml) \<and>
    (\<forall>x xs. marketCrops (browser e) data = Some (JArr (x # xs)) \<longrightarrow>
       marketPricesHtml (browser e) (clock e) data =
         marketNearbyMandis (browser e) data
           \<bind> marketGridHtml (browser e) (clock e) data (JArr (x # xs))) \<and>
    (\<forall>k url. getElementById (document w) (asc ''pricesData'') = Some k \<and>
       marketPricesUrl (browser e) (setInnerHTML k marketLoadingHtml w) = Some url \<and>
       network e url = JsonBody data \<longrightarrow>
       innerHTML (document (snd (loadMarketPrices e w)) ! k) =
         (case marketPricesHtml (browser e) (clock e) data of
            Some html \<Rightarrow> html
          | None \<Rightarrow> marketErrorHtml))"
proof -
  obtain m where m: "marketNearbyMandis (browser e) data = Some m"
    using marketNearbyMandis_total [OF assms(2)] by blast
  have sel: "marketCrops (browser e) data =
      Some (if truthy (browser e) c then c else if truthy (browser e) t then t else JArr [])"
    using assms(2,3) by (simp add: marketCrops_def orElse_def)
  have empty: "marketPricesHtml (browser e) (clock e) data = Some marketUnavailableHtml"
    if "marketCrops (browser e) data = Some (JArr [])"
    using that m assms(1) by (simp add: marketPricesHtml_def nonEmpty_array)
  have grid: "marketPricesHtml (browser e) (clock e) data =
      marketNearbyMandis (browser e) data
        \<bind> marketGridHtml (browser e) (clock e) data (JArr (x # xs))"
    if "marketCrops (browser e) data = Some (JArr (x # xs))" for x xs
    using that m assms(1) by (simp add: marketPricesHtml_def nonEmpty_array)
  have shown: "innerHTML (document (snd (loadMarketPrices e w)) ! k) =
         (case marketPricesHtml (browser e) (clock e) data of
            Some html \<Rightarrow> html
          | None \<Rightarrow> marketErrorHtml)"
    if "getElementById (document w) (asc ''pricesData'') = Some k \<and>
       marketPricesUrl (browser e) (setInnerHTML k marketLoadingHtml w) = Some url \<and>
       network e url = JsonBody data" for k url
    using that loadMarketPrices_shows [of w k e url data] by blast
  show ?thesis
  proof (intro conjI allI impI)
    assume "truthy (browser e) c"
    with sel show "marketCrops (browser e) data = Some c" by simp
  next
    assume "\<not> truthy (browser e) c \<and> truthy (browser e) t"
    with sel show "marketCrops (browser e) data = Some t" by simp
  next
    assume "\<not> truthy (browser e) c \<and> \<not> truthy (browser e) t"
    with sel show "marketCrops (browser e) data = Some (JArr [])" by simp
  next
    assume "marketCrops (browser e) data = Some (JArr [])"
    then show "marketPricesHtml (browser e) (clock e) data = Some marketUnavailableHtml"
      by (rule empty)
  next
    fix x xs
    assume "marketCrops (browser e) data = Some (JArr (x # xs))"
    then show "marketPricesHtml (browser e) (clock e) data =
         marketNearbyMandis (browser e) data
           \<bind> marketGridHtml (browser e) (clock e) data (JArr (x # xs))"
      by (rule grid)
  next
    fix k url
    assume "getElementById (document w) (asc ''pricesData'') = Some k \<and>
       marketPricesUrl (browser e) (setInnerHTML k marketLoadingHtml w) = Some url \<and>
       network e url = JsonBody data"
    then show "innerHTML (document (snd (loadMarketPrices e w)) ! k) =
         (case marketPricesHtml (browser e) (clock e) data of
            Some html \<Rightarrow> html
          | None \<Rightarrow> marketErrorHtml)"
      by (rule shown)
  qed
qed

lemma demoHost_counts: "countsLengths demoHost"
  by (simp add: countsLengths_def demoHost_def)

lemma demoFallbackBody_reads:
  "getProp demoHost demoFallbackBody (asc ''crops'') = Some (JArr [])"
  "marketTopCrops demoHost demoFallbackBody = Some (JArr [demoCrop])"
  by (simp_all add: demoFallbackBody_def marketTopCrops_def getPropOpt_def asc_inject)

lemma demoMarketBody_reads:
  "getProp demoHost demoMarketBody (asc ''crops'') = Some (JArr [demoCrop])"
  "marketTopCrops demoHost demoMarketBody = Some JUndefined"
  by (simp_all add: demoMarketBody_def marketTopCrops_def getPropOpt_def asc_inject)

theorem market_crop_list_witness:
  "countsLengths demoHost \<and>
   getProp demoHost demoMarketBody (asc ''crops'') = Some (JArr [demoCrop]) \<and>
   marketTopCrops demoHost demoMarketBody = Some JUndefined \<and>
   marketCrops demoHost demoMarketBody = Some (JArr [demoCrop]) \<and>
   marketPricesHtml demoHost None demoMarketBody =
     marketNearbyMandis demoHost demoMarketBody
       \<bind> marketGridHtml demoHost None demoMarketBody (JArr [demoCrop])"
  using demoHost_counts demoMarketBody_reads
    market_crop_list [of "demoEnv (JsonBody demoMarketBody) None" demoMarketBody
      "JArr [demoCrop]" JUndefined demoPage]
  by (simp add: demoEnv_fields)

text \<open>
  The claim C6 as written fails on a body whose \<open>crops\<close> is the empty list while
  \<open>market_prices.top_crops\<close> holds a crop: the empty list is truthy, so the second path
  is not read and the container shows the message that no data is available.
\<close>

theorem market_empty_crops_hide_top_crops:
  "getProp demoHost demoFallbackBody (asc ''crops'') = Some (JArr []) \<and>
   marketTopCrops demoHost demoFallbackBody = Some (JArr [demoCrop]) \<and>
   marketPricesHtml demoHost None demoFallbackBody = Some marketUnavailableHtml \<and>
   innerHTML (document (snd (loadMarketPrices (demoEnv (JsonBody demoFallbackBody) None)
                               demoPage)) ! 1)
     = marketUnavailableHtml"
proof -
  have sel: "marketCrops demoHost demoFallbackBody = Some (JArr [])"
    by (simp add: marketCrops_def orElse_def demoFallbackBody_reads)
  obtain m where m: "marketNearbyMandis demoHost demoFallbackBody = Some m"
    using marketNearbyMandis_total [OF demoFallbackBody_reads(1)] by blast
  have html: "marketPricesHtml demoHost None demoFallbackBody = Some marketUnavailableHtml"
    using sel m demoHost_counts by (simp add: marketPricesHtml_def nonEmpty_array)
  obtain url where url:
    "marketPricesUrl demoHost (setInnerHTML 1 marketLoadingHtml demoPage) = Some url"
    using demoPage_urls(1) by blast
  have "innerHTML (document (snd (loadMarketPrices (demoEnv (JsonBody demoFallbackBody) None)
                               demoPage)) ! 1)
        = (case marketPricesHtml demoHost None demoFallbackBody of
             Some html \<Rightarrow> html | None \<Rightarrow> marketErrorHtml)"
    using loadMarketPrices_shows
      [of demoPage 1 "demoEnv (JsonBody demoFallbackBody) None" url demoFallbackBody]
      url
    by (simp add: demoPage_lookup demoEnv_fields)
  with html show ?thesis
    by (simp add: demoFallbackBody_reads)
qed

section \<open>What the markup depends on\<close>

lemma runService_same_markup:
  assumes "firstElementById (document w1) (containerIds s) = Some c1"
    and "firstElementById (document w2) (containerIds s) = Some c2"
    and "requestUrl s (browser e1) (setInnerHTML c1 (loadingHtml s) w1) = Some u1"
    and "requestUrl s (browser e2) (setInnerHTML c2 (loadingHtml s) w2) = Some u2"
    and "network e1 u1 = JsonBody data"
    and "network e2 u2 = JsonBody data"
    and "renderHtml s (browser e1) (clock e1) data = renderHtml s (browser e2) (clock e2) data"
  shows "innerHTML (document (snd (runService s e1 w1)) ! c1) =
           innerHTML (document (snd (runService s e2 w2)) ! c2) \<and>
         fst (runService_try s e1 w1) = fst (runService_try s e2 w2)"
proof -
  have b1: "c1 < length (document w1)" using assms(1) by (rule firstElementById_bound)
  have b2: "c2 < length (document w2)" using assms(2) by (rule firstElementById_bound)
  have "shownAfter s e1 u1 = shownAfter s e2 u2"
    using assms(5,6,7) by (simp add: shownAfter_def)
  then have shown: "innerHTML (document (snd (runService s e1 w1)) ! c1) =
           innerHTML (document (snd (runService s e2 w2)) ! c2)"
    unfolding runService_url(1) [OF assms(1) assms(3)] runService_url(1) [OF assms(2) assms(4)]
    using b1 b2
    by (simp add: shown_setInnerHTML length_setInnerHTML document_fetch)
  have "fst (runService_try s e1 w1) = Threw \<longleftrightarrow> fst (runService_try s e2 w2) = Threw"
    unfolding runService_url(2) [OF assms(1) assms(3)] runService_url(2) [OF assms(2) assms(4)]
    using assms(5,6,7) by simp
  then have "fst (runService_try s e1 w1) = fst (runService_try s e2 w2)"
    by (cases "fst (runService_try s e1 w1)"; cases "fst (runService_try s e2 w2)") simp_all
  with shown show ?thesis by simp
qed

lemma marketHeaderHtml_timestamp:
  assumes "getProp h data (asc ''timestamp'') = Some ts" and "truthy h ts"
  shows "marketHeaderHtml h now data = marketHeaderHtml h now' data"
  using assms by (simp add: marketHeaderHtml_def orElse_def)

lemma marketPricesHtml_timestamp:
  assumes "getProp h data (asc ''timestamp'') = Some ts" and "truthy h ts"
  shows "marketPricesHtml h now data = marketPricesHtml h now' data"
proof -
  have g: "marketGridHtml h now data crops mandis = marketGridHtml h now' data crops mandis"
    for crops mandis
    unfolding marketGridHtml_def marketHeaderHtml_timestamp [OF assms, of now now'] ..
  show ?thesis
    unfolding marketPricesHtml_def g ..
qed

lemma market_same_markup:
  "(\<forall>c1 c2 u1 u2 data.
      browser e1 = browser e2 \<and>
      getElementById (document w1) (asc ''pricesData'') = Some c1 \<and>
      getElementById (document w2) (asc ''pricesData'') = Some c2 \<and>
      marketPricesUrl (browser e1) (setInnerHTML c1 marketLoadingHtml w1) = Some u1 \<and>
      marketPricesUrl (browser e2) (setInnerHTML c2 marketLoadingHtml w2) = Some u2 \<and>
      network e1 u1 = JsonBody data \<and> network e2 u2 = JsonBody data \<and>
      (clock e1 = clock e2 \<or>
       (\<exists>ts. getProp (browser e1) data (asc ''timestamp'') = Some ts \<and>
             truthy (browser e1) ts)) \<longrightarrow>
      innerHTML (document (snd (loadMarketPrices e1 w1)) ! c1) =
        innerHTML (document (snd (loadMarketPrices e2 w2)) ! c2) \<and>
      fst (loadMarketPrices_try e1 w1) = fst (loadMarketPrices_try e2 w2))"
proof (intro allI impI)
  fix c1 c2 u1 u2 data
  assume a: "browser e1 = browser e2 \<and>
      getElementById (document w1) (asc ''pricesData'') = Some c1 \<and>
      getElementById (document w2) (asc ''pricesData'') = Some c2 \<and>
      marketPricesUrl (browser e1) (setInnerHTML c1 marketLoadingHtml w1) = Some u1 \<and>
      marketPricesUrl (browser e2) (setInnerHTML c2 marketLoadingHtml w2) = Some u2 \<and>
      network e1 u1 = JsonBody data \<and> network e2 u2 = JsonBody data \<and>
      (clock e1 = clock e2 \<or>
       (\<exists>ts. getProp (browser e1) data (asc ''timestamp'') = Some ts \<and>
             truthy (browser e1) ts))"
    have r: "renderHtml marketService (browser e1) (clock e1) data =
             renderHtml marketService (browser e2) (clock e2) data"
      using a marketPricesHtml_timestamp [of "browser e1" data _ "clock e1" "clock e2"]
      by (auto simp: market_fields)
  show "innerHTML (document (snd (loadMarketPrices e1 w1)) ! c1) =
        innerHTML (document (snd (loadMarketPrices e2 w2)) ! c2) \<and>
      fst (loadMarketPrices_try e1 w1) = fst (loadMarketPrices_try e2 w2)"
    unfolding loadMarketPrices_service loadMarketPrices_try_service
    using a r runService_same_markup [of w1 marketService c1 w2 c2 e1 u1 e2 u2 data]
    by (auto simp: market_fields)
qed

lemma weather_same_markup:
  "(\<forall>c1 c2 u1 u2 data.
      browser e1 = browser e2 \<and>
      getElementById (document w1) (asc ''weatherData'') = Some c1 \<and>
      getElementById (document w2) (asc ''weatherData'') = Some c2 \<and>
      weatherUrl (browser e1) (setInnerHTML c1 weatherLoadingHtml w1) = Some u1 \<and>
      weatherUrl (browser e2) (setInnerHTML c2 weatherLoadingHtml w2) = Some u2 \<and>
      network e1 u1 = JsonBody data \<and> network e2 u2 = JsonBody data \<longrightarrow>
      innerHTML (document (snd (loadWeatherData e1 w1)) ! c1) =
        innerHTML (document (snd (loadWeatherData e2 w2)) ! c2) \<and>
      fst (loadWeatherData_try e1 w1) = fst (loadWeatherData_try e2 w2))"
proof (intro allI impI)
  fix c1 c2 u1 u2 data
  assume a: "browser e1 = browser e2 \<and>
      getElementById (document w1) (asc ''weatherData'') = Some c1 \<and>
      getElementById (document w2) (asc ''weatherData'') = Some c2 \<and>
      weatherUrl (browser e1) (setInnerHTML c1 weatherLoadingHtml w1) = Some u1 \<and>
      weatherUrl (browser e2) (setInnerHTML c2 weatherLoadingHtml w2) = Some u2 \<and>
      network e1 u1 = JsonBody data \<and> network e2 u2 = JsonBody data"
    have r: "renderHtml weatherService (browser e1) (clock e1) data =
             renderHtml weatherService (browser e2) (clock e2) data"
      using a by (simp add: weather_fields)
  show "innerHTML (document (snd (loadWeatherData e1 w1)) ! c1) =
        innerHTML (document (snd (loadWeatherData e2 w2)) ! c2) \<and>
      fst (loadWeatherData_try e1 w1) = fst (loadWeatherData_try e2 w2)"
    unfolding loadWeatherData_service loadWeatherData_try_service
    using a r runService_same_markup [of w1 weatherService c1 w2 c2 e1 u1 e2 u2 data]
    by (auto simp: weather_fields)
qed

lemma schemes_same_markup:
  "(\<forall>c1 c2 u1 u2 data.
      browser e1 = browser e2 \<and>
      getElementById (document w1) (asc ''schemesData'') = Some c1 \<and>
      getElementById (document w2) (asc ''schemesData'') = Some c2 \<and>
      schemesUrl (browser e1) (setInnerHTML c1 schemesLoadingHtml w1) = Some u1 \<and>
      schemesUrl (browser e2) (setInnerHTML c2 schemesLoadingHtml w2) = Some u2 \<and>
      network e1 u1 = JsonBody data \<and> network e2 u2 = JsonBody data \<longrightarrow>
      innerHTML (document (snd (loadGovernmentSchemes e1 w1)) ! c1) =
        innerHTML (document (snd (loadGovernmentSchemes e2 w2)) ! c2) \<and>
      fst (loadGovernmentSchemes_try e1 w1) = fst (loadGovernmentSchemes_try e2 w2))"
proof (intro allI impI)
  fix c1 c2 u1 u2 data
  assume a: "browser e1 = browser e2 \<and>
      getElementById (document w1) (asc ''schemesData'') = Some c1 \<and>
      getElementById (document w2) (asc ''schemesData'') = Some c2 \<and>
      schemesUrl (browser e1) (setInnerHTML c1 schemesLoadingHtml w1) = Some u1 \<and>
      schemesUrl (browser e2) (setInnerHTML c2 schemesLoadingHtml w2) = Some u2 \<and>
      network e1 u1 = JsonBody data \<and> network e2 u2 = JsonBody data"
    have r: "renderHtml schemesService (browser e1) (clock e1) data =
             renderHtml schemesService (browser e2) (clock e2) data"
      using a by (simp add: schemes_fields)
  show "innerHTML (document (snd (loadGovernmentSchemes e1 w1)) ! c1) =
        innerHTML (document (snd (loadGovernmentSchemes e2 w2)) ! c2) \<and>
      fst (loadGovernmentSchemes_try e1 w1) = fst (loadGovernmentSchemes_try e2 w2)"
    unfolding loadGovernmentSchemes_service loadGovernmentSchemes_try_service
    using a r runService_same_markup [of w1 schemesService c1 w2 c2 e1 u1 e2 u2 data]
    by (auto simp: schemes_fields)
qed

lemma crops_same_markup:
  "(\<forall>c1 c2 u1 u2 data.
      browser e1 = browser e2 \<and>
      cropsContainer (document w1) = Some c1 \<and>
      cropsContainer (document w2) = Some c2 \<and>
      cropsUrl (browser e1) (setInnerHTML c1 cropsLoadingHtml w1) = Some u1 \<and>
      cropsUrl (browser e2) (setInnerHTML c2 cropsLoadingHtml w2) = Some u2 \<and>
      network e1 u1 = JsonBody data \<and> network e2 u2 = JsonBody data \<longrightarrow>
      innerHTML (document (snd (loadCropRecommendations e1 w1)) ! c1) =
        innerHTML (document (snd (loadCropRecommendations e2 w2)) ! c2) \<and>
      fst (loadCropRecommendations_try e1 w1) = fst (loadCropRecommendations_try e2 w2))"
proof (intro allI impI)
  fix c1 c2 u1 u2 data
  assume a: "browser e1 = browser e2 \<and>
      cropsContainer (document w1) = Some c1 \<and>
      cropsContainer (document w2) = Some c2 \<and>
      cropsUrl (browser e1) (setInnerHTML c1 cropsLoadingHtml w1) = Some u1 \<and>
      cropsUrl (browser e2) (setInnerHTML c2 cropsLoadingHtml w2) = Some u2 \<and>
      network e1 u1 = JsonBody data \<and> network e2 u2 = JsonBody data"
    have r: "renderHtml cropsService (browser e1) (clock e1) data =
             renderHtml cropsService (browser e2) (clock e2) data"
      using a by (simp add: crops_fields)
  show "innerHTML (document (snd (loadCropRecommendations e1 w1)) ! c1) =
        innerHTML (document (snd (loadCropRecommendations e2 w2)) ! c2) \<and>
      fst (loadCropRecommendations_try e1 w1) = fst (loadCropRecommendations_try e2 w2)"
    unfolding loadCropRecommendations_service loadCropRecommendations_try_service
    using a r runService_same_markup [of w1 cropsService c1 w2 c2 e1 u1 e2 u2 data]
    by (auto simp: crops_fields)
qed

text \<open>
  C7, as the code has it. In one browser, two runs of a handler that receive the same
  body end with the same markup in their containers, and the one renders if and only if
  the other does: for the weather, the schemes and the crop recommendations always, for
  the market prices when the two runs read the same clock or the body has a truthy
  \<open>timestamp\<close>.
\<close>

theorem same_body_same_markup:
  "(\<forall>c1 c2 u1 u2 data.
      browser e1 = browser e2 \<and>
      getElementById (document w1) (asc ''pricesData'') = Some c1 \<and>
      getElementById (document w2) (asc ''pricesData'') = Some c2 \<and>
      marketPricesUrl (browser e1) (setInnerHTML c1 marketLoadingHtml w1) = Some u1 \<and>
      marketPricesUrl (browser e2) (setInnerHTML c2 marketLoadingHtml w2) = Some u2 \<and>
      network e1 u1 = JsonBody data \<and> network e2 u2 = JsonBody data \<and>
      (clock e1 = clock e2 \<or>
       (\<exists>ts. getProp (browser e1) data (asc ''timestamp'') = Some ts \<and>
             truthy (browser e1) ts)) \<longrightarrow>
      innerHTML (document (snd (loadMarketPrices e1 w1)) ! c1) =
        innerHTML (document (snd (loadMarketPrices e2 w2)) ! c2) \<and>
      fst (loadMarketPrices_try e1 w1) = fst (loadMarketPrices_try e2 w2)) \<and>
   (\<forall>c1 c2 u1 u2 data.
      browser e1 = browser e2 \<and>
      getElementById (document w1) (asc ''weatherData'') = Some c1 \<and>
      getElementById (document w2) (asc ''weatherData'') = Some c2 \<and>
      weatherUrl (browser e1) (setInnerHTML c1 weatherLoadingHtml w1) = Some u1 \<and>
      weatherUrl (browser e2) (setInnerHTML c2 weatherLoadingHtml w2) = Some u2 \<and>
      network e1 u1 = JsonBody data \<and> network e2 u2 = JsonBody data \<longrightarrow>
      innerHTML (document (snd (loadWeatherData e1 w1)) ! c1) =
        innerHTML (document (snd (loadWeatherData e2 w2)) ! c2) \<and>
      fst (loadWeatherData_try e1 w1) = fst (loadWeatherData_try e2 w2)) \<and>
   (\<forall>c1 c2 u1 u2 data.
      browser e1 = browser e2 \<and>
      getElementById (document w1) (asc ''schemesData'') = Some c1 \<and>
      getElementById (document w2) (asc ''schemesData'') = Some c2 \<and>
      schemesUrl (browser e1) (setInnerHTML c1 schemesLoadingHtml w1) = Some u1 \<and>
      schemesUrl (browser e2) (setInnerHTML c2 schemesLoadingHtml w2) = Some u2 \<and>
      network e1 u1 = JsonBody data \<and> network e2 u2 = JsonBody data \<longrightarrow>
      innerHTML (document (snd (loadGovernmentSchemes e1 w1)) ! c1) =
        innerHTML (document (snd (loadGovernmentSchemes e2 w2)) ! c2) \<and>
      fst (loadGovernmentSchemes_try e1 w1) = fst (loadGovernmentSchemes_try e2 w2)) \<and>
   (\<forall>c1 c2 u1 u2 data.
      browser e1 = browser e2 \<and>
      cropsContainer (document w1) = Some c1 \<and>
      cropsContainer (document w2) = Some c2 \<and>
      cropsUrl (browser e1) (setInnerHTML c1 cropsLoadingHtml w1) = Some u1 \<and>
      cropsUrl (browser e2) (setInnerHTML c2 cropsLoadingHtml w2) = Some u2 \<and>
      network e1 u1 = JsonBody data \<and> network e2 u2 = JsonBody data \<longrightarrow>
      innerHTML (document (snd (loadCropRecommendations e1 w1)) ! c1) =
        innerHTML (document (snd (loadCropRecommendations e2 w2)) ! c2) \<and>
      fst (loadCropRecommendations_try e1 w1) = fst (loadCropRecommendations_try e2 w2))"
  by (rule conjI [OF market_same_markup conjI [OF weather_same_markup
        conjI [OF schemes_same_markup crops_same_markup]]])

lemma appendEach_one: "appendEach f [x] html = map_option ((@) html) (f x)"
  by (cases "f x") simp_all

lemma marketHeaderTemplate_updated:
  "marketHeaderTemplate l s u = marketHeaderTemplate l s u' \<longleftrightarrow> u = u'"
  by (simp add: marketHeaderTemplate_def)

lemma demoMarket_header:
  "marketHeaderHtml demoHost now demoMarketBody =
     Some (marketHeaderTemplate (asc ''Delhi'') (asc ''Agmarknet + e-NAM'') (showNumber now))"
  by (simp add: marketHeaderHtml_def orElse_def newDateLocale_def demoMarketBody_def
      demoHost_def asc_inject)

lemma demoCrop_card: "\<exists>card. marketCropCard demoHost demoCrop = Some card"
  by (simp add: marketCropCard_def orElse_def jsGe_def toNumber_def demoCrop_def demoHost_def
      asc_inject)

lemma demoMarket_html:
  "\<exists>card. \<forall>now. marketPricesHtml demoHost now demoMarketBody =
     Some (marketHeaderTemplate (asc ''Delhi'') (asc ''Agmarknet + e-NAM'') (showNumber now)
             @ card @ asc ''</div>'')"
proof -
  obtain card where card: "marketCropCard demoHost demoCrop = Some card"
    using demoCrop_card by blast
  have crops: "marketCrops demoHost demoMarketBody = Some (JArr [demoCrop])"
    by (simp add: marketCrops_def orElse_def demoMarketBody_reads)
  have mandis: "marketNearbyMandis demoHost demoMarketBody = Some (JArr [])"
    by (simp add: marketNearbyMandis_def orElse_def getPropOpt_def demoMarketBody_def
        asc_inject)
  have "marketPricesHtml demoHost now demoMarketBody =
     Some (marketHeaderTemplate (asc ''Delhi'') (asc ''Agmarknet + e-NAM'') (showNumber now)
             @ card @ asc ''</div>'')" for now
    by (simp add: marketPricesHtml_def crops mandis nonEmpty_array demoHost_counts
        marketGridHtml_def demoMarket_header appendEach_one card)
  then show ?thesis by blast
qed

lemma demo_clocks_differ: "showNumber (Some 0) \<noteq> showNumber (Some 86400000)"
  by (simp add: showNumber_def)

text \<open>
  The claim C7 as written fails for the market prices: a body without \<open>timestamp\<close> is
  rendered with the time \<open>Date.now()\<close> gives, so two runs on the same body a day apart
  both render and end with different markup.
\<close>

theorem market_markup_depends_on_clock:
  "fst (loadMarketPrices_try (demoEnv (JsonBody demoMarketBody) (Some 0)) demoPage) = Returned \<and>
   fst (loadMarketPrices_try (demoEnv (JsonBody demoMarketBody) (Some 86400000)) demoPage)
     = Returned \<and>
   innerHTML (document (snd (loadMarketPrices (demoEnv (JsonBody demoMarketBody) (Some 0))
                               demoPage)) ! 1)
     \<noteq> innerHTML (document (snd (loadMarketPrices
                                     (demoEnv (JsonBody demoMarketBody) (Some 86400000))
                                     demoPage)) ! 1)"
proof -
  obtain card where html: "\<And>now. marketPricesHtml demoHost now demoMarketBody =
     Some (marketHeaderTemplate (asc ''Delhi'') (asc ''Agmarknet + e-NAM'') (showNumber now)
             @ card @ asc ''</div>'')"
    using demoMarket_html by blast
  obtain url where url:
    "marketPricesUrl demoHost (setInnerHTML 1 marketLoadingHtml demoPage) = Some url"
    using demoPage_urls(1) by blast
  have shown: "innerHTML (document (snd (loadMarketPrices (demoEnv (JsonBody demoMarketBody) now)
                               demoPage)) ! 1)
      = marketHeaderTemplate (asc ''Delhi'') (asc ''Agmarknet + e-NAM'') (showNumber now)
          @ card @ asc ''</div>''" for now
    using loadMarketPrices_shows
      [of demoPage 1 "demoEnv (JsonBody demoMarketBody) now" url demoMarketBody] url
    by (simp add: demoPage_lookup demoEnv_fields html)
  have ok: "fst (loadMarketPrices_try (demoEnv (JsonBody demoMarketBody) now) demoPage)
      = Returned" for now
  proof (cases "fst (loadMarketPrices_try (demoEnv (JsonBody demoMarketBody) now) demoPage)")
    case Returned
    then show ?thesis .
  next
    case Threw
    have c: "firstElementById (document demoPage) (containerIds marketService) = Some 1"
      by (simp add: market_fields demoPage_lookup)
    have u: "requestUrl marketService (browser (demoEnv (JsonBody demoMarketBody) now))
               (setInnerHTML 1 (loadingHtml marketService) demoPage) = Some url"
      using url by (simp add: market_fields demoEnv_fields)
    from Threw runService_url(2) [OF c u] show ?thesis
      by (simp add: loadMarketPrices_try_service market_fields demoEnv_fields html)
  qed
  show ?thesis
    unfolding shown ok
    using demo_clocks_differ
    by (simp add: marketHeaderTemplate_updated)
qed

lemma demoStampedBody_reads:
  "getProp demoHost demoStampedBody (asc ''timestamp'') = Some (JNum (Some 1700000000000))"
  "truthy demoHost (JNum (Some 1700000000000))"
  by (simp_all add: demoStampedBody_def demoHost_def asc_inject)

theorem same_body_same_markup_witness:
  "innerHTML (document (snd (loadMarketPrices (demoEnv (JsonBody demoStampedBody) (Some 0))
                               demoPage)) ! 1)
     = innerHTML (document (snd (loadMarketPrices
                                   (demoEnv (JsonBody demoStampedBody) (Some 86400000))
                                   demoPage)) ! 1) \<and>
   innerHTML (document (snd (loadWeatherData (demoEnv (JsonBody demoStampedBody) (Some 0))
                               demoPage)) ! 3)
     = innerHTML (document (snd (loadWeatherData
                                   (demoEnv (JsonBody demoStampedBody) (Some 86400000))
                                   demoPage)) ! 3) \<and>
   innerHTML (document (snd (loadGovernmentSchemes (demoEnv (JsonBody demoStampedBody) (Some 0))
                               demoPage)) ! 5)
     = innerHTML (document (snd (loadGovernmentSchemes
                                   (demoEnv (JsonBody demoStampedBody) (Some 86400000))
                                   demoPage)) ! 5) \<and>
   innerHTML (document (snd (loadCropRecommendations (demoEnv (JsonBody demoStampedBody) (Some 0))
                               demoPage)) ! 7)
     = innerHTML (document (snd (loadCropRecommendations
                                   (demoEnv (JsonBody demoStampedBody) (Some 86400000))
                                   demoPage)) ! 7)"
proof -
  obtain u1 where u1: "marketPricesUrl demoHost (setInnerHTML 1 marketLoadingHtml demoPage) = Some u1"
    using demoPage_urls(1) by blast
  obtain u2 where u2: "weatherUrl demoHost (setInnerHTML 3 weatherLoadingHtml demoPage) = Some u2"
    using demoPage_urls(2) by blast
  obtain u3 where u3: "schemesUrl demoHost (setInnerHTML 5 schemesLoadingHtml demoPage) = Some u3"
    using demoPage_urls(3) by blast
  obtain u4 where u4: "cropsUrl demoHost (setInnerHTML 7 cropsLoadingHtml demoPage) = Some u4"
    using demoPage_urls(4) by blast
  note all = same_body_same_markup
    [of "demoEnv (JsonBody demoStampedBody) (Some 0)"
        "demoEnv (JsonBody demoStampedBody) (Some 86400000)" demoPage demoPage]
  have m: "innerHTML (document (snd (loadMarketPrices (demoEnv (JsonBody demoStampedBody) (Some 0))
                               demoPage)) ! 1)
     = innerHTML (document (snd (loadMarketPrices
                                   (demoEnv (JsonBody demoStampedBody) (Some 86400000))
                                   demoPage)) ! 1)"
    using all u1 demoStampedBody_reads
    by (simp add: demoPage_lookup demoEnv_fields)
  have w: "innerHTML (document (snd (loadWeatherData (demoEnv (JsonBody demoStampedBody) (Some 0))
                               demoPage)) ! 3)
     = innerHTML (document (snd (loadWeatherData
                                   (demoEnv (JsonBody demoStampedBody) (Some 86400000))
                                   demoPage)) ! 3)"
    using all u2 by (simp add: demoPage_lookup demoEnv_fields)
  have s: "innerHTML (document (snd (loadGovernmentSchemes (demoEnv (JsonBody demoStampedBody) (Some 0))
                               demoPage)) ! 5)
     = innerHTML (document (snd (loadGovernmentSchemes
                                   (demoEnv (JsonBody demoStampedBody) (Some 86400000))
                                   demoPage)) ! 5)"
    using all u3 by (simp add: demoPage_lookup demoEnv_fields)
  have c: "innerHTML (document (snd (loadCropRecommendations (demoEnv (JsonBody demoStampedBody) (Some 0))
                               demoPage)) ! 7)
     = innerHTML (document (snd (loadCropRecommendations
                                   (demoEnv (JsonBody demoStampedBody) (Some 86400000))
                                   demoPage)) ! 7)"
    using all u4 by (simp add: demoPage_lookup demoEnv_fields)
  from m w s c show ?thesis by simp
qed

section \<open>The handlers and the helper of the specification\<close>

lemma specHelper_trace:
  "trace w = [] \<Longrightarrow>
     trace (snd (specHelper loading err url mapper render containerId e w)) = [] \<or>
     (\<exists>k x y. trace (snd (specHelper loading err url mapper render containerId e w)) =
                [SetInnerHTML k x, Fetch url, SetInnerHTML k y])"
  by (simp add: specHelper_def Let_def trace_setInnerHTML trace_fetch
      split: option.splits response.splits)

lemma runService_trace:
  assumes "firstElementById (document w) (containerIds s) = Some c"
    and "requestUrl s (browser e) (setInnerHTML c (loadingHtml s) w) = Some u"
    and "trace w = []"
  shows "trace (snd (runService s e w)) =
           [SetInnerHTML c (loadingHtml s), Fetch u, SetInnerHTML c (shownAfter s e u)]"
  unfolding runService_url(1) [OF assms(1,2)]
  using assms(3) by (simp add: trace_setInnerHTML trace_fetch)

text \<open>
  A service whose request address differs on two pages is not the helper of the
  specification at any choice of its parameters: the helper asks for one address.
\<close>

lemma no_specHelper:
  fixes s :: "'n service" and e :: "'n env"
  assumes "firstElementById (document w) (containerIds s) = Some c"
    and "firstElementById (document w') (containerIds s) = Some c'"
    and "requestUrl s (browser e) (setInnerHTML c (loadingHtml s) w) = Some u"
    and "requestUrl s (browser e) (setInnerHTML c' (loadingHtml s) w') = Some u'"
    and "trace w = []" and "trace w' = []" and "u \<noteq> u'"
  shows "\<not> (\<exists>loading err url (mapper :: 'n jsval \<Rightarrow> 'a option) render containerId.
            \<forall>e' w''. specHelper loading err url mapper render containerId e' w''
                       = runService s e' w'')"
proof
  assume "\<exists>loading err url (mapper :: 'n jsval \<Rightarrow> 'a option) render containerId.
            \<forall>e' w''. specHelper loading err url mapper render containerId e' w''
                       = runService s e' w''"
  then obtain loading err url and mapper :: "'n jsval \<Rightarrow> 'a option" and render containerId
    where eq: "\<And>e' w''. specHelper loading err url mapper render containerId e' w''
                       = runService s e' w''"
    by blast
  have "trace (snd (specHelper loading err url mapper render containerId e w)) =
          [SetInnerHTML c (loadingHtml s), Fetch u, SetInnerHTML c (shownAfter s e u)]"
    unfolding eq by (rule runService_trace [OF assms(1,3,5)])
  with specHelper_trace [OF assms(5), of loading err url mapper render containerId e]
  have 1: "url = u" by auto
  have "trace (snd (specHelper loading err url mapper render containerId e w')) =
          [SetInnerHTML c' (loadingHtml s), Fetch u', SetInnerHTML c' (shownAfter s e u')]"
    unfolding eq by (rule runService_trace [OF assms(2,4,6)])
  with specHelper_trace [OF assms(6), of loading err url mapper render containerId e]
  have 2: "url = u'" by auto
  from 1 2 assms(7) show False by simp
qed

lemma punePage_lookup: "document punePage = document demoPage"
  by (simp add: punePage_def)

lemma demo_urls:
  "marketPricesUrl demoHost (setInnerHTML c html demoPage) =
     Some (marketPricesUrlTemplate (asc ''Delhi'') (showNumber (Some 28)) (showNumber (Some 77)))"
  "marketPricesUrl demoHost (setInnerHTML c html punePage) =
     Some (marketPricesUrlTemplate (asc ''Pune'') (showNumber (Some 28)) (showNumber (Some 77)))"
  "weatherUrl demoHost (setInnerHTML c html demoPage) =
     Some (weatherUrlTemplate (asc ''Delhi'') (showNumber (Some 28)) (showNumber (Some 77)))"
  "weatherUrl demoHost (setInnerHTML c html punePage) =
     Some (weatherUrlTemplate (asc ''Pune'') (showNumber (Some 28)) (showNumber (Some 77)))"
  "schemesUrl demoHost (setInnerHTML c html demoPage) = Some (schemesUrlTemplate (asc ''Delhi''))"
  "schemesUrl demoHost (setInnerHTML c html punePage) = Some (schemesUrlTemplate (asc ''Pune''))"
  "cropsUrl demoHost (setInnerHTML c html demoPage) = Some (cropsUrlTemplate (asc ''Delhi''))"
  "cropsUrl demoHost (setInnerHTML c html punePage) = Some (cropsUrlTemplate (asc ''Pune''))"
  by (simp_all add: marketPricesUrl_def weatherUrl_def schemesUrl_def cropsUrl_def
      setInnerHTML_def demoPage_def punePage_def demoHost_def)

lemma demo_urls_differ:
  "marketPricesUrlTemplate (asc ''Delhi'') lat lon \<noteq> marketPricesUrlTemplate (asc ''Pune'') lat lon"
  "weatherUrlTemplate (asc ''Delhi'') lat lon \<noteq> weatherUrlTemplate (asc ''Pune'') lat lon"
  "schemesUrlTemplate (asc ''Delhi'') \<noteq> schemesUrlTemplate (asc ''Pune'')"
  "cropsUrlTemplate (asc ''Delhi'') \<noteq> cropsUrlTemplate (asc ''Pune'')"
  by (simp_all add: marketPricesUrlTemplate_def weatherUrlTemplate_def schemesUrlTemplate_def
      cropsUrlTemplate_def asc_def)

lemma demo_traces: "trace demoPage = []" "trace punePage = []"
  by (simp_all add: demoPage_def punePage_def)

text \<open>
  The claim C8 as written fails: none of the four handlers is the helper with the four
  parameters of the specification, whatever the parameters, the placeholder and the
  error string are. A handler asks for an address built from the location of the page,
  and the location can change.
\<close>

theorem handlers_are_not_specHelper:
  "\<not> (\<exists>loading err url (mapper :: int option jsval \<Rightarrow> int option jsval option) render
         containerId.
         \<forall>e w. specHelper loading err url mapper render containerId e w
                 = loadMarketPrices e w) \<and>
   \<not> (\<exists>loading err url (mapper :: int option jsval \<Rightarrow> int option jsval option) render
         containerId.
         \<forall>e w. specHelper loading err url mapper render containerId e w
                 = loadWeatherData e w) \<and>
   \<not> (\<exists>loading err url (mapper :: int option jsval \<Rightarrow> int option jsval option) render
         containerId.
         \<forall>e w. specHelper loading err url mapper render containerId e w
                 = loadGovernmentSchemes e w) \<and>
   \<not> (\<exists>loading err url (mapper :: int option jsval \<Rightarrow> int option jsval option) render
         containerId.
         \<forall>e w. specHelper loading err url mapper render containerId e w
                 = loadCropRecommendations e w)"
proof (intro conjI)
  let ?e = "demoEnv FetchRejected None"
  have m: "firstElementById (document demoPage) (containerIds marketService) = Some 1"
    by (simp add: market_fields demoPage_lookup)
  have w: "firstElementById (document demoPage) (containerIds weatherService) = Some 3"
    by (simp add: weather_fields demoPage_lookup)
  have s: "firstElementById (document demoPage) (containerIds schemesService) = Some 5"
    by (simp add: schemes_fields demoPage_lookup)
  have c: "firstElementById (document demoPage) (containerIds cropsService) = Some 7"
    by (simp add: crops_fields demoPage_lookup)
  show "\<not> (\<exists>loading err url (mapper :: int option jsval \<Rightarrow> int option jsval option) render
         containerId.
         \<forall>e w. specHelper loading err url mapper render containerId e w
                 = loadMarketPrices e w)"
    unfolding loadMarketPrices_service
    by (rule no_specHelper [where e = ?e and w = demoPage and w' = punePage and c = 1 and c' = 1
          and u = "marketPricesUrlTemplate (asc ''Delhi'') (showNumber (Some 28)) (showNumber (Some 77))"
          and u' = "marketPricesUrlTemplate (asc ''Pune'') (showNumber (Some 28)) (showNumber (Some 77))"])
       (simp_all add: punePage_lookup demoPage_lookup m demoEnv_fields market_fields demo_urls demo_urls_differ
          demo_traces)
  show "\<not> (\<exists>loading err url (mapper :: int option jsval \<Rightarrow> int option jsval option) render
         containerId.
         \<forall>e w. specHelper loading err url mapper render containerId e w
                 = loadWeatherData e w)"
    unfolding loadWeatherData_service
    by (rule no_specHelper [where e = ?e and w = demoPage and w' = punePage and c = 3 and c' = 3
          and u = "weatherUrlTemplate (asc ''Delhi'') (showNumber (Some 28)) (showNumber (Some 77))"
          and u' = "weatherUrlTemplate (asc ''Pune'') (showNumber (Some 28)) (showNumber (Some 77))"])
       (simp_all add: punePage_lookup demoPage_lookup w demoEnv_fields weather_fields demo_urls demo_urls_differ
          demo_traces)
  show "\<not> (\<exists>loading err url (mapper :: int option jsval \<Rightarrow> int option jsval option) render
         containerId.
         \<forall>e w. specHelper loading err url mapper render containerId e w
                 = loadGovernmentSchemes e w)"
    unfolding loadGovernmentSchemes_service
    by (rule no_specHelper [where e = ?e and w = demoPage and w' = punePage and c = 5 and c' = 5
          and u = "schemesUrlTemplate (asc ''Delhi'')"
          and u' = "schemesUrlTemplate (asc ''Pune'')"])
       (simp_all add: punePage_lookup demoPage_lookup s demoEnv_fields schemes_fields demo_urls demo_urls_differ
          demo_traces)
  show "\<not> (\<exists>loading err url (mapper :: int option jsval \<Rightarrow> int option jsval option) render
         containerId.
         \<forall>e w. specHelper loading err url mapper render containerId e w
                 = loadCropRecommendations e w)"
    unfolding loadCropRecommendations_service
    by (rule no_specHelper [where e = ?e and w = demoPage and w' = punePage and c = 7 and c' = 7
          and u = "cropsUrlTemplate (asc ''Delhi'')"
          and u' = "cropsUrlTemplate (asc ''Pune'')"])
       (simp_all add: punePage_lookup demoPage_lookup c demoEnv_fields crops_fields demo_urls demo_urls_differ
          demo_traces)
qed

text \<open>
  C8, as the code has it. Each of the four handlers is the common handler \<open>runService\<close>
  at its service: the ids under which the container is looked for, in order, the
  loading placeholder, the request address as a function of the browser and the page
  state, the markup as a function of the browser, the clock and the body, which may
  fail, and the error markup.
\<close>

theorem handlers_are_runService:
  "loadMarketPrices e w =
     runService
       \<lparr>containerIds = [asc ''pricesData''], loadingHtml = marketLoadingHtml,
        requestUrl = marketPricesUrl, renderHtml = marketPricesHtml,
        errorHtml = marketErrorHtml\<rparr> e w \<and>
   loadWeatherData e w =
     runService
       \<lparr>containerIds = [asc ''weatherData''], loadingHtml = weatherLoadingHtml,
        requestUrl = weatherUrl, renderHtml = (\<lambda>h now. weatherHtml h),
        errorHtml = weatherErrorHtml\<rparr> e w \<and>
   loadGovernmentSchemes e w =
     runService
       \<lparr>containerIds = [asc ''schemesData''], loadingHtml = schemesLoadingHtml,
        requestUrl = schemesUrl, renderHtml = (\<lambda>h now. schemesHtml h),
        errorHtml = schemesErrorHtml\<rparr> e w \<and>
   loadCropRecommendations e w =
     runService
       \<lparr>containerIds = [asc ''cropsData'', asc ''cropRecommendationsData''],
        loadingHtml = cropsLoadingHtml,
        requestUrl = cropsUrl, renderHtml = (\<lambda>h now. cropsHtml h),
        errorHtml = cropsErrorHtml\<rparr> e w"
  using loadMarketPrices_service [of e w] loadWeatherData_service [of e w]
    loadGovernmentSchemes_service [of e w] loadCropRecommendations_service [of e w]
  by (simp add: marketService_def weatherService_def schemesService_def cropsService_def)

text \<open>
  C9. When the container of the service is not in the document, each handler returns
  with the page state as it was: no request in the trace, no change to the document.
\<close>

theorem absent_container_no_effect:
  "(getElementById (document w) (asc ''pricesData'') = None \<longrightarrow> loadMarketPrices e w = (Returned, w)) \<and>
   (getElementById (document w) (asc ''weatherData'') = None \<longrightarrow> loadWeatherData e w = (Returned, w)) \<and>
   (getElementById (document w) (asc ''schemesData'') = None \<longrightarrow> loadGovernmentSchemes e w = (Returned, w)) \<and>
   (cropsContainer (document w) = None \<longrightarrow> loadCropRecommendations e w = (Returned, w))"
  by (rule conjI [OF market_untouched conjI [OF weather_untouched
        conjI [OF schemes_untouched crops_untouched]]])

theorem absent_container_no_effect_witness:
  "getElementById (document emptyPage) (asc ''pricesData'') = None \<and>
   getElementById (document emptyPage) (asc ''weatherData'') = None \<and>
   getElementById (document emptyPage) (asc ''schemesData'') = None \<and>
   cropsContainer (document emptyPage) = None \<and>
   loadMarketPrices (demoEnv (JsonBody demoMarketBody) None) emptyPage = (Returned, emptyPage) \<and>
   loadWeatherData (demoEnv (JsonBody demoMarketBody) None) emptyPage = (Returned, emptyPage) \<and>
   loadGovernmentSchemes (demoEnv (JsonBody demoMarketBody) None) emptyPage
     = (Returned, emptyPage) \<and>
   loadCropRecommendations (demoEnv (JsonBody demoMarketBody) None) emptyPage
     = (Returned, emptyPage)"
  using absent_container_no_effect [of emptyPage "demoEnv (JsonBody demoMarketBody) None"]
  by (simp add: emptyPage_lookup)

section \<open>The active section after \<open>showService\<close>\<close>




















text \<open>
  The placeholders and the messages of the four services build no active section.
\<close>

lemma fixed_markup_builds:
  "\<forall>markup \<in> set [marketLoadingHtml, marketUnavailableHtml, marketErrorHtml,
                     weatherLoadingHtml, weatherUnavailableHtml, weatherErrorHtml,
                     schemesLoadingHtml, schemesUnavailableHtml, schemesErrorHtml,
                     cropsLoadingHtml, cropsUnavailableHtml, cropsErrorHtml].
     filter isActiveSection (scanClasses markup) = []"
  by (simp add: scanClasses_def marketLoadingHtml_def marketUnavailableHtml_def
      marketErrorHtml_def weatherLoadingHtml_def weatherUnavailableHtml_def weatherErrorHtml_def
      schemesLoadingHtml_def schemesUnavailableHtml_def schemesErrorHtml_def cropsLoadingHtml_def
      cropsUnavailableHtml_def cropsErrorHtml_def asc_def isAsciiLetter_def isMarkupSpace_def
      lowerAscii_def noteAttr_def tagClasses_def isActiveSection_def)





end
